theory Spec2Isabelle
  imports Main "HOL-Library.Word"
begin

section \<open>ECMAScript values used by the program\<close>

text \<open>
  The program is a single TypeScript module (\<^verbatim>\<open>src/App.tsx\<close>). Its index sequences are
  arrays of ECMAScript numbers. Every number that the program computes is either an
  integer far inside the range in which IEEE doubles are exact, or \<^verbatim>\<open>NaN\<close> (the result of
  arithmetic on \<^verbatim>\<open>undefined\<close>, or of a remainder by zero).
\<close>

datatype num = Num int | NaN

fun js_add :: "num \<Rightarrow> num \<Rightarrow> num" where
  "js_add (Num a) (Num b) = Num (a + b)"
| "js_add _ _ = NaN"

fun js_sub :: "num \<Rightarrow> num \<Rightarrow> num" where
  "js_sub (Num a) (Num b) = Num (a - b)"
| "js_sub _ _ = NaN"

text \<open>
  The operator \<^verbatim>\<open>%\<close> truncates: the remainder takes the sign of the dividend, and a zero
  divisor gives \<^verbatim>\<open>NaN\<close>.
\<close>

definition trunc_rem :: "int \<Rightarrow> int \<Rightarrow> int" where
  "trunc_rem a b = sgn a * (\<bar>a\<bar> mod \<bar>b\<bar>)"

fun js_rem :: "num \<Rightarrow> num \<Rightarrow> num" where
  "js_rem (Num a) (Num b) = (if b = 0 then NaN else Num (trunc_rem a b))"
| "js_rem _ _ = NaN"

text \<open>
  \<^verbatim>\<open>p[i]\<close> in an arithmetic expression: an index past the end reads \<^verbatim>\<open>undefined\<close>, which
  arithmetic converts to \<^verbatim>\<open>NaN\<close>.
\<close>

definition num_at :: "num list \<Rightarrow> nat \<Rightarrow> num" where
  "num_at p i = (if i < length p then p ! i else NaN)"

section \<open>ECMAScript strings\<close>

text \<open>
  A string is a sequence of UTF-16 code units; \<^verbatim>\<open>length\<close>, \<^verbatim>\<open>s[i]\<close> and a regular expression
  without the \<^verbatim>\<open>u\<close> flag work on code units, while the string iterator (\<^verbatim>\<open>for ... of\<close>, the
  spread \<^verbatim>\<open>[...s]\<close>), \<^verbatim>\<open>toUpperCase\<close> and \<^verbatim>\<open>normalize\<close> work on code points. A code unit is
  a natural number below \<open>0x10000\<close>, a code point one below \<open>0x110000\<close>.
\<close>

type_synonym js_string = "nat list"

definition ascii :: "string \<Rightarrow> js_string" where
  "ascii s = map (of_char :: char \<Rightarrow> nat) s"

definition is_high :: "nat \<Rightarrow> bool" where
  "is_high u \<longleftrightarrow> 0xD800 \<le> u \<and> u \<le> 0xDBFF"

definition is_low :: "nat \<Rightarrow> bool" where
  "is_low u \<longleftrightarrow> 0xDC00 \<le> u \<and> u \<le> 0xDFFF"

text \<open>
  The code points of a string: a high surrogate followed by a low surrogate is one code
  point; every other code unit, a lone surrogate too, is a code point by itself.
\<close>

fun code_points :: "js_string \<Rightarrow> nat list" where
  "code_points (h # l # us) =
     (if is_high h \<and> is_low l
      then (0x10000 + (h - 0xD800) * 0x400 + (l - 0xDC00)) # code_points us
      else h # code_points (l # us))"
| "code_points us = us"

definition utf16 :: "nat \<Rightarrow> js_string" where
  "utf16 c = (if c < 0x10000 then [c]
              else [0xD800 + (c - 0x10000) div 0x400, 0xDC00 + (c - 0x10000) mod 0x400])"

definition from_code_points :: "nat list \<Rightarrow> js_string" where
  "from_code_points cs = concat (map utf16 cs)"

text \<open>The strings that the iterator of \<open>s\<close> yields, one for each code point.\<close>

definition chars :: "js_string \<Rightarrow> js_string list" where
  "chars s = map utf16 (code_points s)"

text \<open>\<^verbatim>\<open>s.includes(t)\<close>: \<open>t\<close> occurs in \<open>s\<close> as a contiguous run of code units.\<close>

fun includes_str :: "js_string \<Rightarrow> js_string \<Rightarrow> bool" where
  "includes_str [] t = (t = [])"
| "includes_str (x # xs) t = (take (length t) (x # xs) = t \<or> includes_str xs t)"

text \<open>\<^verbatim>\<open>s.indexOf(t)\<close>: the first position where \<open>t\<close> occurs in \<open>s\<close>, or \<open>-1\<close>.\<close>

fun index_from :: "js_string \<Rightarrow> js_string \<Rightarrow> int \<Rightarrow> int" where
  "index_from [] t k = (if t = [] then k else - 1)"
| "index_from (x # xs) t k =
     (if take (length t) (x # xs) = t then k else index_from xs t (k + 1))"

definition indexOf :: "js_string \<Rightarrow> js_string \<Rightarrow> int" where
  "indexOf s t = index_from s t 0"

text \<open>
  \<^verbatim>\<open>s[i]\<close> as an element handed to \<^verbatim>\<open>join("")\<close>: the code unit at \<open>i\<close>, or \<^verbatim>\<open>undefined\<close>, which
  \<^verbatim>\<open>join\<close> renders as the empty string, when \<open>i\<close> is not an index of \<open>s\<close>.
\<close>

fun char_at :: "js_string \<Rightarrow> num \<Rightarrow> js_string" where
  "char_at s (Num i) = (if 0 \<le> i \<and> i < int (length s) then [s ! nat i] else [])"
| "char_at s NaN = []"

text \<open>The decimal digits of a length, as a template literal prints it.\<close>

fun decimal :: "nat \<Rightarrow> js_string" where
  "decimal n = (if n < 10 then [0x30 + n] else decimal (n div 10) @ [0x30 + n mod 10])"

section \<open>The Unicode character data behind \<^verbatim>\<open>toUpperCase\<close> and \<^verbatim>\<open>normalize("NFD")\<close>\<close>

text \<open>
  Both built-ins are defined by the Unicode Character Database, here in version 14.0.0:
  \<^item> \<open>upper_blocks\<close>: the full uppercase mapping (\<^verbatim>\<open>UnicodeData.txt\<close> and the unconditional
    entries of \<^verbatim>\<open>SpecialCasing.txt\<close>) of every code point that it changes;
  \<^item> \<open>decomposition_blocks\<close>: the full canonical decomposition of every code point that
    has one, the Hangul syllables apart, which are decomposed by arithmetic;
  \<^item> \<open>ccc_blocks\<close>: the ranges of code points with a non-zero canonical combining class.
  Each table is cut into blocks of 32 entries in code point order; a block is stored with
  its greatest code point.
\<close>

type_synonym mapping_table = "(nat \<times> nat list) list"
type_synonym class_table = "(nat \<times> nat \<times> nat) list"

definition upper_00 :: "mapping_table" where
  "upper_00 = [
   (0x61, [0x41]), (0x62, [0x42]), (0x63, [0x43]), (0x64, [0x44]), (0x65, [0x45]),
   (0x66, [0x46]), (0x67, [0x47]), (0x68, [0x48]), (0x69, [0x49]), (0x6A, [0x4A]),
   (0x6B, [0x4B]), (0x6C, [0x4C]), (0x6D, [0x4D]), (0x6E, [0x4E]), (0x6F, [0x4F]),
   (0x70, [0x50]), (0x71, [0x51]), (0x72, [0x52]), (0x73, [0x53]), (0x74, [0x54]),
   (0x75, [0x55]), (0x76, [0x56]), (0x77, [0x57]), (0x78, [0x58]), (0x79, [0x59]),
   (0x7A, [0x5A]), (0xB5, [0x39C]), (0xDF, [0x53, 0x53]), (0xE0, [0xC0]), (0xE1, [0xC1]),
   (0xE2, [0xC2]), (0xE3, [0xC3])]"

definition upper_01 :: "mapping_table" where
  "upper_01 = [
   (0xE4, [0xC4]), (0xE5, [0xC5]), (0xE6, [0xC6]), (0xE7, [0xC7]), (0xE8, [0xC8]),
   (0xE9, [0xC9]), (0xEA, [0xCA]), (0xEB, [0xCB]), (0xEC, [0xCC]), (0xED, [0xCD]),
   (0xEE, [0xCE]), (0xEF, [0xCF]), (0xF0, [0xD0]), (0xF1, [0xD1]), (0xF2, [0xD2]),
   (0xF3, [0xD3]), (0xF4, [0xD4]), (0xF5, [0xD5]), (0xF6, [0xD6]), (0xF8, [0xD8]),
   (0xF9, [0xD9]), (0xFA, [0xDA]), (0xFB, [0xDB]), (0xFC, [0xDC]), (0xFD, [0xDD]),
   (0xFE, [0xDE]), (0xFF, [0x178]), (0x101, [0x100]), (0x103, [0x102]), (0x105, [0x104]),
   (0x107, [0x106]), (0x109, [0x108])]"

definition upper_02 :: "mapping_table" where
  "upper_02 = [
   (0x10B, [0x10A]), (0x10D, [0x10C]), (0x10F, [0x10E]), (0x111, [0x110]),
   (0x113, [0x112]), (0x115, [0x114]), (0x117, [0x116]), (0x119, [0x118]),
   (0x11B, [0x11A]), (0x11D, [0x11C]), (0x11F, [0x11E]), (0x121, [0x120]),
   (0x123, [0x122]), (0x125, [0x124]), (0x127, [0x126]), (0x129, [0x128]),
   (0x12B, [0x12A]), (0x12D, [0x12C]), (0x12F, [0x12E]), (0x131, [0x49]), (0x133, [0x132]),
   (0x135, [0x134]), (0x137, [0x136]), (0x13A, [0x139]), (0x13C, [0x13B]),
   (0x13E, [0x13D]), (0x140, [0x13F]), (0x142, [0x141]), (0x144, [0x143]),
   (0x146, [0x145]), (0x148, [0x147]), (0x149, [0x2BC, 0x4E])]"

definition upper_03 :: "mapping_table" where
  "upper_03 = [
   (0x14B, [0x14A]), (0x14D, [0x14C]), (0x14F, [0x14E]), (0x151, [0x150]),
   (0x153, [0x152]), (0x155, [0x154]), (0x157, [0x156]), (0x159, [0x158]),
   (0x15B, [0x15A]), (0x15D, [0x15C]), (0x15F, [0x15E]), (0x161, [0x160]),
   (0x163, [0x162]), (0x165, [0x164]), (0x167, [0x166]), (0x169, [0x168]),
   (0x16B, [0x16A]), (0x16D, [0x16C]), (0x16F, [0x16E]), (0x171, [0x170]),
   (0x173, [0x172]), (0x175, [0x174]), (0x177, [0x176]), (0x17A, [0x179]),
   (0x17C, [0x17B]), (0x17E, [0x17D]), (0x17F, [0x53]), (0x180, [0x243]), (0x183, [0x182]),
   (0x185, [0x184]), (0x188, [0x187]), (0x18C, [0x18B])]"

definition upper_04 :: "mapping_table" where
  "upper_04 = [
   (0x192, [0x191]), (0x195, [0x1F6]), (0x199, [0x198]), (0x19A, [0x23D]),
   (0x19E, [0x220]), (0x1A1, [0x1A0]), (0x1A3, [0x1A2]), (0x1A5, [0x1A4]),
   (0x1A8, [0x1A7]), (0x1AD, [0x1AC]), (0x1B0, [0x1AF]), (0x1B4, [0x1B3]),
   (0x1B6, [0x1B5]), (0x1B9, [0x1B8]), (0x1BD, [0x1BC]), (0x1BF, [0x1F7]),
   (0x1C5, [0x1C4]), (0x1C6, [0x1C4]), (0x1C8, [0x1C7]), (0x1C9, [0x1C7]),
   (0x1CB, [0x1CA]), (0x1CC, [0x1CA]), (0x1CE, [0x1CD]), (0x1D0, [0x1CF]),
   (0x1D2, [0x1D1]), (0x1D4, [0x1D3]), (0x1D6, [0x1D5]), (0x1D8, [0x1D7]),
   (0x1DA, [0x1D9]), (0x1DC, [0x1DB]), (0x1DD, [0x18E]), (0x1DF, [0x1DE])]"

definition upper_05 :: "mapping_table" where
  "upper_05 = [
   (0x1E1, [0x1E0]), (0x1E3, [0x1E2]), (0x1E5, [0x1E4]), (0x1E7, [0x1E6]),
   (0x1E9, [0x1E8]), (0x1EB, [0x1EA]), (0x1ED, [0x1EC]), (0x1EF, [0x1EE]),
   (0x1F0, [0x4A, 0x30C]), (0x1F2, [0x1F1]), (0x1F3, [0x1F1]), (0x1F5, [0x1F4]),
   (0x1F9, [0x1F8]), (0x1FB, [0x1FA]), (0x1FD, [0x1FC]), (0x1FF, [0x1FE]),
   (0x201, [0x200]), (0x203, [0x202]), (0x205, [0x204]), (0x207, [0x206]),
   (0x209, [0x208]), (0x20B, [0x20A]), (0x20D, [0x20C]), (0x20F, [0x20E]),
   (0x211, [0x210]), (0x213, [0x212]), (0x215, [0x214]), (0x217, [0x216]),
   (0x219, [0x218]), (0x21B, [0x21A]), (0x21D, [0x21C]), (0x21F, [0x21E])]"

definition upper_06 :: "mapping_table" where
  "upper_06 = [
   (0x223, [0x222]), (0x225, [0x224]), (0x227, [0x226]), (0x229, [0x228]),
   (0x22B, [0x22A]), (0x22D, [0x22C]), (0x22F, [0x22E]), (0x231, [0x230]),
   (0x233, [0x232]), (0x23C, [0x23B]), (0x23F, [0x2C7E]), (0x240, [0x2C7F]),
   (0x242, [0x241]), (0x247, [0x246]), (0x249, [0x248]), (0x24B, [0x24A]),
   (0x24D, [0x24C]), (0x24F, [0x24E]), (0x250, [0x2C6F]), (0x251, [0x2C6D]),
   (0x252, [0x2C70]), (0x253, [0x181]), (0x254, [0x186]), (0x256, [0x189]),
   (0x257, [0x18A]), (0x259, [0x18F]), (0x25B, [0x190]), (0x25C, [0xA7AB]),
   (0x260, [0x193]), (0x261, [0xA7AC]), (0x263, [0x194]), (0x265, [0xA78D])]"

definition upper_07 :: "mapping_table" where
  "upper_07 = [
   (0x266, [0xA7AA]), (0x268, [0x197]), (0x269, [0x196]), (0x26A, [0xA7AE]),
   (0x26B, [0x2C62]), (0x26C, [0xA7AD]), (0x26F, [0x19C]), (0x271, [0x2C6E]),
   (0x272, [0x19D]), (0x275, [0x19F]), (0x27D, [0x2C64]), (0x280, [0x1A6]),
   (0x282, [0xA7C5]), (0x283, [0x1A9]), (0x287, [0xA7B1]), (0x288, [0x1AE]),
   (0x289, [0x244]), (0x28A, [0x1B1]), (0x28B, [0x1B2]), (0x28C, [0x245]),
   (0x292, [0x1B7]), (0x29D, [0xA7B2]), (0x29E, [0xA7B0]), (0x345, [0x399]),
   (0x371, [0x370]), (0x373, [0x372]), (0x377, [0x376]), (0x37B, [0x3FD]),
   (0x37C, [0x3FE]), (0x37D, [0x3FF]), (0x390, [0x399, 0x308, 0x301]), (0x3AC, [0x386])]"

definition upper_08 :: "mapping_table" where
  "upper_08 = [
   (0x3AD, [0x388]), (0x3AE, [0x389]), (0x3AF, [0x38A]), (0x3B0, [0x3A5, 0x308, 0x301]),
   (0x3B1, [0x391]), (0x3B2, [0x392]), (0x3B3, [0x393]), (0x3B4, [0x394]),
   (0x3B5, [0x395]), (0x3B6, [0x396]), (0x3B7, [0x397]), (0x3B8, [0x398]),
   (0x3B9, [0x399]), (0x3BA, [0x39A]), (0x3BB, [0x39B]), (0x3BC, [0x39C]),
   (0x3BD, [0x39D]), (0x3BE, [0x39E]), (0x3BF, [0x39F]), (0x3C0, [0x3A0]),
   (0x3C1, [0x3A1]), (0x3C2, [0x3A3]), (0x3C3, [0x3A3]), (0x3C4, [0x3A4]),
   (0x3C5, [0x3A5]), (0x3C6, [0x3A6]), (0x3C7, [0x3A7]), (0x3C8, [0x3A8]),
   (0x3C9, [0x3A9]), (0x3CA, [0x3AA]), (0x3CB, [0x3AB]), (0x3CC, [0x38C])]"

definition upper_09 :: "mapping_table" where
  "upper_09 = [
   (0x3CD, [0x38E]), (0x3CE, [0x38F]), (0x3D0, [0x392]), (0x3D1, [0x398]),
   (0x3D5, [0x3A6]), (0x3D6, [0x3A0]), (0x3D7, [0x3CF]), (0x3D9, [0x3D8]),
   (0x3DB, [0x3DA]), (0x3DD, [0x3DC]), (0x3DF, [0x3DE]), (0x3E1, [0x3E0]),
   (0x3E3, [0x3E2]), (0x3E5, [0x3E4]), (0x3E7, [0x3E6]), (0x3E9, [0x3E8]),
   (0x3EB, [0x3EA]), (0x3ED, [0x3EC]), (0x3EF, [0x3EE]), (0x3F0, [0x39A]),
   (0x3F1, [0x3A1]), (0x3F2, [0x3F9]), (0x3F3, [0x37F]), (0x3F5, [0x395]),
   (0x3F8, [0x3F7]), (0x3FB, [0x3FA]), (0x430, [0x410]), (0x431, [0x411]),
   (0x432, [0x412]), (0x433, [0x413]), (0x434, [0x414]), (0x435, [0x415])]"

definition upper_10 :: "mapping_table" where
  "upper_10 = [
   (0x436, [0x416]), (0x437, [0x417]), (0x438, [0x418]), (0x439, [0x419]),
   (0x43A, [0x41A]), (0x43B, [0x41B]), (0x43C, [0x41C]), (0x43D, [0x41D]),
   (0x43E, [0x41E]), (0x43F, [0x41F]), (0x440, [0x420]), (0x441, [0x421]),
   (0x442, [0x422]), (0x443, [0x423]), (0x444, [0x424]), (0x445, [0x425]),
   (0x446, [0x426]), (0x447, [0x427]), (0x448, [0x428]), (0x449, [0x429]),
   (0x44A, [0x42A]), (0x44B, [0x42B]), (0x44C, [0x42C]), (0x44D, [0x42D]),
   (0x44E, [0x42E]), (0x44F, [0x42F]), (0x450, [0x400]), (0x451, [0x401]),
   (0x452, [0x402]), (0x453, [0x403]), (0x454, [0x404]), (0x455, [0x405])]"

definition upper_11 :: "mapping_table" where
  "upper_11 = [
   (0x456, [0x406]), (0x457, [0x407]), (0x458, [0x408]), (0x459, [0x409]),
   (0x45A, [0x40A]), (0x45B, [0x40B]), (0x45C, [0x40C]), (0x45D, [0x40D]),
   (0x45E, [0x40E]), (0x45F, [0x40F]), (0x461, [0x460]), (0x463, [0x462]),
   (0x465, [0x464]), (0x467, [0x466]), (0x469, [0x468]), (0x46B, [0x46A]),
   (0x46D, [0x46C]), (0x46F, [0x46E]), (0x471, [0x470]), (0x473, [0x472]),
   (0x475, [0x474]), (0x477, [0x476]), (0x479, [0x478]), (0x47B, [0x47A]),
   (0x47D, [0x47C]), (0x47F, [0x47E]), (0x481, [0x480]), (0x48B, [0x48A]),
   (0x48D, [0x48C]), (0x48F, [0x48E]), (0x491, [0x490]), (0x493, [0x492])]"

definition upper_12 :: "mapping_table" where
  "upper_12 = [
   (0x495, [0x494]), (0x497, [0x496]), (0x499, [0x498]), (0x49B, [0x49A]),
   (0x49D, [0x49C]), (0x49F, [0x49E]), (0x4A1, [0x4A0]), (0x4A3, [0x4A2]),
   (0x4A5, [0x4A4]), (0x4A7, [0x4A6]), (0x4A9, [0x4A8]), (0x4AB, [0x4AA]),
   (0x4AD, [0x4AC]), (0x4AF, [0x4AE]), (0x4B1, [0x4B0]), (0x4B3, [0x4B2]),
   (0x4B5, [0x4B4]), (0x4B7, [0x4B6]), (0x4B9, [0x4B8]), (0x4BB, [0x4BA]),
   (0x4BD, [0x4BC]), (0x4BF, [0x4BE]), (0x4C2, [0x4C1]), (0x4C4, [0x4C3]),
   (0x4C6, [0x4C5]), (0x4C8, [0x4C7]), (0x4CA, [0x4C9]), (0x4CC, [0x4CB]),
   (0x4CE, [0x4CD]), (0x4CF, [0x4C0]), (0x4D1, [0x4D0]), (0x4D3, [0x4D2])]"

definition upper_13 :: "mapping_table" where
  "upper_13 = [
   (0x4D5, [0x4D4]), (0x4D7, [0x4D6]), (0x4D9, [0x4D8]), (0x4DB, [0x4DA]),
   (0x4DD, [0x4DC]), (0x4DF, [0x4DE]), (0x4E1, [0x4E0]), (0x4E3, [0x4E2]),
   (0x4E5, [0x4E4]), (0x4E7, [0x4E6]), (0x4E9, [0x4E8]), (0x4EB, [0x4EA]),
   (0x4ED, [0x4EC]), (0x4EF, [0x4EE]), (0x4F1, [0x4F0]), (0x4F3, [0x4F2]),
   (0x4F5, [0x4F4]), (0x4F7, [0x4F6]), (0x4F9, [0x4F8]), (0x4FB, [0x4FA]),
   (0x4FD, [0x4FC]), (0x4FF, [0x4FE]), (0x501, [0x500]), (0x503, [0x502]),
   (0x505, [0x504]), (0x507, [0x506]), (0x509, [0x508]), (0x50B, [0x50A]),
   (0x50D, [0x50C]), (0x50F, [0x50E]), (0x511, [0x510]), (0x513, [0x512])]"

definition upper_14 :: "mapping_table" where
  "upper_14 = [
   (0x515, [0x514]), (0x517, [0x516]), (0x519, [0x518]), (0x51B, [0x51A]),
   (0x51D, [0x51C]), (0x51F, [0x51E]), (0x521, [0x520]), (0x523, [0x522]),
   (0x525, [0x524]), (0x527, [0x526]), (0x529, [0x528]), (0x52B, [0x52A]),
   (0x52D, [0x52C]), (0x52F, [0x52E]), (0x561, [0x531]), (0x562, [0x532]),
   (0x563, [0x533]), (0x564, [0x534]), (0x565, [0x535]), (0x566, [0x536]),
   (0x567, [0x537]), (0x568, [0x538]), (0x569, [0x539]), (0x56A, [0x53A]),
   (0x56B, [0x53B]), (0x56C, [0x53C]), (0x56D, [0x53D]), (0x56E, [0x53E]),
   (0x56F, [0x53F]), (0x570, [0x540]), (0x571, [0x541]), (0x572, [0x542])]"

definition upper_15 :: "mapping_table" where
  "upper_15 = [
   (0x573, [0x543]), (0x574, [0x544]), (0x575, [0x545]), (0x576, [0x546]),
   (0x577, [0x547]), (0x578, [0x548]), (0x579, [0x549]), (0x57A, [0x54A]),
   (0x57B, [0x54B]), (0x57C, [0x54C]), (0x57D, [0x54D]), (0x57E, [0x54E]),
   (0x57F, [0x54F]), (0x580, [0x550]), (0x581, [0x551]), (0x582, [0x552]),
   (0x583, [0x553]), (0x584, [0x554]), (0x585, [0x555]), (0x586, [0x556]),
   (0x587, [0x535, 0x552]), (0x10D0, [0x1C90]), (0x10D1, [0x1C91]), (0x10D2, [0x1C92]),
   (0x10D3, [0x1C93]), (0x10D4, [0x1C94]), (0x10D5, [0x1C95]), (0x10D6, [0x1C96]),
   (0x10D7, [0x1C97]), (0x10D8, [0x1C98]), (0x10D9, [0x1C99]), (0x10DA, [0x1C9A])]"

definition upper_16 :: "mapping_table" where
  "upper_16 = [
   (0x10DB, [0x1C9B]), (0x10DC, [0x1C9C]), (0x10DD, [0x1C9D]), (0x10DE, [0x1C9E]),
   (0x10DF, [0x1C9F]), (0x10E0, [0x1CA0]), (0x10E1, [0x1CA1]), (0x10E2, [0x1CA2]),
   (0x10E3, [0x1CA3]), (0x10E4, [0x1CA4]), (0x10E5, [0x1CA5]), (0x10E6, [0x1CA6]),
   (0x10E7, [0x1CA7]), (0x10E8, [0x1CA8]), (0x10E9, [0x1CA9]), (0x10EA, [0x1CAA]),
   (0x10EB, [0x1CAB]), (0x10EC, [0x1CAC]), (0x10ED, [0x1CAD]), (0x10EE, [0x1CAE]),
   (0x10EF, [0x1CAF]), (0x10F0, [0x1CB0]), (0x10F1, [0x1CB1]), (0x10F2, [0x1CB2]),
   (0x10F3, [0x1CB3]), (0x10F4, [0x1CB4]), (0x10F5, [0x1CB5]), (0x10F6, [0x1CB6]),
   (0x10F7, [0x1CB7]), (0x10F8, [0x1CB8]), (0x10F9, [0x1CB9]), (0x10FA, [0x1CBA])]"

definition upper_17 :: "mapping_table" where
  "upper_17 = [
   (0x10FD, [0x1CBD]), (0x10FE, [0x1CBE]), (0x10FF, [0x1CBF]), (0x13F8, [0x13F0]),
   (0x13F9, [0x13F1]), (0x13FA, [0x13F2]), (0x13FB, [0x13F3]), (0x13FC, [0x13F4]),
   (0x13FD, [0x13F5]), (0x1C80, [0x412]), (0x1C81, [0x414]), (0x1C82, [0x41E]),
   (0x1C83, [0x421]), (0x1C84, [0x422]), (0x1C85, [0x422]), (0x1C86, [0x42A]),
   (0x1C87, [0x462]), (0x1C88, [0xA64A]), (0x1D79, [0xA77D]), (0x1D7D, [0x2C63]),
   (0x1D8E, [0xA7C6]), (0x1E01, [0x1E00]), (0x1E03, [0x1E02]), (0x1E05, [0x1E04]),
   (0x1E07, [0x1E06]), (0x1E09, [0x1E08]), (0x1E0B, [0x1E0A]), (0x1E0D, [0x1E0C]),
   (0x1E0F, [0x1E0E]), (0x1E11, [0x1E10]), (0x1E13, [0x1E12]), (0x1E15, [0x1E14])]"

definition upper_18 :: "mapping_table" where
  "upper_18 = [
   (0x1E17, [0x1E16]), (0x1E19, [0x1E18]), (0x1E1B, [0x1E1A]), (0x1E1D, [0x1E1C]),
   (0x1E1F, [0x1E1E]), (0x1E21, [0x1E20]), (0x1E23, [0x1E22]), (0x1E25, [0x1E24]),
   (0x1E27, [0x1E26]), (0x1E29, [0x1E28]), (0x1E2B, [0x1E2A]), (0x1E2D, [0x1E2C]),
   (0x1E2F, [0x1E2E]), (0x1E31, [0x1E30]), (0x1E33, [0x1E32]), (0x1E35, [0x1E34]),
   (0x1E37, [0x1E36]), (0x1E39, [0x1E38]), (0x1E3B, [0x1E3A]), (0x1E3D, [0x1E3C]),
   (0x1E3F, [0x1E3E]), (0x1E41, [0x1E40]), (0x1E43, [0x1E42]), (0x1E45, [0x1E44]),
   (0x1E47, [0x1E46]), (0x1E49, [0x1E48]), (0x1E4B, [0x1E4A]), (0x1E4D, [0x1E4C]),
   (0x1E4F, [0x1E4E]), (0x1E51, [0x1E50]), (0x1E53, [0x1E52]), (0x1E55, [0x1E54])]"

definition upper_19 :: "mapping_table" where
  "upper_19 = [
   (0x1E57, [0x1E56]), (0x1E59, [0x1E58]), (0x1E5B, [0x1E5A]), (0x1E5D, [0x1E5C]),
   (0x1E5F, [0x1E5E]), (0x1E61, [0x1E60]), (0x1E63, [0x1E62]), (0x1E65, [0x1E64]),
   (0x1E67, [0x1E66]), (0x1E69, [0x1E68]), (0x1E6B, [0x1E6A]), (0x1E6D, [0x1E6C]),
   (0x1E6F, [0x1E6E]), (0x1E71, [0x1E70]), (0x1E73, [0x1E72]), (0x1E75, [0x1E74]),
   (0x1E77, [0x1E76]), (0x1E79, [0x1E78]), (0x1E7B, [0x1E7A]), (0x1E7D, [0x1E7C]),
   (0x1E7F, [0x1E7E]), (0x1E81, [0x1E80]), (0x1E83, [0x1E82]), (0x1E85, [0x1E84]),
   (0x1E87, [0x1E86]), (0x1E89, [0x1E88]), (0x1E8B, [0x1E8A]), (0x1E8D, [0x1E8C]),
   (0x1E8F, [0x1E8E]), (0x1E91, [0x1E90]), (0x1E93, [0x1E92]), (0x1E95, [0x1E94])]"

definition upper_20 :: "mapping_table" where
  "upper_20 = [
   (0x1E96, [0x48, 0x331]), (0x1E97, [0x54, 0x308]), (0x1E98, [0x57, 0x30A]),
   (0x1E99, [0x59, 0x30A]), (0x1E9A, [0x41, 0x2BE]), (0x1E9B, [0x1E60]),
   (0x1EA1, [0x1EA0]), (0x1EA3, [0x1EA2]), (0x1EA5, [0x1EA4]), (0x1EA7, [0x1EA6]),
   (0x1EA9, [0x1EA8]), (0x1EAB, [0x1EAA]), (0x1EAD, [0x1EAC]), (0x1EAF, [0x1EAE]),
   (0x1EB1, [0x1EB0]), (0x1EB3, [0x1EB2]), (0x1EB5, [0x1EB4]), (0x1EB7, [0x1EB6]),
   (0x1EB9, [0x1EB8]), (0x1EBB, [0x1EBA]), (0x1EBD, [0x1EBC]), (0x1EBF, [0x1EBE]),
   (0x1EC1, [0x1EC0]), (0x1EC3, [0x1EC2]), (0x1EC5, [0x1EC4]), (0x1EC7, [0x1EC6]),
   (0x1EC9, [0x1EC8]), (0x1ECB, [0x1ECA]), (0x1ECD, [0x1ECC]), (0x1ECF, [0x1ECE]),
   (0x1ED1, [0x1ED0]), (0x1ED3, [0x1ED2])]"

definition upper_21 :: "mapping_table" where
  "upper_21 = [
   (0x1ED5, [0x1ED4]), (0x1ED7, [0x1ED6]), (0x1ED9, [0x1ED8]), (0x1EDB, [0x1EDA]),
   (0x1EDD, [0x1EDC]), (0x1EDF, [0x1EDE]), (0x1EE1, [0x1EE0]), (0x1EE3, [0x1EE2]),
   (0x1EE5, [0x1EE4]), (0x1EE7, [0x1EE6]), (0x1EE9, [0x1EE8]), (0x1EEB, [0x1EEA]),
   (0x1EED, [0x1EEC]), (0x1EEF, [0x1EEE]), (0x1EF1, [0x1EF0]), (0x1EF3, [0x1EF2]),
   (0x1EF5, [0x1EF4]), (0x1EF7, [0x1EF6]), (0x1EF9, [0x1EF8]), (0x1EFB, [0x1EFA]),
   (0x1EFD, [0x1EFC]), (0x1EFF, [0x1EFE]), (0x1F00, [0x1F08]), (0x1F01, [0x1F09]),
   (0x1F02, [0x1F0A]), (0x1F03, [0x1F0B]), (0x1F04, [0x1F0C]), (0x1F05, [0x1F0D]),
   (0x1F06, [0x1F0E]), (0x1F07, [0x1F0F]), (0x1F10, [0x1F18]), (0x1F11, [0x1F19])]"

definition upper_22 :: "mapping_table" where
  "upper_22 = [
   (0x1F12, [0x1F1A]), (0x1F13, [0x1F1B]), (0x1F14, [0x1F1C]), (0x1F15, [0x1F1D]),
   (0x1F20, [0x1F28]), (0x1F21, [0x1F29]), (0x1F22, [0x1F2A]), (0x1F23, [0x1F2B]),
   (0x1F24, [0x1F2C]), (0x1F25, [0x1F2D]), (0x1F26, [0x1F2E]), (0x1F27, [0x1F2F]),
   (0x1F30, [0x1F38]), (0x1F31, [0x1F39]), (0x1F32, [0x1F3A]), (0x1F33, [0x1F3B]),
   (0x1F34, [0x1F3C]), (0x1F35, [0x1F3D]), (0x1F36, [0x1F3E]), (0x1F37, [0x1F3F]),
   (0x1F40, [0x1F48]), (0x1F41, [0x1F49]), (0x1F42, [0x1F4A]), (0x1F43, [0x1F4B]),
   (0x1F44, [0x1F4C]), (0x1F45, [0x1F4D]), (0x1F50, [0x3A5, 0x313]), (0x1F51, [0x1F59]),
   (0x1F52, [0x3A5, 0x313, 0x300]), (0x1F53, [0x1F5B]), (0x1F54, [0x3A5, 0x313, 0x301]),
   (0x1F55, [0x1F5D])]"

definition upper_23 :: "mapping_table" where
  "upper_23 = [
   (0x1F56, [0x3A5, 0x313, 0x342]), (0x1F57, [0x1F5F]), (0x1F60, [0x1F68]),
   (0x1F61, [0x1F69]), (0x1F62, [0x1F6A]), (0x1F63, [0x1F6B]), (0x1F64, [0x1F6C]),
   (0x1F65, [0x1F6D]), (0x1F66, [0x1F6E]), (0x1F67, [0x1F6F]), (0x1F70, [0x1FBA]),
   (0x1F71, [0x1FBB]), (0x1F72, [0x1FC8]), (0x1F73, [0x1FC9]), (0x1F74, [0x1FCA]),
   (0x1F75, [0x1FCB]), (0x1F76, [0x1FDA]), (0x1F77, [0x1FDB]), (0x1F78, [0x1FF8]),
   (0x1F79, [0x1FF9]), (0x1F7A, [0x1FEA]), (0x1F7B, [0x1FEB]), (0x1F7C, [0x1FFA]),
   (0x1F7D, [0x1FFB]), (0x1F80, [0x1F08, 0x399]), (0x1F81, [0x1F09, 0x399]),
   (0x1F82, [0x1F0A, 0x399]), (0x1F83, [0x1F0B, 0x399]), (0x1F84, [0x1F0C, 0x399]),
   (0x1F85, [0x1F0D, 0x399]), (0x1F86, [0x1F0E, 0x399]), (0x1F87, [0x1F0F, 0x399])]"

definition upper_24 :: "mapping_table" where
  "upper_24 = [
   (0x1F88, [0x1F08, 0x399]), (0x1F89, [0x1F09, 0x399]), (0x1F8A, [0x1F0A, 0x399]),
   (0x1F8B, [0x1F0B, 0x399]), (0x1F8C, [0x1F0C, 0x399]), (0x1F8D, [0x1F0D, 0x399]),
   (0x1F8E, [0x1F0E, 0x399]), (0x1F8F, [0x1F0F, 0x399]), (0x1F90, [0x1F28, 0x399]),
   (0x1F91, [0x1F29, 0x399]), (0x1F92, [0x1F2A, 0x399]), (0x1F93, [0x1F2B, 0x399]),
   (0x1F94, [0x1F2C, 0x399]), (0x1F95, [0x1F2D, 0x399]), (0x1F96, [0x1F2E, 0x399]),
   (0x1F97, [0x1F2F, 0x399]), (0x1F98, [0x1F28, 0x399]), (0x1F99, [0x1F29, 0x399]),
   (0x1F9A, [0x1F2A, 0x399]), (0x1F9B, [0x1F2B, 0x399]), (0x1F9C, [0x1F2C, 0x399]),
   (0x1F9D, [0x1F2D, 0x399]), (0x1F9E, [0x1F2E, 0x399]), (0x1F9F, [0x1F2F, 0x399]),
   (0x1FA0, [0x1F68, 0x399]), (0x1FA1, [0x1F69, 0x399]), (0x1FA2, [0x1F6A, 0x399]),
   (0x1FA3, [0x1F6B, 0x399]), (0x1FA4, [0x1F6C, 0x399]), (0x1FA5, [0x1F6D, 0x399]),
   (0x1FA6, [0x1F6E, 0x399]), (0x1FA7, [0x1F6F, 0x399])]"

definition upper_25 :: "mapping_table" where
  "upper_25 = [
   (0x1FA8, [0x1F68, 0x399]), (0x1FA9, [0x1F69, 0x399]), (0x1FAA, [0x1F6A, 0x399]),
   (0x1FAB, [0x1F6B, 0x399]), (0x1FAC, [0x1F6C, 0x399]), (0x1FAD, [0x1F6D, 0x399]),
   (0x1FAE, [0x1F6E, 0x399]), (0x1FAF, [0x1F6F, 0x399]), (0x1FB0, [0x1FB8]),
   (0x1FB1, [0x1FB9]), (0x1FB2, [0x1FBA, 0x399]), (0x1FB3, [0x391, 0x399]),
   (0x1FB4, [0x386, 0x399]), (0x1FB6, [0x391, 0x342]), (0x1FB7, [0x391, 0x342, 0x399]),
   (0x1FBC, [0x391, 0x399]), (0x1FBE, [0x399]), (0x1FC2, [0x1FCA, 0x399]),
   (0x1FC3, [0x397, 0x399]), (0x1FC4, [0x389, 0x399]), (0x1FC6, [0x397, 0x342]),
   (0x1FC7, [0x397, 0x342, 0x399]), (0x1FCC, [0x397, 0x399]), (0x1FD0, [0x1FD8]),
   (0x1FD1, [0x1FD9]), (0x1FD2, [0x399, 0x308, 0x300]), (0x1FD3, [0x399, 0x308, 0x301]),
   (0x1FD6, [0x399, 0x342]), (0x1FD7, [0x399, 0x308, 0x342]), (0x1FE0, [0x1FE8]),
   (0x1FE1, [0x1FE9]), (0x1FE2, [0x3A5, 0x308, 0x300])]"

definition upper_26 :: "mapping_table" where
  "upper_26 = [
   (0x1FE3, [0x3A5, 0x308, 0x301]), (0x1FE4, [0x3A1, 0x313]), (0x1FE5, [0x1FEC]),
   (0x1FE6, [0x3A5, 0x342]), (0x1FE7, [0x3A5, 0x308, 0x342]), (0x1FF2, [0x1FFA, 0x399]),
   (0x1FF3, [0x3A9, 0x399]), (0x1FF4, [0x38F, 0x399]), (0x1FF6, [0x3A9, 0x342]),
   (0x1FF7, [0x3A9, 0x342, 0x399]), (0x1FFC, [0x3A9, 0x399]), (0x214E, [0x2132]),
   (0x2170, [0x2160]), (0x2171, [0x2161]), (0x2172, [0x2162]), (0x2173, [0x2163]),
   (0x2174, [0x2164]), (0x2175, [0x2165]), (0x2176, [0x2166]), (0x2177, [0x2167]),
   (0x2178, [0x2168]), (0x2179, [0x2169]), (0x217A, [0x216A]), (0x217B, [0x216B]),
   (0x217C, [0x216C]), (0x217D, [0x216D]), (0x217E, [0x216E]), (0x217F, [0x216F]),
   (0x2184, [0x2183]), (0x24D0, [0x24B6]), (0x24D1, [0x24B7]), (0x24D2, [0x24B8])]"

definition upper_27 :: "mapping_table" where
  "upper_27 = [
   (0x24D3, [0x24B9]), (0x24D4, [0x24BA]), (0x24D5, [0x24BB]), (0x24D6, [0x24BC]),
   (0x24D7, [0x24BD]), (0x24D8, [0x24BE]), (0x24D9, [0x24BF]), (0x24DA, [0x24C0]),
   (0x24DB, [0x24C1]), (0x24DC, [0x24C2]), (0x24DD, [0x24C3]), (0x24DE, [0x24C4]),
   (0x24DF, [0x24C5]), (0x24E0, [0x24C6]), (0x24E1, [0x24C7]), (0x24E2, [0x24C8]),
   (0x24E3, [0x24C9]), (0x24E4, [0x24CA]), (0x24E5, [0x24CB]), (0x24E6, [0x24CC]),
   (0x24E7, [0x24CD]), (0x24E8, [0x24CE]), (0x24E9, [0x24CF]), (0x2C30, [0x2C00]),
   (0x2C31, [0x2C01]), (0x2C32, [0x2C02]), (0x2C33, [0x2C03]), (0x2C34, [0x2C04]),
   (0x2C35, [0x2C05]), (0x2C36, [0x2C06]), (0x2C37, [0x2C07]), (0x2C38, [0x2C08])]"

definition upper_28 :: "mapping_table" where
  "upper_28 = [
   (0x2C39, [0x2C09]), (0x2C3A, [0x2C0A]), (0x2C3B, [0x2C0B]), (0x2C3C, [0x2C0C]),
   (0x2C3D, [0x2C0D]), (0x2C3E, [0x2C0E]), (0x2C3F, [0x2C0F]), (0x2C40, [0x2C10]),
   (0x2C41, [0x2C11]), (0x2C42, [0x2C12]), (0x2C43, [0x2C13]), (0x2C44, [0x2C14]),
   (0x2C45, [0x2C15]), (0x2C46, [0x2C16]), (0x2C47, [0x2C17]), (0x2C48, [0x2C18]),
   (0x2C49, [0x2C19]), (0x2C4A, [0x2C1A]), (0x2C4B, [0x2C1B]), (0x2C4C, [0x2C1C]),
   (0x2C4D, [0x2C1D]), (0x2C4E, [0x2C1E]), (0x2C4F, [0x2C1F]), (0x2C50, [0x2C20]),
   (0x2C51, [0x2C21]), (0x2C52, [0x2C22]), (0x2C53, [0x2C23]), (0x2C54, [0x2C24]),
   (0x2C55, [0x2C25]), (0x2C56, [0x2C26]), (0x2C57, [0x2C27]), (0x2C58, [0x2C28])]"

definition upper_29 :: "mapping_table" where
  "upper_29 = [
   (0x2C59, [0x2C29]), (0x2C5A, [0x2C2A]), (0x2C5B, [0x2C2B]), (0x2C5C, [0x2C2C]),
   (0x2C5D, [0x2C2D]), (0x2C5E, [0x2C2E]), (0x2C5F, [0x2C2F]), (0x2C61, [0x2C60]),
   (0x2C65, [0x23A]), (0x2C66, [0x23E]), (0x2C68, [0x2C67]), (0x2C6A, [0x2C69]),
   (0x2C6C, [0x2C6B]), (0x2C73, [0x2C72]), (0x2C76, [0x2C75]), (0x2C81, [0x2C80]),
   (0x2C83, [0x2C82]), (0x2C85, [0x2C84]), (0x2C87, [0x2C86]), (0x2C89, [0x2C88]),
   (0x2C8B, [0x2C8A]), (0x2C8D, [0x2C8C]), (0x2C8F, [0x2C8E]), (0x2C91, [0x2C90]),
   (0x2C93, [0x2C92]), (0x2C95, [0x2C94]), (0x2C97, [0x2C96]), (0x2C99, [0x2C98]),
   (0x2C9B, [0x2C9A]), (0x2C9D, [0x2C9C]), (0x2C9F, [0x2C9E]), (0x2CA1, [0x2CA0])]"

definition upper_30 :: "mapping_table" where
  "upper_30 = [
   (0x2CA3, [0x2CA2]), (0x2CA5, [0x2CA4]), (0x2CA7, [0x2CA6]), (0x2CA9, [0x2CA8]),
   (0x2CAB, [0x2CAA]), (0x2CAD, [0x2CAC]), (0x2CAF, [0x2CAE]), (0x2CB1, [0x2CB0]),
   (0x2CB3, [0x2CB2]), (0x2CB5, [0x2CB4]), (0x2CB7, [0x2CB6]), (0x2CB9, [0x2CB8]),
   (0x2CBB, [0x2CBA]), (0x2CBD, [0x2CBC]), (0x2CBF, [0x2CBE]), (0x2CC1, [0x2CC0]),
   (0x2CC3, [0x2CC2]), (0x2CC5, [0x2CC4]), (0x2CC7, [0x2CC6]), (0x2CC9, [0x2CC8]),
   (0x2CCB, [0x2CCA]), (0x2CCD, [0x2CCC]), (0x2CCF, [0x2CCE]), (0x2CD1, [0x2CD0]),
   (0x2CD3, [0x2CD2]), (0x2CD5, [0x2CD4]), (0x2CD7, [0x2CD6]), (0x2CD9, [0x2CD8]),
   (0x2CDB, [0x2CDA]), (0x2CDD, [0x2CDC]), (0x2CDF, [0x2CDE]), (0x2CE1, [0x2CE0])]"

definition upper_31 :: "mapping_table" where
  "upper_31 = [
   (0x2CE3, [0x2CE2]), (0x2CEC, [0x2CEB]), (0x2CEE, [0x2CED]), (0x2CF3, [0x2CF2]),
   (0x2D00, [0x10A0]), (0x2D01, [0x10A1]), (0x2D02, [0x10A2]), (0x2D03, [0x10A3]),
   (0x2D04, [0x10A4]), (0x2D05, [0x10A5]), (0x2D06, [0x10A6]), (0x2D07, [0x10A7]),
   (0x2D08, [0x10A8]), (0x2D09, [0x10A9]), (0x2D0A, [0x10AA]), (0x2D0B, [0x10AB]),
   (0x2D0C, [0x10AC]), (0x2D0D, [0x10AD]), (0x2D0E, [0x10AE]), (0x2D0F, [0x10AF]),
   (0x2D10, [0x10B0]), (0x2D11, [0x10B1]), (0x2D12, [0x10B2]), (0x2D13, [0x10B3]),
   (0x2D14, [0x10B4]), (0x2D15, [0x10B5]), (0x2D16, [0x10B6]), (0x2D17, [0x10B7]),
   (0x2D18, [0x10B8]), (0x2D19, [0x10B9]), (0x2D1A, [0x10BA]), (0x2D1B, [0x10BB])]"

definition upper_32 :: "mapping_table" where
  "upper_32 = [
   (0x2D1C, [0x10BC]), (0x2D1D, [0x10BD]), (0x2D1E, [0x10BE]), (0x2D1F, [0x10BF]),
   (0x2D20, [0x10C0]), (0x2D21, [0x10C1]), (0x2D22, [0x10C2]), (0x2D23, [0x10C3]),
   (0x2D24, [0x10C4]), (0x2D25, [0x10C5]), (0x2D27, [0x10C7]), (0x2D2D, [0x10CD]),
   (0xA641, [0xA640]), (0xA643, [0xA642]), (0xA645, [0xA644]), (0xA647, [0xA646]),
   (0xA649, [0xA648]), (0xA64B, [0xA64A]), (0xA64D, [0xA64C]), (0xA64F, [0xA64E]),
   (0xA651, [0xA650]), (0xA653, [0xA652]), (0xA655, [0xA654]), (0xA657, [0xA656]),
   (0xA659, [0xA658]), (0xA65B, [0xA65A]), (0xA65D, [0xA65C]), (0xA65F, [0xA65E]),
   (0xA661, [0xA660]), (0xA663, [0xA662]), (0xA665, [0xA664]), (0xA667, [0xA666])]"

definition upper_33 :: "mapping_table" where
  "upper_33 = [
   (0xA669, [0xA668]), (0xA66B, [0xA66A]), (0xA66D, [0xA66C]), (0xA681, [0xA680]),
   (0xA683, [0xA682]), (0xA685, [0xA684]), (0xA687, [0xA686]), (0xA689, [0xA688]),
   (0xA68B, [0xA68A]), (0xA68D, [0xA68C]), (0xA68F, [0xA68E]), (0xA691, [0xA690]),
   (0xA693, [0xA692]), (0xA695, [0xA694]), (0xA697, [0xA696]), (0xA699, [0xA698]),
   (0xA69B, [0xA69A]), (0xA723, [0xA722]), (0xA725, [0xA724]), (0xA727, [0xA726]),
   (0xA729, [0xA728]), (0xA72B, [0xA72A]), (0xA72D, [0xA72C]), (0xA72F, [0xA72E]),
   (0xA733, [0xA732]), (0xA735, [0xA734]), (0xA737, [0xA736]), (0xA739, [0xA738]),
   (0xA73B, [0xA73A]), (0xA73D, [0xA73C]), (0xA73F, [0xA73E]), (0xA741, [0xA740])]"

definition upper_34 :: "mapping_table" where
  "upper_34 = [
   (0xA743, [0xA742]), (0xA745, [0xA744]), (0xA747, [0xA746]), (0xA749, [0xA748]),
   (0xA74B, [0xA74A]), (0xA74D, [0xA74C]), (0xA74F, [0xA74E]), (0xA751, [0xA750]),
   (0xA753, [0xA752]), (0xA755, [0xA754]), (0xA757, [0xA756]), (0xA759, [0xA758]),
   (0xA75B, [0xA75A]), (0xA75D, [0xA75C]), (0xA75F, [0xA75E]), (0xA761, [0xA760]),
   (0xA763, [0xA762]), (0xA765, [0xA764]), (0xA767, [0xA766]), (0xA769, [0xA768]),
   (0xA76B, [0xA76A]), (0xA76D, [0xA76C]), (0xA76F, [0xA76E]), (0xA77A, [0xA779]),
   (0xA77C, [0xA77B]), (0xA77F, [0xA77E]), (0xA781, [0xA780]), (0xA783, [0xA782]),
   (0xA785, [0xA784]), (0xA787, [0xA786]), (0xA78C, [0xA78B]), (0xA791, [0xA790])]"

definition upper_35 :: "mapping_table" where
  "upper_35 = [
   (0xA793, [0xA792]), (0xA794, [0xA7C4]), (0xA797, [0xA796]), (0xA799, [0xA798]),
   (0xA79B, [0xA79A]), (0xA79D, [0xA79C]), (0xA79F, [0xA79E]), (0xA7A1, [0xA7A0]),
   (0xA7A3, [0xA7A2]), (0xA7A5, [0xA7A4]), (0xA7A7, [0xA7A6]), (0xA7A9, [0xA7A8]),
   (0xA7B5, [0xA7B4]), (0xA7B7, [0xA7B6]), (0xA7B9, [0xA7B8]), (0xA7BB, [0xA7BA]),
   (0xA7BD, [0xA7BC]), (0xA7BF, [0xA7BE]), (0xA7C1, [0xA7C0]), (0xA7C3, [0xA7C2]),
   (0xA7C8, [0xA7C7]), (0xA7CA, [0xA7C9]), (0xA7D1, [0xA7D0]), (0xA7D7, [0xA7D6]),
   (0xA7D9, [0xA7D8]), (0xA7F6, [0xA7F5]), (0xAB53, [0xA7B3]), (0xAB70, [0x13A0]),
   (0xAB71, [0x13A1]), (0xAB72, [0x13A2]), (0xAB73, [0x13A3]), (0xAB74, [0x13A4])]"

definition upper_36 :: "mapping_table" where
  "upper_36 = [
   (0xAB75, [0x13A5]), (0xAB76, [0x13A6]), (0xAB77, [0x13A7]), (0xAB78, [0x13A8]),
   (0xAB79, [0x13A9]), (0xAB7A, [0x13AA]), (0xAB7B, [0x13AB]), (0xAB7C, [0x13AC]),
   (0xAB7D, [0x13AD]), (0xAB7E, [0x13AE]), (0xAB7F, [0x13AF]), (0xAB80, [0x13B0]),
   (0xAB81, [0x13B1]), (0xAB82, [0x13B2]), (0xAB83, [0x13B3]), (0xAB84, [0x13B4]),
   (0xAB85, [0x13B5]), (0xAB86, [0x13B6]), (0xAB87, [0x13B7]), (0xAB88, [0x13B8]),
   (0xAB89, [0x13B9]), (0xAB8A, [0x13BA]), (0xAB8B, [0x13BB]), (0xAB8C, [0x13BC]),
   (0xAB8D, [0x13BD]), (0xAB8E, [0x13BE]), (0xAB8F, [0x13BF]), (0xAB90, [0x13C0]),
   (0xAB91, [0x13C1]), (0xAB92, [0x13C2]), (0xAB93, [0x13C3]), (0xAB94, [0x13C4])]"

definition upper_37 :: "mapping_table" where
  "upper_37 = [
   (0xAB95, [0x13C5]), (0xAB96, [0x13C6]), (0xAB97, [0x13C7]), (0xAB98, [0x13C8]),
   (0xAB99, [0x13C9]), (0xAB9A, [0x13CA]), (0xAB9B, [0x13CB]), (0xAB9C, [0x13CC]),
   (0xAB9D, [0x13CD]), (0xAB9E, [0x13CE]), (0xAB9F, [0x13CF]), (0xABA0, [0x13D0]),
   (0xABA1, [0x13D1]), (0xABA2, [0x13D2]), (0xABA3, [0x13D3]), (0xABA4, [0x13D4]),
   (0xABA5, [0x13D5]), (0xABA6, [0x13D6]), (0xABA7, [0x13D7]), (0xABA8, [0x13D8]),
   (0xABA9, [0x13D9]), (0xABAA, [0x13DA]), (0xABAB, [0x13DB]), (0xABAC, [0x13DC]),
   (0xABAD, [0x13DD]), (0xABAE, [0x13DE]), (0xABAF, [0x13DF]), (0xABB0, [0x13E0]),
   (0xABB1, [0x13E1]), (0xABB2, [0x13E2]), (0xABB3, [0x13E3]), (0xABB4, [0x13E4])]"

definition upper_38 :: "mapping_table" where
  "upper_38 = [
   (0xABB5, [0x13E5]), (0xABB6, [0x13E6]), (0xABB7, [0x13E7]), (0xABB8, [0x13E8]),
   (0xABB9, [0x13E9]), (0xABBA, [0x13EA]), (0xABBB, [0x13EB]), (0xABBC, [0x13EC]),
   (0xABBD, [0x13ED]), (0xABBE, [0x13EE]), (0xABBF, [0x13EF]), (0xFB00, [0x46, 0x46]),
   (0xFB01, [0x46, 0x49]), (0xFB02, [0x46, 0x4C]), (0xFB03, [0x46, 0x46, 0x49]),
   (0xFB04, [0x46, 0x46, 0x4C]), (0xFB05, [0x53, 0x54]), (0xFB06, [0x53, 0x54]),
   (0xFB13, [0x544, 0x546]), (0xFB14, [0x544, 0x535]), (0xFB15, [0x544, 0x53B]),
   (0xFB16, [0x54E, 0x546]), (0xFB17, [0x544, 0x53D]), (0xFF41, [0xFF21]),
   (0xFF42, [0xFF22]), (0xFF43, [0xFF23]), (0xFF44, [0xFF24]), (0xFF45, [0xFF25]),
   (0xFF46, [0xFF26]), (0xFF47, [0xFF27]), (0xFF48, [0xFF28]), (0xFF49, [0xFF29])]"

definition upper_39 :: "mapping_table" where
  "upper_39 = [
   (0xFF4A, [0xFF2A]), (0xFF4B, [0xFF2B]), (0xFF4C, [0xFF2C]), (0xFF4D, [0xFF2D]),
   (0xFF4E, [0xFF2E]), (0xFF4F, [0xFF2F]), (0xFF50, [0xFF30]), (0xFF51, [0xFF31]),
   (0xFF52, [0xFF32]), (0xFF53, [0xFF33]), (0xFF54, [0xFF34]), (0xFF55, [0xFF35]),
   (0xFF56, [0xFF36]), (0xFF57, [0xFF37]), (0xFF58, [0xFF38]), (0xFF59, [0xFF39]),
   (0xFF5A, [0xFF3A]), (0x10428, [0x10400]), (0x10429, [0x10401]), (0x1042A, [0x10402]),
   (0x1042B, [0x10403]), (0x1042C, [0x10404]), (0x1042D, [0x10405]), (0x1042E, [0x10406]),
   (0x1042F, [0x10407]), (0x10430, [0x10408]), (0x10431, [0x10409]), (0x10432, [0x1040A]),
   (0x10433, [0x1040B]), (0x10434, [0x1040C]), (0x10435, [0x1040D]), (0x10436, [0x1040E])]"

definition upper_40 :: "mapping_table" where
  "upper_40 = [
   (0x10437, [0x1040F]), (0x10438, [0x10410]), (0x10439, [0x10411]), (0x1043A, [0x10412]),
   (0x1043B, [0x10413]), (0x1043C, [0x10414]), (0x1043D, [0x10415]), (0x1043E, [0x10416]),
   (0x1043F, [0x10417]), (0x10440, [0x10418]), (0x10441, [0x10419]), (0x10442, [0x1041A]),
   (0x10443, [0x1041B]), (0x10444, [0x1041C]), (0x10445, [0x1041D]), (0x10446, [0x1041E]),
   (0x10447, [0x1041F]), (0x10448, [0x10420]), (0x10449, [0x10421]), (0x1044A, [0x10422]),
   (0x1044B, [0x10423]), (0x1044C, [0x10424]), (0x1044D, [0x10425]), (0x1044E, [0x10426]),
   (0x1044F, [0x10427]), (0x104D8, [0x104B0]), (0x104D9, [0x104B1]), (0x104DA, [0x104B2]),
   (0x104DB, [0x104B3]), (0x104DC, [0x104B4]), (0x104DD, [0x104B5]), (0x104DE, [0x104B6])]"

definition upper_41 :: "mapping_table" where
  "upper_41 = [
   (0x104DF, [0x104B7]), (0x104E0, [0x104B8]), (0x104E1, [0x104B9]), (0x104E2, [0x104BA]),
   (0x104E3, [0x104BB]), (0x104E4, [0x104BC]), (0x104E5, [0x104BD]), (0x104E6, [0x104BE]),
   (0x104E7, [0x104BF]), (0x104E8, [0x104C0]), (0x104E9, [0x104C1]), (0x104EA, [0x104C2]),
   (0x104EB, [0x104C3]), (0x104EC, [0x104C4]), (0x104ED, [0x104C5]), (0x104EE, [0x104C6]),
   (0x104EF, [0x104C7]), (0x104F0, [0x104C8]), (0x104F1, [0x104C9]), (0x104F2, [0x104CA]),
   (0x104F3, [0x104CB]), (0x104F4, [0x104CC]), (0x104F5, [0x104CD]), (0x104F6, [0x104CE]),
   (0x104F7, [0x104CF]), (0x104F8, [0x104D0]), (0x104F9, [0x104D1]), (0x104FA, [0x104D2]),
   (0x104FB, [0x104D3]), (0x10597, [0x10570]), (0x10598, [0x10571]), (0x10599, [0x10572])]"

definition upper_42 :: "mapping_table" where
  "upper_42 = [
   (0x1059A, [0x10573]), (0x1059B, [0x10574]), (0x1059C, [0x10575]), (0x1059D, [0x10576]),
   (0x1059E, [0x10577]), (0x1059F, [0x10578]), (0x105A0, [0x10579]), (0x105A1, [0x1057A]),
   (0x105A3, [0x1057C]), (0x105A4, [0x1057D]), (0x105A5, [0x1057E]), (0x105A6, [0x1057F]),
   (0x105A7, [0x10580]), (0x105A8, [0x10581]), (0x105A9, [0x10582]), (0x105AA, [0x10583]),
   (0x105AB, [0x10584]), (0x105AC, [0x10585]), (0x105AD, [0x10586]), (0x105AE, [0x10587]),
   (0x105AF, [0x10588]), (0x105B0, [0x10589]), (0x105B1, [0x1058A]), (0x105B3, [0x1058C]),
   (0x105B4, [0x1058D]), (0x105B5, [0x1058E]), (0x105B6, [0x1058F]), (0x105B7, [0x10590]),
   (0x105B8, [0x10591]), (0x105B9, [0x10592]), (0x105BB, [0x10594]), (0x105BC, [0x10595])]"

definition upper_43 :: "mapping_table" where
  "upper_43 = [
   (0x10CC0, [0x10C80]), (0x10CC1, [0x10C81]), (0x10CC2, [0x10C82]), (0x10CC3, [0x10C83]),
   (0x10CC4, [0x10C84]), (0x10CC5, [0x10C85]), (0x10CC6, [0x10C86]), (0x10CC7, [0x10C87]),
   (0x10CC8, [0x10C88]), (0x10CC9, [0x10C89]), (0x10CCA, [0x10C8A]), (0x10CCB, [0x10C8B]),
   (0x10CCC, [0x10C8C]), (0x10CCD, [0x10C8D]), (0x10CCE, [0x10C8E]), (0x10CCF, [0x10C8F]),
   (0x10CD0, [0x10C90]), (0x10CD1, [0x10C91]), (0x10CD2, [0x10C92]), (0x10CD3, [0x10C93]),
   (0x10CD4, [0x10C94]), (0x10CD5, [0x10C95]), (0x10CD6, [0x10C96]), (0x10CD7, [0x10C97]),
   (0x10CD8, [0x10C98]), (0x10CD9, [0x10C99]), (0x10CDA, [0x10C9A]), (0x10CDB, [0x10C9B]),
   (0x10CDC, [0x10C9C]), (0x10CDD, [0x10C9D]), (0x10CDE, [0x10C9E]), (0x10CDF, [0x10C9F])]"

definition upper_44 :: "mapping_table" where
  "upper_44 = [
   (0x10CE0, [0x10CA0]), (0x10CE1, [0x10CA1]), (0x10CE2, [0x10CA2]), (0x10CE3, [0x10CA3]),
   (0x10CE4, [0x10CA4]), (0x10CE5, [0x10CA5]), (0x10CE6, [0x10CA6]), (0x10CE7, [0x10CA7]),
   (0x10CE8, [0x10CA8]), (0x10CE9, [0x10CA9]), (0x10CEA, [0x10CAA]), (0x10CEB, [0x10CAB]),
   (0x10CEC, [0x10CAC]), (0x10CED, [0x10CAD]), (0x10CEE, [0x10CAE]), (0x10CEF, [0x10CAF]),
   (0x10CF0, [0x10CB0]), (0x10CF1, [0x10CB1]), (0x10CF2, [0x10CB2]), (0x118C0, [0x118A0]),
   (0x118C1, [0x118A1]), (0x118C2, [0x118A2]), (0x118C3, [0x118A3]), (0x118C4, [0x118A4]),
   (0x118C5, [0x118A5]), (0x118C6, [0x118A6]), (0x118C7, [0x118A7]), (0x118C8, [0x118A8]),
   (0x118C9, [0x118A9]), (0x118CA, [0x118AA]), (0x118CB, [0x118AB]), (0x118CC, [0x118AC])]"

definition upper_45 :: "mapping_table" where
  "upper_45 = [
   (0x118CD, [0x118AD]), (0x118CE, [0x118AE]), (0x118CF, [0x118AF]), (0x118D0, [0x118B0]),
   (0x118D1, [0x118B1]), (0x118D2, [0x118B2]), (0x118D3, [0x118B3]), (0x118D4, [0x118B4]),
   (0x118D5, [0x118B5]), (0x118D6, [0x118B6]), (0x118D7, [0x118B7]), (0x118D8, [0x118B8]),
   (0x118D9, [0x118B9]), (0x118DA, [0x118BA]), (0x118DB, [0x118BB]), (0x118DC, [0x118BC]),
   (0x118DD, [0x118BD]), (0x118DE, [0x118BE]), (0x118DF, [0x118BF]), (0x16E60, [0x16E40]),
   (0x16E61, [0x16E41]), (0x16E62, [0x16E42]), (0x16E63, [0x16E43]), (0x16E64, [0x16E44]),
   (0x16E65, [0x16E45]), (0x16E66, [0x16E46]), (0x16E67, [0x16E47]), (0x16E68, [0x16E48]),
   (0x16E69, [0x16E49]), (0x16E6A, [0x16E4A]), (0x16E6B, [0x16E4B]), (0x16E6C, [0x16E4C])]"

definition upper_46 :: "mapping_table" where
  "upper_46 = [
   (0x16E6D, [0x16E4D]), (0x16E6E, [0x16E4E]), (0x16E6F, [0x16E4F]), (0x16E70, [0x16E50]),
   (0x16E71, [0x16E51]), (0x16E72, [0x16E52]), (0x16E73, [0x16E53]), (0x16E74, [0x16E54]),
   (0x16E75, [0x16E55]), (0x16E76, [0x16E56]), (0x16E77, [0x16E57]), (0x16E78, [0x16E58]),
   (0x16E79, [0x16E59]), (0x16E7A, [0x16E5A]), (0x16E7B, [0x16E5B]), (0x16E7C, [0x16E5C]),
   (0x16E7D, [0x16E5D]), (0x16E7E, [0x16E5E]), (0x16E7F, [0x16E5F]), (0x1E922, [0x1E900]),
   (0x1E923, [0x1E901]), (0x1E924, [0x1E902]), (0x1E925, [0x1E903]), (0x1E926, [0x1E904]),
   (0x1E927, [0x1E905]), (0x1E928, [0x1E906]), (0x1E929, [0x1E907]), (0x1E92A, [0x1E908]),
   (0x1E92B, [0x1E909]), (0x1E92C, [0x1E90A]), (0x1E92D, [0x1E90B]), (0x1E92E, [0x1E90C])]"

definition upper_47 :: "mapping_table" where
  "upper_47 = [
   (0x1E92F, [0x1E90D]), (0x1E930, [0x1E90E]), (0x1E931, [0x1E90F]), (0x1E932, [0x1E910]),
   (0x1E933, [0x1E911]), (0x1E934, [0x1E912]), (0x1E935, [0x1E913]), (0x1E936, [0x1E914]),
   (0x1E937, [0x1E915]), (0x1E938, [0x1E916]), (0x1E939, [0x1E917]), (0x1E93A, [0x1E918]),
   (0x1E93B, [0x1E919]), (0x1E93C, [0x1E91A]), (0x1E93D, [0x1E91B]), (0x1E93E, [0x1E91C]),
   (0x1E93F, [0x1E91D]), (0x1E940, [0x1E91E]), (0x1E941, [0x1E91F]), (0x1E942, [0x1E920]),
   (0x1E943, [0x1E921])]"

definition upper_blocks :: "(nat \<times> mapping_table) list" where
  "upper_blocks = [
   (0xE3, upper_00), (0x109, upper_01), (0x149, upper_02), (0x18C, upper_03),
   (0x1DF, upper_04), (0x21F, upper_05), (0x265, upper_06), (0x3AC, upper_07),
   (0x3CC, upper_08), (0x435, upper_09), (0x455, upper_10), (0x493, upper_11),
   (0x4D3, upper_12), (0x513, upper_13), (0x572, upper_14), (0x10DA, upper_15),
   (0x10FA, upper_16), (0x1E15, upper_17), (0x1E55, upper_18), (0x1E95, upper_19),
   (0x1ED3, upper_20), (0x1F11, upper_21), (0x1F55, upper_22), (0x1F87, upper_23),
   (0x1FA7, upper_24), (0x1FE2, upper_25), (0x24D2, upper_26), (0x2C38, upper_27),
   (0x2C58, upper_28), (0x2CA1, upper_29), (0x2CE1, upper_30), (0x2D1B, upper_31),
   (0xA667, upper_32), (0xA741, upper_33), (0xA791, upper_34), (0xAB74, upper_35),
   (0xAB94, upper_36), (0xABB4, upper_37), (0xFF49, upper_38), (0x10436, upper_39),
   (0x104DE, upper_40), (0x10599, upper_41), (0x105BC, upper_42), (0x10CDF, upper_43),
   (0x118CC, upper_44), (0x16E6C, upper_45), (0x1E92E, upper_46), (0x1E943, upper_47)]"

definition decomposition_00 :: "mapping_table" where
  "decomposition_00 = [
   (0xC0, [0x41, 0x300]), (0xC1, [0x41, 0x301]), (0xC2, [0x41, 0x302]),
   (0xC3, [0x41, 0x303]), (0xC4, [0x41, 0x308]), (0xC5, [0x41, 0x30A]),
   (0xC7, [0x43, 0x327]), (0xC8, [0x45, 0x300]), (0xC9, [0x45, 0x301]),
   (0xCA, [0x45, 0x302]), (0xCB, [0x45, 0x308]), (0xCC, [0x49, 0x300]),
   (0xCD, [0x49, 0x301]), (0xCE, [0x49, 0x302]), (0xCF, [0x49, 0x308]),
   (0xD1, [0x4E, 0x303]), (0xD2, [0x4F, 0x300]), (0xD3, [0x4F, 0x301]),
   (0xD4, [0x4F, 0x302]), (0xD5, [0x4F, 0x303]), (0xD6, [0x4F, 0x308]),
   (0xD9, [0x55, 0x300]), (0xDA, [0x55, 0x301]), (0xDB, [0x55, 0x302]),
   (0xDC, [0x55, 0x308]), (0xDD, [0x59, 0x301]), (0xE0, [0x61, 0x300]),
   (0xE1, [0x61, 0x301]), (0xE2, [0x61, 0x302]), (0xE3, [0x61, 0x303]),
   (0xE4, [0x61, 0x308]), (0xE5, [0x61, 0x30A])]"

definition decomposition_01 :: "mapping_table" where
  "decomposition_01 = [
   (0xE7, [0x63, 0x327]), (0xE8, [0x65, 0x300]), (0xE9, [0x65, 0x301]),
   (0xEA, [0x65, 0x302]), (0xEB, [0x65, 0x308]), (0xEC, [0x69, 0x300]),
   (0xED, [0x69, 0x301]), (0xEE, [0x69, 0x302]), (0xEF, [0x69, 0x308]),
   (0xF1, [0x6E, 0x303]), (0xF2, [0x6F, 0x300]), (0xF3, [0x6F, 0x301]),
   (0xF4, [0x6F, 0x302]), (0xF5, [0x6F, 0x303]), (0xF6, [0x6F, 0x308]),
   (0xF9, [0x75, 0x300]), (0xFA, [0x75, 0x301]), (0xFB, [0x75, 0x302]),
   (0xFC, [0x75, 0x308]), (0xFD, [0x79, 0x301]), (0xFF, [0x79, 0x308]),
   (0x100, [0x41, 0x304]), (0x101, [0x61, 0x304]), (0x102, [0x41, 0x306]),
   (0x103, [0x61, 0x306]), (0x104, [0x41, 0x328]), (0x105, [0x61, 0x328]),
   (0x106, [0x43, 0x301]), (0x107, [0x63, 0x301]), (0x108, [0x43, 0x302]),
   (0x109, [0x63, 0x302]), (0x10A, [0x43, 0x307])]"

definition decomposition_02 :: "mapping_table" where
  "decomposition_02 = [
   (0x10B, [0x63, 0x307]), (0x10C, [0x43, 0x30C]), (0x10D, [0x63, 0x30C]),
   (0x10E, [0x44, 0x30C]), (0x10F, [0x64, 0x30C]), (0x112, [0x45, 0x304]),
   (0x113, [0x65, 0x304]), (0x114, [0x45, 0x306]), (0x115, [0x65, 0x306]),
   (0x116, [0x45, 0x307]), (0x117, [0x65, 0x307]), (0x118, [0x45, 0x328]),
   (0x119, [0x65, 0x328]), (0x11A, [0x45, 0x30C]), (0x11B, [0x65, 0x30C]),
   (0x11C, [0x47, 0x302]), (0x11D, [0x67, 0x302]), (0x11E, [0x47, 0x306]),
   (0x11F, [0x67, 0x306]), (0x120, [0x47, 0x307]), (0x121, [0x67, 0x307]),
   (0x122, [0x47, 0x327]), (0x123, [0x67, 0x327]), (0x124, [0x48, 0x302]),
   (0x125, [0x68, 0x302]), (0x128, [0x49, 0x303]), (0x129, [0x69, 0x303]),
   (0x12A, [0x49, 0x304]), (0x12B, [0x69, 0x304]), (0x12C, [0x49, 0x306]),
   (0x12D, [0x69, 0x306]), (0x12E, [0x49, 0x328])]"

definition decomposition_03 :: "mapping_table" where
  "decomposition_03 = [
   (0x12F, [0x69, 0x328]), (0x130, [0x49, 0x307]), (0x134, [0x4A, 0x302]),
   (0x135, [0x6A, 0x302]), (0x136, [0x4B, 0x327]), (0x137, [0x6B, 0x327]),
   (0x139, [0x4C, 0x301]), (0x13A, [0x6C, 0x301]), (0x13B, [0x4C, 0x327]),
   (0x13C, [0x6C, 0x327]), (0x13D, [0x4C, 0x30C]), (0x13E, [0x6C, 0x30C]),
   (0x143, [0x4E, 0x301]), (0x144, [0x6E, 0x301]), (0x145, [0x4E, 0x327]),
   (0x146, [0x6E, 0x327]), (0x147, [0x4E, 0x30C]), (0x148, [0x6E, 0x30C]),
   (0x14C, [0x4F, 0x304]), (0x14D, [0x6F, 0x304]), (0x14E, [0x4F, 0x306]),
   (0x14F, [0x6F, 0x306]), (0x150, [0x4F, 0x30B]), (0x151, [0x6F, 0x30B]),
   (0x154, [0x52, 0x301]), (0x155, [0x72, 0x301]), (0x156, [0x52, 0x327]),
   (0x157, [0x72, 0x327]), (0x158, [0x52, 0x30C]), (0x159, [0x72, 0x30C]),
   (0x15A, [0x53, 0x301]), (0x15B, [0x73, 0x301])]"

definition decomposition_04 :: "mapping_table" where
  "decomposition_04 = [
   (0x15C, [0x53, 0x302]), (0x15D, [0x73, 0x302]), (0x15E, [0x53, 0x327]),
   (0x15F, [0x73, 0x327]), (0x160, [0x53, 0x30C]), (0x161, [0x73, 0x30C]),
   (0x162, [0x54, 0x327]), (0x163, [0x74, 0x327]), (0x164, [0x54, 0x30C]),
   (0x165, [0x74, 0x30C]), (0x168, [0x55, 0x303]), (0x169, [0x75, 0x303]),
   (0x16A, [0x55, 0x304]), (0x16B, [0x75, 0x304]), (0x16C, [0x55, 0x306]),
   (0x16D, [0x75, 0x306]), (0x16E, [0x55, 0x30A]), (0x16F, [0x75, 0x30A]),
   (0x170, [0x55, 0x30B]), (0x171, [0x75, 0x30B]), (0x172, [0x55, 0x328]),
   (0x173, [0x75, 0x328]), (0x174, [0x57, 0x302]), (0x175, [0x77, 0x302]),
   (0x176, [0x59, 0x302]), (0x177, [0x79, 0x302]), (0x178, [0x59, 0x308]),
   (0x179, [0x5A, 0x301]), (0x17A, [0x7A, 0x301]), (0x17B, [0x5A, 0x307]),
   (0x17C, [0x7A, 0x307]), (0x17D, [0x5A, 0x30C])]"

definition decomposition_05 :: "mapping_table" where
  "decomposition_05 = [
   (0x17E, [0x7A, 0x30C]), (0x1A0, [0x4F, 0x31B]), (0x1A1, [0x6F, 0x31B]),
   (0x1AF, [0x55, 0x31B]), (0x1B0, [0x75, 0x31B]), (0x1CD, [0x41, 0x30C]),
   (0x1CE, [0x61, 0x30C]), (0x1CF, [0x49, 0x30C]), (0x1D0, [0x69, 0x30C]),
   (0x1D1, [0x4F, 0x30C]), (0x1D2, [0x6F, 0x30C]), (0x1D3, [0x55, 0x30C]),
   (0x1D4, [0x75, 0x30C]), (0x1D5, [0x55, 0x308, 0x304]), (0x1D6, [0x75, 0x308, 0x304]),
   (0x1D7, [0x55, 0x308, 0x301]), (0x1D8, [0x75, 0x308, 0x301]),
   (0x1D9, [0x55, 0x308, 0x30C]), (0x1DA, [0x75, 0x308, 0x30C]),
   (0x1DB, [0x55, 0x308, 0x300]), (0x1DC, [0x75, 0x308, 0x300]),
   (0x1DE, [0x41, 0x308, 0x304]), (0x1DF, [0x61, 0x308, 0x304]),
   (0x1E0, [0x41, 0x307, 0x304]), (0x1E1, [0x61, 0x307, 0x304]), (0x1E2, [0xC6, 0x304]),
   (0x1E3, [0xE6, 0x304]), (0x1E6, [0x47, 0x30C]), (0x1E7, [0x67, 0x30C]),
   (0x1E8, [0x4B, 0x30C]), (0x1E9, [0x6B, 0x30C]), (0x1EA, [0x4F, 0x328])]"

definition decomposition_06 :: "mapping_table" where
  "decomposition_06 = [
   (0x1EB, [0x6F, 0x328]), (0x1EC, [0x4F, 0x328, 0x304]), (0x1ED, [0x6F, 0x328, 0x304]),
   (0x1EE, [0x1B7, 0x30C]), (0x1EF, [0x292, 0x30C]), (0x1F0, [0x6A, 0x30C]),
   (0x1F4, [0x47, 0x301]), (0x1F5, [0x67, 0x301]), (0x1F8, [0x4E, 0x300]),
   (0x1F9, [0x6E, 0x300]), (0x1FA, [0x41, 0x30A, 0x301]), (0x1FB, [0x61, 0x30A, 0x301]),
   (0x1FC, [0xC6, 0x301]), (0x1FD, [0xE6, 0x301]), (0x1FE, [0xD8, 0x301]),
   (0x1FF, [0xF8, 0x301]), (0x200, [0x41, 0x30F]), (0x201, [0x61, 0x30F]),
   (0x202, [0x41, 0x311]), (0x203, [0x61, 0x311]), (0x204, [0x45, 0x30F]),
   (0x205, [0x65, 0x30F]), (0x206, [0x45, 0x311]), (0x207, [0x65, 0x311]),
   (0x208, [0x49, 0x30F]), (0x209, [0x69, 0x30F]), (0x20A, [0x49, 0x311]),
   (0x20B, [0x69, 0x311]), (0x20C, [0x4F, 0x30F]), (0x20D, [0x6F, 0x30F]),
   (0x20E, [0x4F, 0x311]), (0x20F, [0x6F, 0x311])]"

definition decomposition_07 :: "mapping_table" where
  "decomposition_07 = [
   (0x210, [0x52, 0x30F]), (0x211, [0x72, 0x30F]), (0x212, [0x52, 0x311]),
   (0x213, [0x72, 0x311]), (0x214, [0x55, 0x30F]), (0x215, [0x75, 0x30F]),
   (0x216, [0x55, 0x311]), (0x217, [0x75, 0x311]), (0x218, [0x53, 0x326]),
   (0x219, [0x73, 0x326]), (0x21A, [0x54, 0x326]), (0x21B, [0x74, 0x326]),
   (0x21E, [0x48, 0x30C]), (0x21F, [0x68, 0x30C]), (0x226, [0x41, 0x307]),
   (0x227, [0x61, 0x307]), (0x228, [0x45, 0x327]), (0x229, [0x65, 0x327]),
   (0x22A, [0x4F, 0x308, 0x304]), (0x22B, [0x6F, 0x308, 0x304]),
   (0x22C, [0x4F, 0x303, 0x304]), (0x22D, [0x6F, 0x303, 0x304]), (0x22E, [0x4F, 0x307]),
   (0x22F, [0x6F, 0x307]), (0x230, [0x4F, 0x307, 0x304]), (0x231, [0x6F, 0x307, 0x304]),
   (0x232, [0x59, 0x304]), (0x233, [0x79, 0x304]), (0x340, [0x300]), (0x341, [0x301]),
   (0x343, [0x313]), (0x344, [0x308, 0x301])]"

definition decomposition_08 :: "mapping_table" where
  "decomposition_08 = [
   (0x374, [0x2B9]), (0x37E, [0x3B]), (0x385, [0xA8, 0x301]), (0x386, [0x391, 0x301]),
   (0x387, [0xB7]), (0x388, [0x395, 0x301]), (0x389, [0x397, 0x301]),
   (0x38A, [0x399, 0x301]), (0x38C, [0x39F, 0x301]), (0x38E, [0x3A5, 0x301]),
   (0x38F, [0x3A9, 0x301]), (0x390, [0x3B9, 0x308, 0x301]), (0x3AA, [0x399, 0x308]),
   (0x3AB, [0x3A5, 0x308]), (0x3AC, [0x3B1, 0x301]), (0x3AD, [0x3B5, 0x301]),
   (0x3AE, [0x3B7, 0x301]), (0x3AF, [0x3B9, 0x301]), (0x3B0, [0x3C5, 0x308, 0x301]),
   (0x3CA, [0x3B9, 0x308]), (0x3CB, [0x3C5, 0x308]), (0x3CC, [0x3BF, 0x301]),
   (0x3CD, [0x3C5, 0x301]), (0x3CE, [0x3C9, 0x301]), (0x3D3, [0x3D2, 0x301]),
   (0x3D4, [0x3D2, 0x308]), (0x400, [0x415, 0x300]), (0x401, [0x415, 0x308]),
   (0x403, [0x413, 0x301]), (0x407, [0x406, 0x308]), (0x40C, [0x41A, 0x301]),
   (0x40D, [0x418, 0x300])]"

definition decomposition_09 :: "mapping_table" where
  "decomposition_09 = [
   (0x40E, [0x423, 0x306]), (0x419, [0x418, 0x306]), (0x439, [0x438, 0x306]),
   (0x450, [0x435, 0x300]), (0x451, [0x435, 0x308]), (0x453, [0x433, 0x301]),
   (0x457, [0x456, 0x308]), (0x45C, [0x43A, 0x301]), (0x45D, [0x438, 0x300]),
   (0x45E, [0x443, 0x306]), (0x476, [0x474, 0x30F]), (0x477, [0x475, 0x30F]),
   (0x4C1, [0x416, 0x306]), (0x4C2, [0x436, 0x306]), (0x4D0, [0x410, 0x306]),
   (0x4D1, [0x430, 0x306]), (0x4D2, [0x410, 0x308]), (0x4D3, [0x430, 0x308]),
   (0x4D6, [0x415, 0x306]), (0x4D7, [0x435, 0x306]), (0x4DA, [0x4D8, 0x308]),
   (0x4DB, [0x4D9, 0x308]), (0x4DC, [0x416, 0x308]), (0x4DD, [0x436, 0x308]),
   (0x4DE, [0x417, 0x308]), (0x4DF, [0x437, 0x308]), (0x4E2, [0x418, 0x304]),
   (0x4E3, [0x438, 0x304]), (0x4E4, [0x418, 0x308]), (0x4E5, [0x438, 0x308]),
   (0x4E6, [0x41E, 0x308]), (0x4E7, [0x43E, 0x308])]"

definition decomposition_10 :: "mapping_table" where
  "decomposition_10 = [
   (0x4EA, [0x4E8, 0x308]), (0x4EB, [0x4E9, 0x308]), (0x4EC, [0x42D, 0x308]),
   (0x4ED, [0x44D, 0x308]), (0x4EE, [0x423, 0x304]), (0x4EF, [0x443, 0x304]),
   (0x4F0, [0x423, 0x308]), (0x4F1, [0x443, 0x308]), (0x4F2, [0x423, 0x30B]),
   (0x4F3, [0x443, 0x30B]), (0x4F4, [0x427, 0x308]), (0x4F5, [0x447, 0x308]),
   (0x4F8, [0x42B, 0x308]), (0x4F9, [0x44B, 0x308]), (0x622, [0x627, 0x653]),
   (0x623, [0x627, 0x654]), (0x624, [0x648, 0x654]), (0x625, [0x627, 0x655]),
   (0x626, [0x64A, 0x654]), (0x6C0, [0x6D5, 0x654]), (0x6C2, [0x6C1, 0x654]),
   (0x6D3, [0x6D2, 0x654]), (0x929, [0x928, 0x93C]), (0x931, [0x930, 0x93C]),
   (0x934, [0x933, 0x93C]), (0x958, [0x915, 0x93C]), (0x959, [0x916, 0x93C]),
   (0x95A, [0x917, 0x93C]), (0x95B, [0x91C, 0x93C]), (0x95C, [0x921, 0x93C]),
   (0x95D, [0x922, 0x93C]), (0x95E, [0x92B, 0x93C])]"

definition decomposition_11 :: "mapping_table" where
  "decomposition_11 = [
   (0x95F, [0x92F, 0x93C]), (0x9CB, [0x9C7, 0x9BE]), (0x9CC, [0x9C7, 0x9D7]),
   (0x9DC, [0x9A1, 0x9BC]), (0x9DD, [0x9A2, 0x9BC]), (0x9DF, [0x9AF, 0x9BC]),
   (0xA33, [0xA32, 0xA3C]), (0xA36, [0xA38, 0xA3C]), (0xA59, [0xA16, 0xA3C]),
   (0xA5A, [0xA17, 0xA3C]), (0xA5B, [0xA1C, 0xA3C]), (0xA5E, [0xA2B, 0xA3C]),
   (0xB48, [0xB47, 0xB56]), (0xB4B, [0xB47, 0xB3E]), (0xB4C, [0xB47, 0xB57]),
   (0xB5C, [0xB21, 0xB3C]), (0xB5D, [0xB22, 0xB3C]), (0xB94, [0xB92, 0xBD7]),
   (0xBCA, [0xBC6, 0xBBE]), (0xBCB, [0xBC7, 0xBBE]), (0xBCC, [0xBC6, 0xBD7]),
   (0xC48, [0xC46, 0xC56]), (0xCC0, [0xCBF, 0xCD5]), (0xCC7, [0xCC6, 0xCD5]),
   (0xCC8, [0xCC6, 0xCD6]), (0xCCA, [0xCC6, 0xCC2]), (0xCCB, [0xCC6, 0xCC2, 0xCD5]),
   (0xD4A, [0xD46, 0xD3E]), (0xD4B, [0xD47, 0xD3E]), (0xD4C, [0xD46, 0xD57]),
   (0xDDA, [0xDD9, 0xDCA]), (0xDDC, [0xDD9, 0xDCF])]"

definition decomposition_12 :: "mapping_table" where
  "decomposition_12 = [
   (0xDDD, [0xDD9, 0xDCF, 0xDCA]), (0xDDE, [0xDD9, 0xDDF]), (0xF43, [0xF42, 0xFB7]),
   (0xF4D, [0xF4C, 0xFB7]), (0xF52, [0xF51, 0xFB7]), (0xF57, [0xF56, 0xFB7]),
   (0xF5C, [0xF5B, 0xFB7]), (0xF69, [0xF40, 0xFB5]), (0xF73, [0xF71, 0xF72]),
   (0xF75, [0xF71, 0xF74]), (0xF76, [0xFB2, 0xF80]), (0xF78, [0xFB3, 0xF80]),
   (0xF81, [0xF71, 0xF80]), (0xF93, [0xF92, 0xFB7]), (0xF9D, [0xF9C, 0xFB7]),
   (0xFA2, [0xFA1, 0xFB7]), (0xFA7, [0xFA6, 0xFB7]), (0xFAC, [0xFAB, 0xFB7]),
   (0xFB9, [0xF90, 0xFB5]), (0x1026, [0x1025, 0x102E]), (0x1B06, [0x1B05, 0x1B35]),
   (0x1B08, [0x1B07, 0x1B35]), (0x1B0A, [0x1B09, 0x1B35]), (0x1B0C, [0x1B0B, 0x1B35]),
   (0x1B0E, [0x1B0D, 0x1B35]), (0x1B12, [0x1B11, 0x1B35]), (0x1B3B, [0x1B3A, 0x1B35]),
   (0x1B3D, [0x1B3C, 0x1B35]), (0x1B40, [0x1B3E, 0x1B35]), (0x1B41, [0x1B3F, 0x1B35]),
   (0x1B43, [0x1B42, 0x1B35]), (0x1E00, [0x41, 0x325])]"

definition decomposition_13 :: "mapping_table" where
  "decomposition_13 = [
   (0x1E01, [0x61, 0x325]), (0x1E02, [0x42, 0x307]), (0x1E03, [0x62, 0x307]),
   (0x1E04, [0x42, 0x323]), (0x1E05, [0x62, 0x323]), (0x1E06, [0x42, 0x331]),
   (0x1E07, [0x62, 0x331]), (0x1E08, [0x43, 0x327, 0x301]), (0x1E09, [0x63, 0x327, 0x301]),
   (0x1E0A, [0x44, 0x307]), (0x1E0B, [0x64, 0x307]), (0x1E0C, [0x44, 0x323]),
   (0x1E0D, [0x64, 0x323]), (0x1E0E, [0x44, 0x331]), (0x1E0F, [0x64, 0x331]),
   (0x1E10, [0x44, 0x327]), (0x1E11, [0x64, 0x327]), (0x1E12, [0x44, 0x32D]),
   (0x1E13, [0x64, 0x32D]), (0x1E14, [0x45, 0x304, 0x300]), (0x1E15, [0x65, 0x304, 0x300]),
   (0x1E16, [0x45, 0x304, 0x301]), (0x1E17, [0x65, 0x304, 0x301]), (0x1E18, [0x45, 0x32D]),
   (0x1E19, [0x65, 0x32D]), (0x1E1A, [0x45, 0x330]), (0x1E1B, [0x65, 0x330]),
   (0x1E1C, [0x45, 0x327, 0x306]), (0x1E1D, [0x65, 0x327, 0x306]), (0x1E1E, [0x46, 0x307]),
   (0x1E1F, [0x66, 0x307]), (0x1E20, [0x47, 0x304])]"

definition decomposition_14 :: "mapping_table" where
  "decomposition_14 = [
   (0x1E21, [0x67, 0x304]), (0x1E22, [0x48, 0x307]), (0x1E23, [0x68, 0x307]),
   (0x1E24, [0x48, 0x323]), (0x1E25, [0x68, 0x323]), (0x1E26, [0x48, 0x308]),
   (0x1E27, [0x68, 0x308]), (0x1E28, [0x48, 0x327]), (0x1E29, [0x68, 0x327]),
   (0x1E2A, [0x48, 0x32E]), (0x1E2B, [0x68, 0x32E]), (0x1E2C, [0x49, 0x330]),
   (0x1E2D, [0x69, 0x330]), (0x1E2E, [0x49, 0x308, 0x301]), (0x1E2F, [0x69, 0x308, 0x301]),
   (0x1E30, [0x4B, 0x301]), (0x1E31, [0x6B, 0x301]), (0x1E32, [0x4B, 0x323]),
   (0x1E33, [0x6B, 0x323]), (0x1E34, [0x4B, 0x331]), (0x1E35, [0x6B, 0x331]),
   (0x1E36, [0x4C, 0x323]), (0x1E37, [0x6C, 0x323]), (0x1E38, [0x4C, 0x323, 0x304]),
   (0x1E39, [0x6C, 0x323, 0x304]), (0x1E3A, [0x4C, 0x331]), (0x1E3B, [0x6C, 0x331]),
   (0x1E3C, [0x4C, 0x32D]), (0x1E3D, [0x6C, 0x32D]), (0x1E3E, [0x4D, 0x301]),
   (0x1E3F, [0x6D, 0x301]), (0x1E40, [0x4D, 0x307])]"

definition decomposition_15 :: "mapping_table" where
  "decomposition_15 = [
   (0x1E41, [0x6D, 0x307]), (0x1E42, [0x4D, 0x323]), (0x1E43, [0x6D, 0x323]),
   (0x1E44, [0x4E, 0x307]), (0x1E45, [0x6E, 0x307]), (0x1E46, [0x4E, 0x323]),
   (0x1E47, [0x6E, 0x323]), (0x1E48, [0x4E, 0x331]), (0x1E49, [0x6E, 0x331]),
   (0x1E4A, [0x4E, 0x32D]), (0x1E4B, [0x6E, 0x32D]), (0x1E4C, [0x4F, 0x303, 0x301]),
   (0x1E4D, [0x6F, 0x303, 0x301]), (0x1E4E, [0x4F, 0x303, 0x308]),
   (0x1E4F, [0x6F, 0x303, 0x308]), (0x1E50, [0x4F, 0x304, 0x300]),
   (0x1E51, [0x6F, 0x304, 0x300]), (0x1E52, [0x4F, 0x304, 0x301]),
   (0x1E53, [0x6F, 0x304, 0x301]), (0x1E54, [0x50, 0x301]), (0x1E55, [0x70, 0x301]),
   (0x1E56, [0x50, 0x307]), (0x1E57, [0x70, 0x307]), (0x1E58, [0x52, 0x307]),
   (0x1E59, [0x72, 0x307]), (0x1E5A, [0x52, 0x323]), (0x1E5B, [0x72, 0x323]),
   (0x1E5C, [0x52, 0x323, 0x304]), (0x1E5D, [0x72, 0x323, 0x304]), (0x1E5E, [0x52, 0x331]),
   (0x1E5F, [0x72, 0x331]), (0x1E60, [0x53, 0x307])]"

definition decomposition_16 :: "mapping_table" where
  "decomposition_16 = [
   (0x1E61, [0x73, 0x307]), (0x1E62, [0x53, 0x323]), (0x1E63, [0x73, 0x323]),
   (0x1E64, [0x53, 0x301, 0x307]), (0x1E65, [0x73, 0x301, 0x307]),
   (0x1E66, [0x53, 0x30C, 0x307]), (0x1E67, [0x73, 0x30C, 0x307]),
   (0x1E68, [0x53, 0x323, 0x307]), (0x1E69, [0x73, 0x323, 0x307]), (0x1E6A, [0x54, 0x307]),
   (0x1E6B, [0x74, 0x307]), (0x1E6C, [0x54, 0x323]), (0x1E6D, [0x74, 0x323]),
   (0x1E6E, [0x54, 0x331]), (0x1E6F, [0x74, 0x331]), (0x1E70, [0x54, 0x32D]),
   (0x1E71, [0x74, 0x32D]), (0x1E72, [0x55, 0x324]), (0x1E73, [0x75, 0x324]),
   (0x1E74, [0x55, 0x330]), (0x1E75, [0x75, 0x330]), (0x1E76, [0x55, 0x32D]),
   (0x1E77, [0x75, 0x32D]), (0x1E78, [0x55, 0x303, 0x301]), (0x1E79, [0x75, 0x303, 0x301]),
   (0x1E7A, [0x55, 0x304, 0x308]), (0x1E7B, [0x75, 0x304, 0x308]), (0x1E7C, [0x56, 0x303]),
   (0x1E7D, [0x76, 0x303]), (0x1E7E, [0x56, 0x323]), (0x1E7F, [0x76, 0x323]),
   (0x1E80, [0x57, 0x300])]"

definition decomposition_17 :: "mapping_table" where
  "decomposition_17 = [
   (0x1E81, [0x77, 0x300]), (0x1E82, [0x57, 0x301]), (0x1E83, [0x77, 0x301]),
   (0x1E84, [0x57, 0x308]), (0x1E85, [0x77, 0x308]), (0x1E86, [0x57, 0x307]),
   (0x1E87, [0x77, 0x307]), (0x1E88, [0x57, 0x323]), (0x1E89, [0x77, 0x323]),
   (0x1E8A, [0x58, 0x307]), (0x1E8B, [0x78, 0x307]), (0x1E8C, [0x58, 0x308]),
   (0x1E8D, [0x78, 0x308]), (0x1E8E, [0x59, 0x307]), (0x1E8F, [0x79, 0x307]),
   (0x1E90, [0x5A, 0x302]), (0x1E91, [0x7A, 0x302]), (0x1E92, [0x5A, 0x323]),
   (0x1E93, [0x7A, 0x323]), (0x1E94, [0x5A, 0x331]), (0x1E95, [0x7A, 0x331]),
   (0x1E96, [0x68, 0x331]), (0x1E97, [0x74, 0x308]), (0x1E98, [0x77, 0x30A]),
   (0x1E99, [0x79, 0x30A]), (0x1E9B, [0x17F, 0x307]), (0x1EA0, [0x41, 0x323]),
   (0x1EA1, [0x61, 0x323]), (0x1EA2, [0x41, 0x309]), (0x1EA3, [0x61, 0x309]),
   (0x1EA4, [0x41, 0x302, 0x301]), (0x1EA5, [0x61, 0x302, 0x301])]"

definition decomposition_18 :: "mapping_table" where
  "decomposition_18 = [
   (0x1EA6, [0x41, 0x302, 0x300]), (0x1EA7, [0x61, 0x302, 0x300]),
   (0x1EA8, [0x41, 0x302, 0x309]), (0x1EA9, [0x61, 0x302, 0x309]),
   (0x1EAA, [0x41, 0x302, 0x303]), (0x1EAB, [0x61, 0x302, 0x303]),
   (0x1EAC, [0x41, 0x323, 0x302]), (0x1EAD, [0x61, 0x323, 0x302]),
   (0x1EAE, [0x41, 0x306, 0x301]), (0x1EAF, [0x61, 0x306, 0x301]),
   (0x1EB0, [0x41, 0x306, 0x300]), (0x1EB1, [0x61, 0x306, 0x300]),
   (0x1EB2, [0x41, 0x306, 0x309]), (0x1EB3, [0x61, 0x306, 0x309]),
   (0x1EB4, [0x41, 0x306, 0x303]), (0x1EB5, [0x61, 0x306, 0x303]),
   (0x1EB6, [0x41, 0x323, 0x306]), (0x1EB7, [0x61, 0x323, 0x306]), (0x1EB8, [0x45, 0x323]),
   (0x1EB9, [0x65, 0x323]), (0x1EBA, [0x45, 0x309]), (0x1EBB, [0x65, 0x309]),
   (0x1EBC, [0x45, 0x303]), (0x1EBD, [0x65, 0x303]), (0x1EBE, [0x45, 0x302, 0x301]),
   (0x1EBF, [0x65, 0x302, 0x301]), (0x1EC0, [0x45, 0x302, 0x300]),
   (0x1EC1, [0x65, 0x302, 0x300]), (0x1EC2, [0x45, 0x302, 0x309]),
   (0x1EC3, [0x65, 0x302, 0x309]), (0x1EC4, [0x45, 0x302, 0x303]),
   (0x1EC5, [0x65, 0x302, 0x303])]"

definition decomposition_19 :: "mapping_table" where
  "decomposition_19 = [
   (0x1EC6, [0x45, 0x323, 0x302]), (0x1EC7, [0x65, 0x323, 0x302]), (0x1EC8, [0x49, 0x309]),
   (0x1EC9, [0x69, 0x309]), (0x1ECA, [0x49, 0x323]), (0x1ECB, [0x69, 0x323]),
   (0x1ECC, [0x4F, 0x323]), (0x1ECD, [0x6F, 0x323]), (0x1ECE, [0x4F, 0x309]),
   (0x1ECF, [0x6F, 0x309]), (0x1ED0, [0x4F, 0x302, 0x301]), (0x1ED1, [0x6F, 0x302, 0x301]),
   (0x1ED2, [0x4F, 0x302, 0x300]), (0x1ED3, [0x6F, 0x302, 0x300]),
   (0x1ED4, [0x4F, 0x302, 0x309]), (0x1ED5, [0x6F, 0x302, 0x309]),
   (0x1ED6, [0x4F, 0x302, 0x303]), (0x1ED7, [0x6F, 0x302, 0x303]),
   (0x1ED8, [0x4F, 0x323, 0x302]), (0x1ED9, [0x6F, 0x323, 0x302]),
   (0x1EDA, [0x4F, 0x31B, 0x301]), (0x1EDB, [0x6F, 0x31B, 0x301]),
   (0x1EDC, [0x4F, 0x31B, 0x300]), (0x1EDD, [0x6F, 0x31B, 0x300]),
   (0x1EDE, [0x4F, 0x31B, 0x309]), (0x1EDF, [0x6F, 0x31B, 0x309]),
   (0x1EE0, [0x4F, 0x31B, 0x303]), (0x1EE1, [0x6F, 0x31B, 0x303]),
   (0x1EE2, [0x4F, 0x31B, 0x323]), (0x1EE3, [0x6F, 0x31B, 0x323]), (0x1EE4, [0x55, 0x323]),
   (0x1EE5, [0x75, 0x323])]"

definition decomposition_20 :: "mapping_table" where
  "decomposition_20 = [
   (0x1EE6, [0x55, 0x309]), (0x1EE7, [0x75, 0x309]), (0x1EE8, [0x55, 0x31B, 0x301]),
   (0x1EE9, [0x75, 0x31B, 0x301]), (0x1EEA, [0x55, 0x31B, 0x300]),
   (0x1EEB, [0x75, 0x31B, 0x300]), (0x1EEC, [0x55, 0x31B, 0x309]),
   (0x1EED, [0x75, 0x31B, 0x309]), (0x1EEE, [0x55, 0x31B, 0x303]),
   (0x1EEF, [0x75, 0x31B, 0x303]), (0x1EF0, [0x55, 0x31B, 0x323]),
   (0x1EF1, [0x75, 0x31B, 0x323]), (0x1EF2, [0x59, 0x300]), (0x1EF3, [0x79, 0x300]),
   (0x1EF4, [0x59, 0x323]), (0x1EF5, [0x79, 0x323]), (0x1EF6, [0x59, 0x309]),
   (0x1EF7, [0x79, 0x309]), (0x1EF8, [0x59, 0x303]), (0x1EF9, [0x79, 0x303]),
   (0x1F00, [0x3B1, 0x313]), (0x1F01, [0x3B1, 0x314]), (0x1F02, [0x3B1, 0x313, 0x300]),
   (0x1F03, [0x3B1, 0x314, 0x300]), (0x1F04, [0x3B1, 0x313, 0x301]),
   (0x1F05, [0x3B1, 0x314, 0x301]), (0x1F06, [0x3B1, 0x313, 0x342]),
   (0x1F07, [0x3B1, 0x314, 0x342]), (0x1F08, [0x391, 0x313]), (0x1F09, [0x391, 0x314]),
   (0x1F0A, [0x391, 0x313, 0x300]), (0x1F0B, [0x391, 0x314, 0x300])]"

definition decomposition_21 :: "mapping_table" where
  "decomposition_21 = [
   (0x1F0C, [0x391, 0x313, 0x301]), (0x1F0D, [0x391, 0x314, 0x301]),
   (0x1F0E, [0x391, 0x313, 0x342]), (0x1F0F, [0x391, 0x314, 0x342]),
   (0x1F10, [0x3B5, 0x313]), (0x1F11, [0x3B5, 0x314]), (0x1F12, [0x3B5, 0x313, 0x300]),
   (0x1F13, [0x3B5, 0x314, 0x300]), (0x1F14, [0x3B5, 0x313, 0x301]),
   (0x1F15, [0x3B5, 0x314, 0x301]), (0x1F18, [0x395, 0x313]), (0x1F19, [0x395, 0x314]),
   (0x1F1A, [0x395, 0x313, 0x300]), (0x1F1B, [0x395, 0x314, 0x300]),
   (0x1F1C, [0x395, 0x313, 0x301]), (0x1F1D, [0x395, 0x314, 0x301]),
   (0x1F20, [0x3B7, 0x313]), (0x1F21, [0x3B7, 0x314]), (0x1F22, [0x3B7, 0x313, 0x300]),
   (0x1F23, [0x3B7, 0x314, 0x300]), (0x1F24, [0x3B7, 0x313, 0x301]),
   (0x1F25, [0x3B7, 0x314, 0x301]), (0x1F26, [0x3B7, 0x313, 0x342]),
   (0x1F27, [0x3B7, 0x314, 0x342]), (0x1F28, [0x397, 0x313]), (0x1F29, [0x397, 0x314]),
   (0x1F2A, [0x397, 0x313, 0x300]), (0x1F2B, [0x397, 0x314, 0x300]),
   (0x1F2C, [0x397, 0x313, 0x301]), (0x1F2D, [0x397, 0x314, 0x301]),
   (0x1F2E, [0x397, 0x313, 0x342]), (0x1F2F, [0x397, 0x314, 0x342])]"

definition decomposition_22 :: "mapping_table" where
  "decomposition_22 = [
   (0x1F30, [0x3B9, 0x313]), (0x1F31, [0x3B9, 0x314]), (0x1F32, [0x3B9, 0x313, 0x300]),
   (0x1F33, [0x3B9, 0x314, 0x300]), (0x1F34, [0x3B9, 0x313, 0x301]),
   (0x1F35, [0x3B9, 0x314, 0x301]), (0x1F36, [0x3B9, 0x313, 0x342]),
   (0x1F37, [0x3B9, 0x314, 0x342]), (0x1F38, [0x399, 0x313]), (0x1F39, [0x399, 0x314]),
   (0x1F3A, [0x399, 0x313, 0x300]), (0x1F3B, [0x399, 0x314, 0x300]),
   (0x1F3C, [0x399, 0x313, 0x301]), (0x1F3D, [0x399, 0x314, 0x301]),
   (0x1F3E, [0x399, 0x313, 0x342]), (0x1F3F, [0x399, 0x314, 0x342]),
   (0x1F40, [0x3BF, 0x313]), (0x1F41, [0x3BF, 0x314]), (0x1F42, [0x3BF, 0x313, 0x300]),
   (0x1F43, [0x3BF, 0x314, 0x300]), (0x1F44, [0x3BF, 0x313, 0x301]),
   (0x1F45, [0x3BF, 0x314, 0x301]), (0x1F48, [0x39F, 0x313]), (0x1F49, [0x39F, 0x314]),
   (0x1F4A, [0x39F, 0x313, 0x300]), (0x1F4B, [0x39F, 0x314, 0x300]),
   (0x1F4C, [0x39F, 0x313, 0x301]), (0x1F4D, [0x39F, 0x314, 0x301]),
   (0x1F50, [0x3C5, 0x313]), (0x1F51, [0x3C5, 0x314]), (0x1F52, [0x3C5, 0x313, 0x300]),
   (0x1F53, [0x3C5, 0x314, 0x300])]"

definition decomposition_23 :: "mapping_table" where
  "decomposition_23 = [
   (0x1F54, [0x3C5, 0x313, 0x301]), (0x1F55, [0x3C5, 0x314, 0x301]),
   (0x1F56, [0x3C5, 0x313, 0x342]), (0x1F57, [0x3C5, 0x314, 0x342]),
   (0x1F59, [0x3A5, 0x314]), (0x1F5B, [0x3A5, 0x314, 0x300]),
   (0x1F5D, [0x3A5, 0x314, 0x301]), (0x1F5F, [0x3A5, 0x314, 0x342]),
   (0x1F60, [0x3C9, 0x313]), (0x1F61, [0x3C9, 0x314]), (0x1F62, [0x3C9, 0x313, 0x300]),
   (0x1F63, [0x3C9, 0x314, 0x300]), (0x1F64, [0x3C9, 0x313, 0x301]),
   (0x1F65, [0x3C9, 0x314, 0x301]), (0x1F66, [0x3C9, 0x313, 0x342]),
   (0x1F67, [0x3C9, 0x314, 0x342]), (0x1F68, [0x3A9, 0x313]), (0x1F69, [0x3A9, 0x314]),
   (0x1F6A, [0x3A9, 0x313, 0x300]), (0x1F6B, [0x3A9, 0x314, 0x300]),
   (0x1F6C, [0x3A9, 0x313, 0x301]), (0x1F6D, [0x3A9, 0x314, 0x301]),
   (0x1F6E, [0x3A9, 0x313, 0x342]), (0x1F6F, [0x3A9, 0x314, 0x342]),
   (0x1F70, [0x3B1, 0x300]), (0x1F71, [0x3B1, 0x301]), (0x1F72, [0x3B5, 0x300]),
   (0x1F73, [0x3B5, 0x301]), (0x1F74, [0x3B7, 0x300]), (0x1F75, [0x3B7, 0x301]),
   (0x1F76, [0x3B9, 0x300]), (0x1F77, [0x3B9, 0x301])]"

definition decomposition_24 :: "mapping_table" where
  "decomposition_24 = [
   (0x1F78, [0x3BF, 0x300]), (0x1F79, [0x3BF, 0x301]), (0x1F7A, [0x3C5, 0x300]),
   (0x1F7B, [0x3C5, 0x301]), (0x1F7C, [0x3C9, 0x300]), (0x1F7D, [0x3C9, 0x301]),
   (0x1F80, [0x3B1, 0x313, 0x345]), (0x1F81, [0x3B1, 0x314, 0x345]),
   (0x1F82, [0x3B1, 0x313, 0x300, 0x345]), (0x1F83, [0x3B1, 0x314, 0x300, 0x345]),
   (0x1F84, [0x3B1, 0x313, 0x301, 0x345]), (0x1F85, [0x3B1, 0x314, 0x301, 0x345]),
   (0x1F86, [0x3B1, 0x313, 0x342, 0x345]), (0x1F87, [0x3B1, 0x314, 0x342, 0x345]),
   (0x1F88, [0x391, 0x313, 0x345]), (0x1F89, [0x391, 0x314, 0x345]),
   (0x1F8A, [0x391, 0x313, 0x300, 0x345]), (0x1F8B, [0x391, 0x314, 0x300, 0x345]),
   (0x1F8C, [0x391, 0x313, 0x301, 0x345]), (0x1F8D, [0x391, 0x314, 0x301, 0x345]),
   (0x1F8E, [0x391, 0x313, 0x342, 0x345]), (0x1F8F, [0x391, 0x314, 0x342, 0x345]),
   (0x1F90, [0x3B7, 0x313, 0x345]), (0x1F91, [0x3B7, 0x314, 0x345]),
   (0x1F92, [0x3B7, 0x313, 0x300, 0x345]), (0x1F93, [0x3B7, 0x314, 0x300, 0x345]),
   (0x1F94, [0x3B7, 0x313, 0x301, 0x345]), (0x1F95, [0x3B7, 0x314, 0x301, 0x345]),
   (0x1F96, [0x3B7, 0x313, 0x342, 0x345]), (0x1F97, [0x3B7, 0x314, 0x342, 0x345]),
   (0x1F98, [0x397, 0x313, 0x345]), (0x1F99, [0x397, 0x314, 0x345])]"

definition decomposition_25 :: "mapping_table" where
  "decomposition_25 = [
   (0x1F9A, [0x397, 0x313, 0x300, 0x345]), (0x1F9B, [0x397, 0x314, 0x300, 0x345]),
   (0x1F9C, [0x397, 0x313, 0x301, 0x345]), (0x1F9D, [0x397, 0x314, 0x301, 0x345]),
   (0x1F9E, [0x397, 0x313, 0x342, 0x345]), (0x1F9F, [0x397, 0x314, 0x342, 0x345]),
   (0x1FA0, [0x3C9, 0x313, 0x345]), (0x1FA1, [0x3C9, 0x314, 0x345]),
   (0x1FA2, [0x3C9, 0x313, 0x300, 0x345]), (0x1FA3, [0x3C9, 0x314, 0x300, 0x345]),
   (0x1FA4, [0x3C9, 0x313, 0x301, 0x345]), (0x1FA5, [0x3C9, 0x314, 0x301, 0x345]),
   (0x1FA6, [0x3C9, 0x313, 0x342, 0x345]), (0x1FA7, [0x3C9, 0x314, 0x342, 0x345]),
   (0x1FA8, [0x3A9, 0x313, 0x345]), (0x1FA9, [0x3A9, 0x314, 0x345]),
   (0x1FAA, [0x3A9, 0x313, 0x300, 0x345]), (0x1FAB, [0x3A9, 0x314, 0x300, 0x345]),
   (0x1FAC, [0x3A9, 0x313, 0x301, 0x345]), (0x1FAD, [0x3A9, 0x314, 0x301, 0x345]),
   (0x1FAE, [0x3A9, 0x313, 0x342, 0x345]), (0x1FAF, [0x3A9, 0x314, 0x342, 0x345]),
   (0x1FB0, [0x3B1, 0x306]), (0x1FB1, [0x3B1, 0x304]), (0x1FB2, [0x3B1, 0x300, 0x345]),
   (0x1FB3, [0x3B1, 0x345]), (0x1FB4, [0x3B1, 0x301, 0x345]), (0x1FB6, [0x3B1, 0x342]),
   (0x1FB7, [0x3B1, 0x342, 0x345]), (0x1FB8, [0x391, 0x306]), (0x1FB9, [0x391, 0x304]),
   (0x1FBA, [0x391, 0x300])]"

definition decomposition_26 :: "mapping_table" where
  "decomposition_26 = [
   (0x1FBB, [0x391, 0x301]), (0x1FBC, [0x391, 0x345]), (0x1FBE, [0x3B9]),
   (0x1FC1, [0xA8, 0x342]), (0x1FC2, [0x3B7, 0x300, 0x345]), (0x1FC3, [0x3B7, 0x345]),
   (0x1FC4, [0x3B7, 0x301, 0x345]), (0x1FC6, [0x3B7, 0x342]),
   (0x1FC7, [0x3B7, 0x342, 0x345]), (0x1FC8, [0x395, 0x300]), (0x1FC9, [0x395, 0x301]),
   (0x1FCA, [0x397, 0x300]), (0x1FCB, [0x397, 0x301]), (0x1FCC, [0x397, 0x345]),
   (0x1FCD, [0x1FBF, 0x300]), (0x1FCE, [0x1FBF, 0x301]), (0x1FCF, [0x1FBF, 0x342]),
   (0x1FD0, [0x3B9, 0x306]), (0x1FD1, [0x3B9, 0x304]), (0x1FD2, [0x3B9, 0x308, 0x300]),
   (0x1FD3, [0x3B9, 0x308, 0x301]), (0x1FD6, [0x3B9, 0x342]),
   (0x1FD7, [0x3B9, 0x308, 0x342]), (0x1FD8, [0x399, 0x306]), (0x1FD9, [0x399, 0x304]),
   (0x1FDA, [0x399, 0x300]), (0x1FDB, [0x399, 0x301]), (0x1FDD, [0x1FFE, 0x300]),
   (0x1FDE, [0x1FFE, 0x301]), (0x1FDF, [0x1FFE, 0x342]), (0x1FE0, [0x3C5, 0x306]),
   (0x1FE1, [0x3C5, 0x304])]"

definition decomposition_27 :: "mapping_table" where
  "decomposition_27 = [
   (0x1FE2, [0x3C5, 0x308, 0x300]), (0x1FE3, [0x3C5, 0x308, 0x301]),
   (0x1FE4, [0x3C1, 0x313]), (0x1FE5, [0x3C1, 0x314]), (0x1FE6, [0x3C5, 0x342]),
   (0x1FE7, [0x3C5, 0x308, 0x342]), (0x1FE8, [0x3A5, 0x306]), (0x1FE9, [0x3A5, 0x304]),
   (0x1FEA, [0x3A5, 0x300]), (0x1FEB, [0x3A5, 0x301]), (0x1FEC, [0x3A1, 0x314]),
   (0x1FED, [0xA8, 0x300]), (0x1FEE, [0xA8, 0x301]), (0x1FEF, [0x60]),
   (0x1FF2, [0x3C9, 0x300, 0x345]), (0x1FF3, [0x3C9, 0x345]),
   (0x1FF4, [0x3C9, 0x301, 0x345]), (0x1FF6, [0x3C9, 0x342]),
   (0x1FF7, [0x3C9, 0x342, 0x345]), (0x1FF8, [0x39F, 0x300]), (0x1FF9, [0x39F, 0x301]),
   (0x1FFA, [0x3A9, 0x300]), (0x1FFB, [0x3A9, 0x301]), (0x1FFC, [0x3A9, 0x345]),
   (0x1FFD, [0xB4]), (0x2000, [0x2002]), (0x2001, [0x2003]), (0x2126, [0x3A9]),
   (0x212A, [0x4B]), (0x212B, [0x41, 0x30A]), (0x219A, [0x2190, 0x338]),
   (0x219B, [0x2192, 0x338])]"

definition decomposition_28 :: "mapping_table" where
  "decomposition_28 = [
   (0x21AE, [0x2194, 0x338]), (0x21CD, [0x21D0, 0x338]), (0x21CE, [0x21D4, 0x338]),
   (0x21CF, [0x21D2, 0x338]), (0x2204, [0x2203, 0x338]), (0x2209, [0x2208, 0x338]),
   (0x220C, [0x220B, 0x338]), (0x2224, [0x2223, 0x338]), (0x2226, [0x2225, 0x338]),
   (0x2241, [0x223C, 0x338]), (0x2244, [0x2243, 0x338]), (0x2247, [0x2245, 0x338]),
   (0x2249, [0x2248, 0x338]), (0x2260, [0x3D, 0x338]), (0x2262, [0x2261, 0x338]),
   (0x226D, [0x224D, 0x338]), (0x226E, [0x3C, 0x338]), (0x226F, [0x3E, 0x338]),
   (0x2270, [0x2264, 0x338]), (0x2271, [0x2265, 0x338]), (0x2274, [0x2272, 0x338]),
   (0x2275, [0x2273, 0x338]), (0x2278, [0x2276, 0x338]), (0x2279, [0x2277, 0x338]),
   (0x2280, [0x227A, 0x338]), (0x2281, [0x227B, 0x338]), (0x2284, [0x2282, 0x338]),
   (0x2285, [0x2283, 0x338]), (0x2288, [0x2286, 0x338]), (0x2289, [0x2287, 0x338]),
   (0x22AC, [0x22A2, 0x338]), (0x22AD, [0x22A8, 0x338])]"

definition decomposition_29 :: "mapping_table" where
  "decomposition_29 = [
   (0x22AE, [0x22A9, 0x338]), (0x22AF, [0x22AB, 0x338]), (0x22E0, [0x227C, 0x338]),
   (0x22E1, [0x227D, 0x338]), (0x22E2, [0x2291, 0x338]), (0x22E3, [0x2292, 0x338]),
   (0x22EA, [0x22B2, 0x338]), (0x22EB, [0x22B3, 0x338]), (0x22EC, [0x22B4, 0x338]),
   (0x22ED, [0x22B5, 0x338]), (0x2329, [0x3008]), (0x232A, [0x3009]),
   (0x2ADC, [0x2ADD, 0x338]), (0x304C, [0x304B, 0x3099]), (0x304E, [0x304D, 0x3099]),
   (0x3050, [0x304F, 0x3099]), (0x3052, [0x3051, 0x3099]), (0x3054, [0x3053, 0x3099]),
   (0x3056, [0x3055, 0x3099]), (0x3058, [0x3057, 0x3099]), (0x305A, [0x3059, 0x3099]),
   (0x305C, [0x305B, 0x3099]), (0x305E, [0x305D, 0x3099]), (0x3060, [0x305F, 0x3099]),
   (0x3062, [0x3061, 0x3099]), (0x3065, [0x3064, 0x3099]), (0x3067, [0x3066, 0x3099]),
   (0x3069, [0x3068, 0x3099]), (0x3070, [0x306F, 0x3099]), (0x3071, [0x306F, 0x309A]),
   (0x3073, [0x3072, 0x3099]), (0x3074, [0x3072, 0x309A])]"

definition decomposition_30 :: "mapping_table" where
  "decomposition_30 = [
   (0x3076, [0x3075, 0x3099]), (0x3077, [0x3075, 0x309A]), (0x3079, [0x3078, 0x3099]),
   (0x307A, [0x3078, 0x309A]), (0x307C, [0x307B, 0x3099]), (0x307D, [0x307B, 0x309A]),
   (0x3094, [0x3046, 0x3099]), (0x309E, [0x309D, 0x3099]), (0x30AC, [0x30AB, 0x3099]),
   (0x30AE, [0x30AD, 0x3099]), (0x30B0, [0x30AF, 0x3099]), (0x30B2, [0x30B1, 0x3099]),
   (0x30B4, [0x30B3, 0x3099]), (0x30B6, [0x30B5, 0x3099]), (0x30B8, [0x30B7, 0x3099]),
   (0x30BA, [0x30B9, 0x3099]), (0x30BC, [0x30BB, 0x3099]), (0x30BE, [0x30BD, 0x3099]),
   (0x30C0, [0x30BF, 0x3099]), (0x30C2, [0x30C1, 0x3099]), (0x30C5, [0x30C4, 0x3099]),
   (0x30C7, [0x30C6, 0x3099]), (0x30C9, [0x30C8, 0x3099]), (0x30D0, [0x30CF, 0x3099]),
   (0x30D1, [0x30CF, 0x309A]), (0x30D3, [0x30D2, 0x3099]), (0x30D4, [0x30D2, 0x309A]),
   (0x30D6, [0x30D5, 0x3099]), (0x30D7, [0x30D5, 0x309A]), (0x30D9, [0x30D8, 0x3099]),
   (0x30DA, [0x30D8, 0x309A]), (0x30DC, [0x30DB, 0x3099])]"

definition decomposition_31 :: "mapping_table" where
  "decomposition_31 = [
   (0x30DD, [0x30DB, 0x309A]), (0x30F4, [0x30A6, 0x3099]), (0x30F7, [0x30EF, 0x3099]),
   (0x30F8, [0x30F0, 0x3099]), (0x30F9, [0x30F1, 0x3099]), (0x30FA, [0x30F2, 0x3099]),
   (0x30FE, [0x30FD, 0x3099]), (0xF900, [0x8C48]), (0xF901, [0x66F4]), (0xF902, [0x8ECA]),
   (0xF903, [0x8CC8]), (0xF904, [0x6ED1]), (0xF905, [0x4E32]), (0xF906, [0x53E5]),
   (0xF907, [0x9F9C]), (0xF908, [0x9F9C]), (0xF909, [0x5951]), (0xF90A, [0x91D1]),
   (0xF90B, [0x5587]), (0xF90C, [0x5948]), (0xF90D, [0x61F6]), (0xF90E, [0x7669]),
   (0xF90F, [0x7F85]), (0xF910, [0x863F]), (0xF911, [0x87BA]), (0xF912, [0x88F8]),
   (0xF913, [0x908F]), (0xF914, [0x6A02]), (0xF915, [0x6D1B]), (0xF916, [0x70D9]),
   (0xF917, [0x73DE]), (0xF918, [0x843D])]"

definition decomposition_32 :: "mapping_table" where
  "decomposition_32 = [
   (0xF919, [0x916A]), (0xF91A, [0x99F1]), (0xF91B, [0x4E82]), (0xF91C, [0x5375]),
   (0xF91D, [0x6B04]), (0xF91E, [0x721B]), (0xF91F, [0x862D]), (0xF920, [0x9E1E]),
   (0xF921, [0x5D50]), (0xF922, [0x6FEB]), (0xF923, [0x85CD]), (0xF924, [0x8964]),
   (0xF925, [0x62C9]), (0xF926, [0x81D8]), (0xF927, [0x881F]), (0xF928, [0x5ECA]),
   (0xF929, [0x6717]), (0xF92A, [0x6D6A]), (0xF92B, [0x72FC]), (0xF92C, [0x90CE]),
   (0xF92D, [0x4F86]), (0xF92E, [0x51B7]), (0xF92F, [0x52DE]), (0xF930, [0x64C4]),
   (0xF931, [0x6AD3]), (0xF932, [0x7210]), (0xF933, [0x76E7]), (0xF934, [0x8001]),
   (0xF935, [0x8606]), (0xF936, [0x865C]), (0xF937, [0x8DEF]), (0xF938, [0x9732])]"

definition decomposition_33 :: "mapping_table" where
  "decomposition_33 = [
   (0xF939, [0x9B6F]), (0xF93A, [0x9DFA]), (0xF93B, [0x788C]), (0xF93C, [0x797F]),
   (0xF93D, [0x7DA0]), (0xF93E, [0x83C9]), (0xF93F, [0x9304]), (0xF940, [0x9E7F]),
   (0xF941, [0x8AD6]), (0xF942, [0x58DF]), (0xF943, [0x5F04]), (0xF944, [0x7C60]),
   (0xF945, [0x807E]), (0xF946, [0x7262]), (0xF947, [0x78CA]), (0xF948, [0x8CC2]),
   (0xF949, [0x96F7]), (0xF94A, [0x58D8]), (0xF94B, [0x5C62]), (0xF94C, [0x6A13]),
   (0xF94D, [0x6DDA]), (0xF94E, [0x6F0F]), (0xF94F, [0x7D2F]), (0xF950, [0x7E37]),
   (0xF951, [0x964B]), (0xF952, [0x52D2]), (0xF953, [0x808B]), (0xF954, [0x51DC]),
   (0xF955, [0x51CC]), (0xF956, [0x7A1C]), (0xF957, [0x7DBE]), (0xF958, [0x83F1])]"

definition decomposition_34 :: "mapping_table" where
  "decomposition_34 = [
   (0xF959, [0x9675]), (0xF95A, [0x8B80]), (0xF95B, [0x62CF]), (0xF95C, [0x6A02]),
   (0xF95D, [0x8AFE]), (0xF95E, [0x4E39]), (0xF95F, [0x5BE7]), (0xF960, [0x6012]),
   (0xF961, [0x7387]), (0xF962, [0x7570]), (0xF963, [0x5317]), (0xF964, [0x78FB]),
   (0xF965, [0x4FBF]), (0xF966, [0x5FA9]), (0xF967, [0x4E0D]), (0xF968, [0x6CCC]),
   (0xF969, [0x6578]), (0xF96A, [0x7D22]), (0xF96B, [0x53C3]), (0xF96C, [0x585E]),
   (0xF96D, [0x7701]), (0xF96E, [0x8449]), (0xF96F, [0x8AAA]), (0xF970, [0x6BBA]),
   (0xF971, [0x8FB0]), (0xF972, [0x6C88]), (0xF973, [0x62FE]), (0xF974, [0x82E5]),
   (0xF975, [0x63A0]), (0xF976, [0x7565]), (0xF977, [0x4EAE]), (0xF978, [0x5169])]"

definition decomposition_35 :: "mapping_table" where
  "decomposition_35 = [
   (0xF979, [0x51C9]), (0xF97A, [0x6881]), (0xF97B, [0x7CE7]), (0xF97C, [0x826F]),
   (0xF97D, [0x8AD2]), (0xF97E, [0x91CF]), (0xF97F, [0x52F5]), (0xF980, [0x5442]),
   (0xF981, [0x5973]), (0xF982, [0x5EEC]), (0xF983, [0x65C5]), (0xF984, [0x6FFE]),
   (0xF985, [0x792A]), (0xF986, [0x95AD]), (0xF987, [0x9A6A]), (0xF988, [0x9E97]),
   (0xF989, [0x9ECE]), (0xF98A, [0x529B]), (0xF98B, [0x66C6]), (0xF98C, [0x6B77]),
   (0xF98D, [0x8F62]), (0xF98E, [0x5E74]), (0xF98F, [0x6190]), (0xF990, [0x6200]),
   (0xF991, [0x649A]), (0xF992, [0x6F23]), (0xF993, [0x7149]), (0xF994, [0x7489]),
   (0xF995, [0x79CA]), (0xF996, [0x7DF4]), (0xF997, [0x806F]), (0xF998, [0x8F26])]"

definition decomposition_36 :: "mapping_table" where
  "decomposition_36 = [
   (0xF999, [0x84EE]), (0xF99A, [0x9023]), (0xF99B, [0x934A]), (0xF99C, [0x5217]),
   (0xF99D, [0x52A3]), (0xF99E, [0x54BD]), (0xF99F, [0x70C8]), (0xF9A0, [0x88C2]),
   (0xF9A1, [0x8AAA]), (0xF9A2, [0x5EC9]), (0xF9A3, [0x5FF5]), (0xF9A4, [0x637B]),
   (0xF9A5, [0x6BAE]), (0xF9A6, [0x7C3E]), (0xF9A7, [0x7375]), (0xF9A8, [0x4EE4]),
   (0xF9A9, [0x56F9]), (0xF9AA, [0x5BE7]), (0xF9AB, [0x5DBA]), (0xF9AC, [0x601C]),
   (0xF9AD, [0x73B2]), (0xF9AE, [0x7469]), (0xF9AF, [0x7F9A]), (0xF9B0, [0x8046]),
   (0xF9B1, [0x9234]), (0xF9B2, [0x96F6]), (0xF9B3, [0x9748]), (0xF9B4, [0x9818]),
   (0xF9B5, [0x4F8B]), (0xF9B6, [0x79AE]), (0xF9B7, [0x91B4]), (0xF9B8, [0x96B8])]"

definition decomposition_37 :: "mapping_table" where
  "decomposition_37 = [
   (0xF9B9, [0x60E1]), (0xF9BA, [0x4E86]), (0xF9BB, [0x50DA]), (0xF9BC, [0x5BEE]),
   (0xF9BD, [0x5C3F]), (0xF9BE, [0x6599]), (0xF9BF, [0x6A02]), (0xF9C0, [0x71CE]),
   (0xF9C1, [0x7642]), (0xF9C2, [0x84FC]), (0xF9C3, [0x907C]), (0xF9C4, [0x9F8D]),
   (0xF9C5, [0x6688]), (0xF9C6, [0x962E]), (0xF9C7, [0x5289]), (0xF9C8, [0x677B]),
   (0xF9C9, [0x67F3]), (0xF9CA, [0x6D41]), (0xF9CB, [0x6E9C]), (0xF9CC, [0x7409]),
   (0xF9CD, [0x7559]), (0xF9CE, [0x786B]), (0xF9CF, [0x7D10]), (0xF9D0, [0x985E]),
   (0xF9D1, [0x516D]), (0xF9D2, [0x622E]), (0xF9D3, [0x9678]), (0xF9D4, [0x502B]),
   (0xF9D5, [0x5D19]), (0xF9D6, [0x6DEA]), (0xF9D7, [0x8F2A]), (0xF9D8, [0x5F8B])]"

definition decomposition_38 :: "mapping_table" where
  "decomposition_38 = [
   (0xF9D9, [0x6144]), (0xF9DA, [0x6817]), (0xF9DB, [0x7387]), (0xF9DC, [0x9686]),
   (0xF9DD, [0x5229]), (0xF9DE, [0x540F]), (0xF9DF, [0x5C65]), (0xF9E0, [0x6613]),
   (0xF9E1, [0x674E]), (0xF9E2, [0x68A8]), (0xF9E3, [0x6CE5]), (0xF9E4, [0x7406]),
   (0xF9E5, [0x75E2]), (0xF9E6, [0x7F79]), (0xF9E7, [0x88CF]), (0xF9E8, [0x88E1]),
   (0xF9E9, [0x91CC]), (0xF9EA, [0x96E2]), (0xF9EB, [0x533F]), (0xF9EC, [0x6EBA]),
   (0xF9ED, [0x541D]), (0xF9EE, [0x71D0]), (0xF9EF, [0x7498]), (0xF9F0, [0x85FA]),
   (0xF9F1, [0x96A3]), (0xF9F2, [0x9C57]), (0xF9F3, [0x9E9F]), (0xF9F4, [0x6797]),
   (0xF9F5, [0x6DCB]), (0xF9F6, [0x81E8]), (0xF9F7, [0x7ACB]), (0xF9F8, [0x7B20])]"

definition decomposition_39 :: "mapping_table" where
  "decomposition_39 = [
   (0xF9F9, [0x7C92]), (0xF9FA, [0x72C0]), (0xF9FB, [0x7099]), (0xF9FC, [0x8B58]),
   (0xF9FD, [0x4EC0]), (0xF9FE, [0x8336]), (0xF9FF, [0x523A]), (0xFA00, [0x5207]),
   (0xFA01, [0x5EA6]), (0xFA02, [0x62D3]), (0xFA03, [0x7CD6]), (0xFA04, [0x5B85]),
   (0xFA05, [0x6D1E]), (0xFA06, [0x66B4]), (0xFA07, [0x8F3B]), (0xFA08, [0x884C]),
   (0xFA09, [0x964D]), (0xFA0A, [0x898B]), (0xFA0B, [0x5ED3]), (0xFA0C, [0x5140]),
   (0xFA0D, [0x55C0]), (0xFA10, [0x585A]), (0xFA12, [0x6674]), (0xFA15, [0x51DE]),
   (0xFA16, [0x732A]), (0xFA17, [0x76CA]), (0xFA18, [0x793C]), (0xFA19, [0x795E]),
   (0xFA1A, [0x7965]), (0xFA1B, [0x798F]), (0xFA1C, [0x9756]), (0xFA1D, [0x7CBE])]"

definition decomposition_40 :: "mapping_table" where
  "decomposition_40 = [
   (0xFA1E, [0x7FBD]), (0xFA20, [0x8612]), (0xFA22, [0x8AF8]), (0xFA25, [0x9038]),
   (0xFA26, [0x90FD]), (0xFA2A, [0x98EF]), (0xFA2B, [0x98FC]), (0xFA2C, [0x9928]),
   (0xFA2D, [0x9DB4]), (0xFA2E, [0x90DE]), (0xFA2F, [0x96B7]), (0xFA30, [0x4FAE]),
   (0xFA31, [0x50E7]), (0xFA32, [0x514D]), (0xFA33, [0x52C9]), (0xFA34, [0x52E4]),
   (0xFA35, [0x5351]), (0xFA36, [0x559D]), (0xFA37, [0x5606]), (0xFA38, [0x5668]),
   (0xFA39, [0x5840]), (0xFA3A, [0x58A8]), (0xFA3B, [0x5C64]), (0xFA3C, [0x5C6E]),
   (0xFA3D, [0x6094]), (0xFA3E, [0x6168]), (0xFA3F, [0x618E]), (0xFA40, [0x61F2]),
   (0xFA41, [0x654F]), (0xFA42, [0x65E2]), (0xFA43, [0x6691]), (0xFA44, [0x6885])]"

definition decomposition_41 :: "mapping_table" where
  "decomposition_41 = [
   (0xFA45, [0x6D77]), (0xFA46, [0x6E1A]), (0xFA47, [0x6F22]), (0xFA48, [0x716E]),
   (0xFA49, [0x722B]), (0xFA4A, [0x7422]), (0xFA4B, [0x7891]), (0xFA4C, [0x793E]),
   (0xFA4D, [0x7949]), (0xFA4E, [0x7948]), (0xFA4F, [0x7950]), (0xFA50, [0x7956]),
   (0xFA51, [0x795D]), (0xFA52, [0x798D]), (0xFA53, [0x798E]), (0xFA54, [0x7A40]),
   (0xFA55, [0x7A81]), (0xFA56, [0x7BC0]), (0xFA57, [0x7DF4]), (0xFA58, [0x7E09]),
   (0xFA59, [0x7E41]), (0xFA5A, [0x7F72]), (0xFA5B, [0x8005]), (0xFA5C, [0x81ED]),
   (0xFA5D, [0x8279]), (0xFA5E, [0x8279]), (0xFA5F, [0x8457]), (0xFA60, [0x8910]),
   (0xFA61, [0x8996]), (0xFA62, [0x8B01]), (0xFA63, [0x8B39]), (0xFA64, [0x8CD3])]"

definition decomposition_42 :: "mapping_table" where
  "decomposition_42 = [
   (0xFA65, [0x8D08]), (0xFA66, [0x8FB6]), (0xFA67, [0x9038]), (0xFA68, [0x96E3]),
   (0xFA69, [0x97FF]), (0xFA6A, [0x983B]), (0xFA6B, [0x6075]), (0xFA6C, [0x242EE]),
   (0xFA6D, [0x8218]), (0xFA70, [0x4E26]), (0xFA71, [0x51B5]), (0xFA72, [0x5168]),
   (0xFA73, [0x4F80]), (0xFA74, [0x5145]), (0xFA75, [0x5180]), (0xFA76, [0x52C7]),
   (0xFA77, [0x52FA]), (0xFA78, [0x559D]), (0xFA79, [0x5555]), (0xFA7A, [0x5599]),
   (0xFA7B, [0x55E2]), (0xFA7C, [0x585A]), (0xFA7D, [0x58B3]), (0xFA7E, [0x5944]),
   (0xFA7F, [0x5954]), (0xFA80, [0x5A62]), (0xFA81, [0x5B28]), (0xFA82, [0x5ED2]),
   (0xFA83, [0x5ED9]), (0xFA84, [0x5F69]), (0xFA85, [0x5FAD]), (0xFA86, [0x60D8])]"

definition decomposition_43 :: "mapping_table" where
  "decomposition_43 = [
   (0xFA87, [0x614E]), (0xFA88, [0x6108]), (0xFA89, [0x618E]), (0xFA8A, [0x6160]),
   (0xFA8B, [0x61F2]), (0xFA8C, [0x6234]), (0xFA8D, [0x63C4]), (0xFA8E, [0x641C]),
   (0xFA8F, [0x6452]), (0xFA90, [0x6556]), (0xFA91, [0x6674]), (0xFA92, [0x6717]),
   (0xFA93, [0x671B]), (0xFA94, [0x6756]), (0xFA95, [0x6B79]), (0xFA96, [0x6BBA]),
   (0xFA97, [0x6D41]), (0xFA98, [0x6EDB]), (0xFA99, [0x6ECB]), (0xFA9A, [0x6F22]),
   (0xFA9B, [0x701E]), (0xFA9C, [0x716E]), (0xFA9D, [0x77A7]), (0xFA9E, [0x7235]),
   (0xFA9F, [0x72AF]), (0xFAA0, [0x732A]), (0xFAA1, [0x7471]), (0xFAA2, [0x7506]),
   (0xFAA3, [0x753B]), (0xFAA4, [0x761D]), (0xFAA5, [0x761F]), (0xFAA6, [0x76CA])]"

definition decomposition_44 :: "mapping_table" where
  "decomposition_44 = [
   (0xFAA7, [0x76DB]), (0xFAA8, [0x76F4]), (0xFAA9, [0x774A]), (0xFAAA, [0x7740]),
   (0xFAAB, [0x78CC]), (0xFAAC, [0x7AB1]), (0xFAAD, [0x7BC0]), (0xFAAE, [0x7C7B]),
   (0xFAAF, [0x7D5B]), (0xFAB0, [0x7DF4]), (0xFAB1, [0x7F3E]), (0xFAB2, [0x8005]),
   (0xFAB3, [0x8352]), (0xFAB4, [0x83EF]), (0xFAB5, [0x8779]), (0xFAB6, [0x8941]),
   (0xFAB7, [0x8986]), (0xFAB8, [0x8996]), (0xFAB9, [0x8ABF]), (0xFABA, [0x8AF8]),
   (0xFABB, [0x8ACB]), (0xFABC, [0x8B01]), (0xFABD, [0x8AFE]), (0xFABE, [0x8AED]),
   (0xFABF, [0x8B39]), (0xFAC0, [0x8B8A]), (0xFAC1, [0x8D08]), (0xFAC2, [0x8F38]),
   (0xFAC3, [0x9072]), (0xFAC4, [0x9199]), (0xFAC5, [0x9276]), (0xFAC6, [0x967C])]"

definition decomposition_45 :: "mapping_table" where
  "decomposition_45 = [
   (0xFAC7, [0x96E3]), (0xFAC8, [0x9756]), (0xFAC9, [0x97DB]), (0xFACA, [0x97FF]),
   (0xFACB, [0x980B]), (0xFACC, [0x983B]), (0xFACD, [0x9B12]), (0xFACE, [0x9F9C]),
   (0xFACF, [0x2284A]), (0xFAD0, [0x22844]), (0xFAD1, [0x233D5]), (0xFAD2, [0x3B9D]),
   (0xFAD3, [0x4018]), (0xFAD4, [0x4039]), (0xFAD5, [0x25249]), (0xFAD6, [0x25CD0]),
   (0xFAD7, [0x27ED3]), (0xFAD8, [0x9F43]), (0xFAD9, [0x9F8E]), (0xFB1D, [0x5D9, 0x5B4]),
   (0xFB1F, [0x5F2, 0x5B7]), (0xFB2A, [0x5E9, 0x5C1]), (0xFB2B, [0x5E9, 0x5C2]),
   (0xFB2C, [0x5E9, 0x5BC, 0x5C1]), (0xFB2D, [0x5E9, 0x5BC, 0x5C2]),
   (0xFB2E, [0x5D0, 0x5B7]), (0xFB2F, [0x5D0, 0x5B8]), (0xFB30, [0x5D0, 0x5BC]),
   (0xFB31, [0x5D1, 0x5BC]), (0xFB32, [0x5D2, 0x5BC]), (0xFB33, [0x5D3, 0x5BC]),
   (0xFB34, [0x5D4, 0x5BC])]"

definition decomposition_46 :: "mapping_table" where
  "decomposition_46 = [
   (0xFB35, [0x5D5, 0x5BC]), (0xFB36, [0x5D6, 0x5BC]), (0xFB38, [0x5D8, 0x5BC]),
   (0xFB39, [0x5D9, 0x5BC]), (0xFB3A, [0x5DA, 0x5BC]), (0xFB3B, [0x5DB, 0x5BC]),
   (0xFB3C, [0x5DC, 0x5BC]), (0xFB3E, [0x5DE, 0x5BC]), (0xFB40, [0x5E0, 0x5BC]),
   (0xFB41, [0x5E1, 0x5BC]), (0xFB43, [0x5E3, 0x5BC]), (0xFB44, [0x5E4, 0x5BC]),
   (0xFB46, [0x5E6, 0x5BC]), (0xFB47, [0x5E7, 0x5BC]), (0xFB48, [0x5E8, 0x5BC]),
   (0xFB49, [0x5E9, 0x5BC]), (0xFB4A, [0x5EA, 0x5BC]), (0xFB4B, [0x5D5, 0x5B9]),
   (0xFB4C, [0x5D1, 0x5BF]), (0xFB4D, [0x5DB, 0x5BF]), (0xFB4E, [0x5E4, 0x5BF]),
   (0x1109A, [0x11099, 0x110BA]), (0x1109C, [0x1109B, 0x110BA]),
   (0x110AB, [0x110A5, 0x110BA]), (0x1112E, [0x11131, 0x11127]),
   (0x1112F, [0x11132, 0x11127]), (0x1134B, [0x11347, 0x1133E]),
   (0x1134C, [0x11347, 0x11357]), (0x114BB, [0x114B9, 0x114BA]),
   (0x114BC, [0x114B9, 0x114B0]), (0x114BE, [0x114B9, 0x114BD]),
   (0x115BA, [0x115B8, 0x115AF])]"

definition decomposition_47 :: "mapping_table" where
  "decomposition_47 = [
   (0x115BB, [0x115B9, 0x115AF]), (0x11938, [0x11935, 0x11930]),
   (0x1D15E, [0x1D157, 0x1D165]), (0x1D15F, [0x1D158, 0x1D165]),
   (0x1D160, [0x1D158, 0x1D165, 0x1D16E]), (0x1D161, [0x1D158, 0x1D165, 0x1D16F]),
   (0x1D162, [0x1D158, 0x1D165, 0x1D170]), (0x1D163, [0x1D158, 0x1D165, 0x1D171]),
   (0x1D164, [0x1D158, 0x1D165, 0x1D172]), (0x1D1BB, [0x1D1B9, 0x1D165]),
   (0x1D1BC, [0x1D1BA, 0x1D165]), (0x1D1BD, [0x1D1B9, 0x1D165, 0x1D16E]),
   (0x1D1BE, [0x1D1BA, 0x1D165, 0x1D16E]), (0x1D1BF, [0x1D1B9, 0x1D165, 0x1D16F]),
   (0x1D1C0, [0x1D1BA, 0x1D165, 0x1D16F]), (0x2F800, [0x4E3D]), (0x2F801, [0x4E38]),
   (0x2F802, [0x4E41]), (0x2F803, [0x20122]), (0x2F804, [0x4F60]), (0x2F805, [0x4FAE]),
   (0x2F806, [0x4FBB]), (0x2F807, [0x5002]), (0x2F808, [0x507A]), (0x2F809, [0x5099]),
   (0x2F80A, [0x50E7]), (0x2F80B, [0x50CF]), (0x2F80C, [0x349E]), (0x2F80D, [0x2063A]),
   (0x2F80E, [0x514D]), (0x2F80F, [0x5154]), (0x2F810, [0x5164])]"

definition decomposition_48 :: "mapping_table" where
  "decomposition_48 = [
   (0x2F811, [0x5177]), (0x2F812, [0x2051C]), (0x2F813, [0x34B9]), (0x2F814, [0x5167]),
   (0x2F815, [0x518D]), (0x2F816, [0x2054B]), (0x2F817, [0x5197]), (0x2F818, [0x51A4]),
   (0x2F819, [0x4ECC]), (0x2F81A, [0x51AC]), (0x2F81B, [0x51B5]), (0x2F81C, [0x291DF]),
   (0x2F81D, [0x51F5]), (0x2F81E, [0x5203]), (0x2F81F, [0x34DF]), (0x2F820, [0x523B]),
   (0x2F821, [0x5246]), (0x2F822, [0x5272]), (0x2F823, [0x5277]), (0x2F824, [0x3515]),
   (0x2F825, [0x52C7]), (0x2F826, [0x52C9]), (0x2F827, [0x52E4]), (0x2F828, [0x52FA]),
   (0x2F829, [0x5305]), (0x2F82A, [0x5306]), (0x2F82B, [0x5317]), (0x2F82C, [0x5349]),
   (0x2F82D, [0x5351]), (0x2F82E, [0x535A]), (0x2F82F, [0x5373]), (0x2F830, [0x537D])]"

definition decomposition_49 :: "mapping_table" where
  "decomposition_49 = [
   (0x2F831, [0x537F]), (0x2F832, [0x537F]), (0x2F833, [0x537F]), (0x2F834, [0x20A2C]),
   (0x2F835, [0x7070]), (0x2F836, [0x53CA]), (0x2F837, [0x53DF]), (0x2F838, [0x20B63]),
   (0x2F839, [0x53EB]), (0x2F83A, [0x53F1]), (0x2F83B, [0x5406]), (0x2F83C, [0x549E]),
   (0x2F83D, [0x5438]), (0x2F83E, [0x5448]), (0x2F83F, [0x5468]), (0x2F840, [0x54A2]),
   (0x2F841, [0x54F6]), (0x2F842, [0x5510]), (0x2F843, [0x5553]), (0x2F844, [0x5563]),
   (0x2F845, [0x5584]), (0x2F846, [0x5584]), (0x2F847, [0x5599]), (0x2F848, [0x55AB]),
   (0x2F849, [0x55B3]), (0x2F84A, [0x55C2]), (0x2F84B, [0x5716]), (0x2F84C, [0x5606]),
   (0x2F84D, [0x5717]), (0x2F84E, [0x5651]), (0x2F84F, [0x5674]), (0x2F850, [0x5207])]"

definition decomposition_50 :: "mapping_table" where
  "decomposition_50 = [
   (0x2F851, [0x58EE]), (0x2F852, [0x57CE]), (0x2F853, [0x57F4]), (0x2F854, [0x580D]),
   (0x2F855, [0x578B]), (0x2F856, [0x5832]), (0x2F857, [0x5831]), (0x2F858, [0x58AC]),
   (0x2F859, [0x214E4]), (0x2F85A, [0x58F2]), (0x2F85B, [0x58F7]), (0x2F85C, [0x5906]),
   (0x2F85D, [0x591A]), (0x2F85E, [0x5922]), (0x2F85F, [0x5962]), (0x2F860, [0x216A8]),
   (0x2F861, [0x216EA]), (0x2F862, [0x59EC]), (0x2F863, [0x5A1B]), (0x2F864, [0x5A27]),
   (0x2F865, [0x59D8]), (0x2F866, [0x5A66]), (0x2F867, [0x36EE]), (0x2F868, [0x36FC]),
   (0x2F869, [0x5B08]), (0x2F86A, [0x5B3E]), (0x2F86B, [0x5B3E]), (0x2F86C, [0x219C8]),
   (0x2F86D, [0x5BC3]), (0x2F86E, [0x5BD8]), (0x2F86F, [0x5BE7]), (0x2F870, [0x5BF3])]"

definition decomposition_51 :: "mapping_table" where
  "decomposition_51 = [
   (0x2F871, [0x21B18]), (0x2F872, [0x5BFF]), (0x2F873, [0x5C06]), (0x2F874, [0x5F53]),
   (0x2F875, [0x5C22]), (0x2F876, [0x3781]), (0x2F877, [0x5C60]), (0x2F878, [0x5C6E]),
   (0x2F879, [0x5CC0]), (0x2F87A, [0x5C8D]), (0x2F87B, [0x21DE4]), (0x2F87C, [0x5D43]),
   (0x2F87D, [0x21DE6]), (0x2F87E, [0x5D6E]), (0x2F87F, [0x5D6B]), (0x2F880, [0x5D7C]),
   (0x2F881, [0x5DE1]), (0x2F882, [0x5DE2]), (0x2F883, [0x382F]), (0x2F884, [0x5DFD]),
   (0x2F885, [0x5E28]), (0x2F886, [0x5E3D]), (0x2F887, [0x5E69]), (0x2F888, [0x3862]),
   (0x2F889, [0x22183]), (0x2F88A, [0x387C]), (0x2F88B, [0x5EB0]), (0x2F88C, [0x5EB3]),
   (0x2F88D, [0x5EB6]), (0x2F88E, [0x5ECA]), (0x2F88F, [0x2A392]), (0x2F890, [0x5EFE])]"

definition decomposition_52 :: "mapping_table" where
  "decomposition_52 = [
   (0x2F891, [0x22331]), (0x2F892, [0x22331]), (0x2F893, [0x8201]), (0x2F894, [0x5F22]),
   (0x2F895, [0x5F22]), (0x2F896, [0x38C7]), (0x2F897, [0x232B8]), (0x2F898, [0x261DA]),
   (0x2F899, [0x5F62]), (0x2F89A, [0x5F6B]), (0x2F89B, [0x38E3]), (0x2F89C, [0x5F9A]),
   (0x2F89D, [0x5FCD]), (0x2F89E, [0x5FD7]), (0x2F89F, [0x5FF9]), (0x2F8A0, [0x6081]),
   (0x2F8A1, [0x393A]), (0x2F8A2, [0x391C]), (0x2F8A3, [0x6094]), (0x2F8A4, [0x226D4]),
   (0x2F8A5, [0x60C7]), (0x2F8A6, [0x6148]), (0x2F8A7, [0x614C]), (0x2F8A8, [0x614E]),
   (0x2F8A9, [0x614C]), (0x2F8AA, [0x617A]), (0x2F8AB, [0x618E]), (0x2F8AC, [0x61B2]),
   (0x2F8AD, [0x61A4]), (0x2F8AE, [0x61AF]), (0x2F8AF, [0x61DE]), (0x2F8B0, [0x61F2])]"

definition decomposition_53 :: "mapping_table" where
  "decomposition_53 = [
   (0x2F8B1, [0x61F6]), (0x2F8B2, [0x6210]), (0x2F8B3, [0x621B]), (0x2F8B4, [0x625D]),
   (0x2F8B5, [0x62B1]), (0x2F8B6, [0x62D4]), (0x2F8B7, [0x6350]), (0x2F8B8, [0x22B0C]),
   (0x2F8B9, [0x633D]), (0x2F8BA, [0x62FC]), (0x2F8BB, [0x6368]), (0x2F8BC, [0x6383]),
   (0x2F8BD, [0x63E4]), (0x2F8BE, [0x22BF1]), (0x2F8BF, [0x6422]), (0x2F8C0, [0x63C5]),
   (0x2F8C1, [0x63A9]), (0x2F8C2, [0x3A2E]), (0x2F8C3, [0x6469]), (0x2F8C4, [0x647E]),
   (0x2F8C5, [0x649D]), (0x2F8C6, [0x6477]), (0x2F8C7, [0x3A6C]), (0x2F8C8, [0x654F]),
   (0x2F8C9, [0x656C]), (0x2F8CA, [0x2300A]), (0x2F8CB, [0x65E3]), (0x2F8CC, [0x66F8]),
   (0x2F8CD, [0x6649]), (0x2F8CE, [0x3B19]), (0x2F8CF, [0x6691]), (0x2F8D0, [0x3B08])]"

definition decomposition_54 :: "mapping_table" where
  "decomposition_54 = [
   (0x2F8D1, [0x3AE4]), (0x2F8D2, [0x5192]), (0x2F8D3, [0x5195]), (0x2F8D4, [0x6700]),
   (0x2F8D5, [0x669C]), (0x2F8D6, [0x80AD]), (0x2F8D7, [0x43D9]), (0x2F8D8, [0x6717]),
   (0x2F8D9, [0x671B]), (0x2F8DA, [0x6721]), (0x2F8DB, [0x675E]), (0x2F8DC, [0x6753]),
   (0x2F8DD, [0x233C3]), (0x2F8DE, [0x3B49]), (0x2F8DF, [0x67FA]), (0x2F8E0, [0x6785]),
   (0x2F8E1, [0x6852]), (0x2F8E2, [0x6885]), (0x2F8E3, [0x2346D]), (0x2F8E4, [0x688E]),
   (0x2F8E5, [0x681F]), (0x2F8E6, [0x6914]), (0x2F8E7, [0x3B9D]), (0x2F8E8, [0x6942]),
   (0x2F8E9, [0x69A3]), (0x2F8EA, [0x69EA]), (0x2F8EB, [0x6AA8]), (0x2F8EC, [0x236A3]),
   (0x2F8ED, [0x6ADB]), (0x2F8EE, [0x3C18]), (0x2F8EF, [0x6B21]), (0x2F8F0, [0x238A7])]"

definition decomposition_55 :: "mapping_table" where
  "decomposition_55 = [
   (0x2F8F1, [0x6B54]), (0x2F8F2, [0x3C4E]), (0x2F8F3, [0x6B72]), (0x2F8F4, [0x6B9F]),
   (0x2F8F5, [0x6BBA]), (0x2F8F6, [0x6BBB]), (0x2F8F7, [0x23A8D]), (0x2F8F8, [0x21D0B]),
   (0x2F8F9, [0x23AFA]), (0x2F8FA, [0x6C4E]), (0x2F8FB, [0x23CBC]), (0x2F8FC, [0x6CBF]),
   (0x2F8FD, [0x6CCD]), (0x2F8FE, [0x6C67]), (0x2F8FF, [0x6D16]), (0x2F900, [0x6D3E]),
   (0x2F901, [0x6D77]), (0x2F902, [0x6D41]), (0x2F903, [0x6D69]), (0x2F904, [0x6D78]),
   (0x2F905, [0x6D85]), (0x2F906, [0x23D1E]), (0x2F907, [0x6D34]), (0x2F908, [0x6E2F]),
   (0x2F909, [0x6E6E]), (0x2F90A, [0x3D33]), (0x2F90B, [0x6ECB]), (0x2F90C, [0x6EC7]),
   (0x2F90D, [0x23ED1]), (0x2F90E, [0x6DF9]), (0x2F90F, [0x6F6E]), (0x2F910, [0x23F5E])]"

definition decomposition_56 :: "mapping_table" where
  "decomposition_56 = [
   (0x2F911, [0x23F8E]), (0x2F912, [0x6FC6]), (0x2F913, [0x7039]), (0x2F914, [0x701E]),
   (0x2F915, [0x701B]), (0x2F916, [0x3D96]), (0x2F917, [0x704A]), (0x2F918, [0x707D]),
   (0x2F919, [0x7077]), (0x2F91A, [0x70AD]), (0x2F91B, [0x20525]), (0x2F91C, [0x7145]),
   (0x2F91D, [0x24263]), (0x2F91E, [0x719C]), (0x2F91F, [0x243AB]), (0x2F920, [0x7228]),
   (0x2F921, [0x7235]), (0x2F922, [0x7250]), (0x2F923, [0x24608]), (0x2F924, [0x7280]),
   (0x2F925, [0x7295]), (0x2F926, [0x24735]), (0x2F927, [0x24814]), (0x2F928, [0x737A]),
   (0x2F929, [0x738B]), (0x2F92A, [0x3EAC]), (0x2F92B, [0x73A5]), (0x2F92C, [0x3EB8]),
   (0x2F92D, [0x3EB8]), (0x2F92E, [0x7447]), (0x2F92F, [0x745C]), (0x2F930, [0x7471])]"

definition decomposition_57 :: "mapping_table" where
  "decomposition_57 = [
   (0x2F931, [0x7485]), (0x2F932, [0x74CA]), (0x2F933, [0x3F1B]), (0x2F934, [0x7524]),
   (0x2F935, [0x24C36]), (0x2F936, [0x753E]), (0x2F937, [0x24C92]), (0x2F938, [0x7570]),
   (0x2F939, [0x2219F]), (0x2F93A, [0x7610]), (0x2F93B, [0x24FA1]), (0x2F93C, [0x24FB8]),
   (0x2F93D, [0x25044]), (0x2F93E, [0x3FFC]), (0x2F93F, [0x4008]), (0x2F940, [0x76F4]),
   (0x2F941, [0x250F3]), (0x2F942, [0x250F2]), (0x2F943, [0x25119]), (0x2F944, [0x25133]),
   (0x2F945, [0x771E]), (0x2F946, [0x771F]), (0x2F947, [0x771F]), (0x2F948, [0x774A]),
   (0x2F949, [0x4039]), (0x2F94A, [0x778B]), (0x2F94B, [0x4046]), (0x2F94C, [0x4096]),
   (0x2F94D, [0x2541D]), (0x2F94E, [0x784E]), (0x2F94F, [0x788C]), (0x2F950, [0x78CC])]"

definition decomposition_58 :: "mapping_table" where
  "decomposition_58 = [
   (0x2F951, [0x40E3]), (0x2F952, [0x25626]), (0x2F953, [0x7956]), (0x2F954, [0x2569A]),
   (0x2F955, [0x256C5]), (0x2F956, [0x798F]), (0x2F957, [0x79EB]), (0x2F958, [0x412F]),
   (0x2F959, [0x7A40]), (0x2F95A, [0x7A4A]), (0x2F95B, [0x7A4F]), (0x2F95C, [0x2597C]),
   (0x2F95D, [0x25AA7]), (0x2F95E, [0x25AA7]), (0x2F95F, [0x7AEE]), (0x2F960, [0x4202]),
   (0x2F961, [0x25BAB]), (0x2F962, [0x7BC6]), (0x2F963, [0x7BC9]), (0x2F964, [0x4227]),
   (0x2F965, [0x25C80]), (0x2F966, [0x7CD2]), (0x2F967, [0x42A0]), (0x2F968, [0x7CE8]),
   (0x2F969, [0x7CE3]), (0x2F96A, [0x7D00]), (0x2F96B, [0x25F86]), (0x2F96C, [0x7D63]),
   (0x2F96D, [0x4301]), (0x2F96E, [0x7DC7]), (0x2F96F, [0x7E02]), (0x2F970, [0x7E45])]"

definition decomposition_59 :: "mapping_table" where
  "decomposition_59 = [
   (0x2F971, [0x4334]), (0x2F972, [0x26228]), (0x2F973, [0x26247]), (0x2F974, [0x4359]),
   (0x2F975, [0x262D9]), (0x2F976, [0x7F7A]), (0x2F977, [0x2633E]), (0x2F978, [0x7F95]),
   (0x2F979, [0x7FFA]), (0x2F97A, [0x8005]), (0x2F97B, [0x264DA]), (0x2F97C, [0x26523]),
   (0x2F97D, [0x8060]), (0x2F97E, [0x265A8]), (0x2F97F, [0x8070]), (0x2F980, [0x2335F]),
   (0x2F981, [0x43D5]), (0x2F982, [0x80B2]), (0x2F983, [0x8103]), (0x2F984, [0x440B]),
   (0x2F985, [0x813E]), (0x2F986, [0x5AB5]), (0x2F987, [0x267A7]), (0x2F988, [0x267B5]),
   (0x2F989, [0x23393]), (0x2F98A, [0x2339C]), (0x2F98B, [0x8201]), (0x2F98C, [0x8204]),
   (0x2F98D, [0x8F9E]), (0x2F98E, [0x446B]), (0x2F98F, [0x8291]), (0x2F990, [0x828B])]"

definition decomposition_60 :: "mapping_table" where
  "decomposition_60 = [
   (0x2F991, [0x829D]), (0x2F992, [0x52B3]), (0x2F993, [0x82B1]), (0x2F994, [0x82B3]),
   (0x2F995, [0x82BD]), (0x2F996, [0x82E6]), (0x2F997, [0x26B3C]), (0x2F998, [0x82E5]),
   (0x2F999, [0x831D]), (0x2F99A, [0x8363]), (0x2F99B, [0x83AD]), (0x2F99C, [0x8323]),
   (0x2F99D, [0x83BD]), (0x2F99E, [0x83E7]), (0x2F99F, [0x8457]), (0x2F9A0, [0x8353]),
   (0x2F9A1, [0x83CA]), (0x2F9A2, [0x83CC]), (0x2F9A3, [0x83DC]), (0x2F9A4, [0x26C36]),
   (0x2F9A5, [0x26D6B]), (0x2F9A6, [0x26CD5]), (0x2F9A7, [0x452B]), (0x2F9A8, [0x84F1]),
   (0x2F9A9, [0x84F3]), (0x2F9AA, [0x8516]), (0x2F9AB, [0x273CA]), (0x2F9AC, [0x8564]),
   (0x2F9AD, [0x26F2C]), (0x2F9AE, [0x455D]), (0x2F9AF, [0x4561]), (0x2F9B0, [0x26FB1])]"

definition decomposition_61 :: "mapping_table" where
  "decomposition_61 = [
   (0x2F9B1, [0x270D2]), (0x2F9B2, [0x456B]), (0x2F9B3, [0x8650]), (0x2F9B4, [0x865C]),
   (0x2F9B5, [0x8667]), (0x2F9B6, [0x8669]), (0x2F9B7, [0x86A9]), (0x2F9B8, [0x8688]),
   (0x2F9B9, [0x870E]), (0x2F9BA, [0x86E2]), (0x2F9BB, [0x8779]), (0x2F9BC, [0x8728]),
   (0x2F9BD, [0x876B]), (0x2F9BE, [0x8786]), (0x2F9BF, [0x45D7]), (0x2F9C0, [0x87E1]),
   (0x2F9C1, [0x8801]), (0x2F9C2, [0x45F9]), (0x2F9C3, [0x8860]), (0x2F9C4, [0x8863]),
   (0x2F9C5, [0x27667]), (0x2F9C6, [0x88D7]), (0x2F9C7, [0x88DE]), (0x2F9C8, [0x4635]),
   (0x2F9C9, [0x88FA]), (0x2F9CA, [0x34BB]), (0x2F9CB, [0x278AE]), (0x2F9CC, [0x27966]),
   (0x2F9CD, [0x46BE]), (0x2F9CE, [0x46C7]), (0x2F9CF, [0x8AA0]), (0x2F9D0, [0x8AED])]"

definition decomposition_62 :: "mapping_table" where
  "decomposition_62 = [
   (0x2F9D1, [0x8B8A]), (0x2F9D2, [0x8C55]), (0x2F9D3, [0x27CA8]), (0x2F9D4, [0x8CAB]),
   (0x2F9D5, [0x8CC1]), (0x2F9D6, [0x8D1B]), (0x2F9D7, [0x8D77]), (0x2F9D8, [0x27F2F]),
   (0x2F9D9, [0x20804]), (0x2F9DA, [0x8DCB]), (0x2F9DB, [0x8DBC]), (0x2F9DC, [0x8DF0]),
   (0x2F9DD, [0x208DE]), (0x2F9DE, [0x8ED4]), (0x2F9DF, [0x8F38]), (0x2F9E0, [0x285D2]),
   (0x2F9E1, [0x285ED]), (0x2F9E2, [0x9094]), (0x2F9E3, [0x90F1]), (0x2F9E4, [0x9111]),
   (0x2F9E5, [0x2872E]), (0x2F9E6, [0x911B]), (0x2F9E7, [0x9238]), (0x2F9E8, [0x92D7]),
   (0x2F9E9, [0x92D8]), (0x2F9EA, [0x927C]), (0x2F9EB, [0x93F9]), (0x2F9EC, [0x9415]),
   (0x2F9ED, [0x28BFA]), (0x2F9EE, [0x958B]), (0x2F9EF, [0x4995]), (0x2F9F0, [0x95B7])]"

definition decomposition_63 :: "mapping_table" where
  "decomposition_63 = [
   (0x2F9F1, [0x28D77]), (0x2F9F2, [0x49E6]), (0x2F9F3, [0x96C3]), (0x2F9F4, [0x5DB2]),
   (0x2F9F5, [0x9723]), (0x2F9F6, [0x29145]), (0x2F9F7, [0x2921A]), (0x2F9F8, [0x4A6E]),
   (0x2F9F9, [0x4A76]), (0x2F9FA, [0x97E0]), (0x2F9FB, [0x2940A]), (0x2F9FC, [0x4AB2]),
   (0x2F9FD, [0x29496]), (0x2F9FE, [0x980B]), (0x2F9FF, [0x980B]), (0x2FA00, [0x9829]),
   (0x2FA01, [0x295B6]), (0x2FA02, [0x98E2]), (0x2FA03, [0x4B33]), (0x2FA04, [0x9929]),
   (0x2FA05, [0x99A7]), (0x2FA06, [0x99C2]), (0x2FA07, [0x99FE]), (0x2FA08, [0x4BCE]),
   (0x2FA09, [0x29B30]), (0x2FA0A, [0x9B12]), (0x2FA0B, [0x9C40]), (0x2FA0C, [0x9CFD]),
   (0x2FA0D, [0x4CCE]), (0x2FA0E, [0x4CED]), (0x2FA0F, [0x9D67]), (0x2FA10, [0x2A0CE])]"

definition decomposition_64 :: "mapping_table" where
  "decomposition_64 = [
   (0x2FA11, [0x4CF8]), (0x2FA12, [0x2A105]), (0x2FA13, [0x2A20E]), (0x2FA14, [0x2A291]),
   (0x2FA15, [0x9EBB]), (0x2FA16, [0x4D56]), (0x2FA17, [0x9EF9]), (0x2FA18, [0x9EFE]),
   (0x2FA19, [0x9F05]), (0x2FA1A, [0x9F0F]), (0x2FA1B, [0x9F16]), (0x2FA1C, [0x9F3B]),
   (0x2FA1D, [0x2A600])]"

definition decomposition_blocks :: "(nat \<times> mapping_table) list" where
  "decomposition_blocks = [
   (0xE5, decomposition_00), (0x10A, decomposition_01), (0x12E, decomposition_02),
   (0x15B, decomposition_03), (0x17D, decomposition_04), (0x1EA, decomposition_05),
   (0x20F, decomposition_06), (0x344, decomposition_07), (0x40D, decomposition_08),
   (0x4E7, decomposition_09), (0x95E, decomposition_10), (0xDDC, decomposition_11),
   (0x1E00, decomposition_12), (0x1E20, decomposition_13), (0x1E40, decomposition_14),
   (0x1E60, decomposition_15), (0x1E80, decomposition_16), (0x1EA5, decomposition_17),
   (0x1EC5, decomposition_18), (0x1EE5, decomposition_19), (0x1F0B, decomposition_20),
   (0x1F2F, decomposition_21), (0x1F53, decomposition_22), (0x1F77, decomposition_23),
   (0x1F99, decomposition_24), (0x1FBA, decomposition_25), (0x1FE1, decomposition_26),
   (0x219B, decomposition_27), (0x22AD, decomposition_28), (0x3074, decomposition_29),
   (0x30DC, decomposition_30), (0xF918, decomposition_31), (0xF938, decomposition_32),
   (0xF958, decomposition_33), (0xF978, decomposition_34), (0xF998, decomposition_35),
   (0xF9B8, decomposition_36), (0xF9D8, decomposition_37), (0xF9F8, decomposition_38),
   (0xFA1D, decomposition_39), (0xFA44, decomposition_40), (0xFA64, decomposition_41),
   (0xFA86, decomposition_42), (0xFAA6, decomposition_43), (0xFAC6, decomposition_44),
   (0xFB34, decomposition_45), (0x115BA, decomposition_46), (0x2F810, decomposition_47),
   (0x2F830, decomposition_48), (0x2F850, decomposition_49), (0x2F870, decomposition_50),
   (0x2F890, decomposition_51), (0x2F8B0, decomposition_52), (0x2F8D0, decomposition_53),
   (0x2F8F0, decomposition_54), (0x2F910, decomposition_55), (0x2F930, decomposition_56),
   (0x2F950, decomposition_57), (0x2F970, decomposition_58), (0x2F990, decomposition_59),
   (0x2F9B0, decomposition_60), (0x2F9D0, decomposition_61), (0x2F9F0, decomposition_62),
   (0x2FA10, decomposition_63), (0x2FA1D, decomposition_64)]"

definition ccc_00 :: "class_table" where
  "ccc_00 = [
   (0x300, 0x314, 230), (0x315, 0x315, 232), (0x316, 0x319, 220), (0x31A, 0x31A, 232),
   (0x31B, 0x31B, 216), (0x31C, 0x320, 220), (0x321, 0x322, 202), (0x323, 0x326, 220),
   (0x327, 0x328, 202), (0x329, 0x333, 220), (0x334, 0x338, 1), (0x339, 0x33C, 220),
   (0x33D, 0x344, 230), (0x345, 0x345, 240), (0x346, 0x346, 230), (0x347, 0x349, 220),
   (0x34A, 0x34C, 230), (0x34D, 0x34E, 220), (0x350, 0x352, 230), (0x353, 0x356, 220),
   (0x357, 0x357, 230), (0x358, 0x358, 232), (0x359, 0x35A, 220), (0x35B, 0x35B, 230),
   (0x35C, 0x35C, 233), (0x35D, 0x35E, 234), (0x35F, 0x35F, 233), (0x360, 0x361, 234),
   (0x362, 0x362, 233), (0x363, 0x36F, 230), (0x483, 0x487, 230), (0x591, 0x591, 220)]"

definition ccc_01 :: "class_table" where
  "ccc_01 = [
   (0x592, 0x595, 230), (0x596, 0x596, 220), (0x597, 0x599, 230), (0x59A, 0x59A, 222),
   (0x59B, 0x59B, 220), (0x59C, 0x5A1, 230), (0x5A2, 0x5A7, 220), (0x5A8, 0x5A9, 230),
   (0x5AA, 0x5AA, 220), (0x5AB, 0x5AC, 230), (0x5AD, 0x5AD, 222), (0x5AE, 0x5AE, 228),
   (0x5AF, 0x5AF, 230), (0x5B0, 0x5B0, 10), (0x5B1, 0x5B1, 11), (0x5B2, 0x5B2, 12),
   (0x5B3, 0x5B3, 13), (0x5B4, 0x5B4, 14), (0x5B5, 0x5B5, 15), (0x5B6, 0x5B6, 16),
   (0x5B7, 0x5B7, 17), (0x5B8, 0x5B8, 18), (0x5B9, 0x5BA, 19), (0x5BB, 0x5BB, 20),
   (0x5BC, 0x5BC, 21), (0x5BD, 0x5BD, 22), (0x5BF, 0x5BF, 23), (0x5C1, 0x5C1, 24),
   (0x5C2, 0x5C2, 25), (0x5C4, 0x5C4, 230), (0x5C5, 0x5C5, 220), (0x5C7, 0x5C7, 18)]"

definition ccc_02 :: "class_table" where
  "ccc_02 = [
   (0x610, 0x617, 230), (0x618, 0x618, 30), (0x619, 0x619, 31), (0x61A, 0x61A, 32),
   (0x64B, 0x64B, 27), (0x64C, 0x64C, 28), (0x64D, 0x64D, 29), (0x64E, 0x64E, 30),
   (0x64F, 0x64F, 31), (0x650, 0x650, 32), (0x651, 0x651, 33), (0x652, 0x652, 34),
   (0x653, 0x654, 230), (0x655, 0x656, 220), (0x657, 0x65B, 230), (0x65C, 0x65C, 220),
   (0x65D, 0x65E, 230), (0x65F, 0x65F, 220), (0x670, 0x670, 35), (0x6D6, 0x6DC, 230),
   (0x6DF, 0x6E2, 230), (0x6E3, 0x6E3, 220), (0x6E4, 0x6E4, 230), (0x6E7, 0x6E8, 230),
   (0x6EA, 0x6EA, 220), (0x6EB, 0x6EC, 230), (0x6ED, 0x6ED, 220), (0x711, 0x711, 36),
   (0x730, 0x730, 230), (0x731, 0x731, 220), (0x732, 0x733, 230), (0x734, 0x734, 220)]"

definition ccc_03 :: "class_table" where
  "ccc_03 = [
   (0x735, 0x736, 230), (0x737, 0x739, 220), (0x73A, 0x73A, 230), (0x73B, 0x73C, 220),
   (0x73D, 0x73D, 230), (0x73E, 0x73E, 220), (0x73F, 0x741, 230), (0x742, 0x742, 220),
   (0x743, 0x743, 230), (0x744, 0x744, 220), (0x745, 0x745, 230), (0x746, 0x746, 220),
   (0x747, 0x747, 230), (0x748, 0x748, 220), (0x749, 0x74A, 230), (0x7EB, 0x7F1, 230),
   (0x7F2, 0x7F2, 220), (0x7F3, 0x7F3, 230), (0x7FD, 0x7FD, 220), (0x816, 0x819, 230),
   (0x81B, 0x823, 230), (0x825, 0x827, 230), (0x829, 0x82D, 230), (0x859, 0x85B, 220),
   (0x898, 0x898, 230), (0x899, 0x89B, 220), (0x89C, 0x89F, 230), (0x8CA, 0x8CE, 230),
   (0x8CF, 0x8D3, 220), (0x8D4, 0x8E1, 230), (0x8E3, 0x8E3, 220), (0x8E4, 0x8E5, 230)]"

definition ccc_04 :: "class_table" where
  "ccc_04 = [
   (0x8E6, 0x8E6, 220), (0x8E7, 0x8E8, 230), (0x8E9, 0x8E9, 220), (0x8EA, 0x8EC, 230),
   (0x8ED, 0x8EF, 220), (0x8F0, 0x8F0, 27), (0x8F1, 0x8F1, 28), (0x8F2, 0x8F2, 29),
   (0x8F3, 0x8F5, 230), (0x8F6, 0x8F6, 220), (0x8F7, 0x8F8, 230), (0x8F9, 0x8FA, 220),
   (0x8FB, 0x8FF, 230), (0x93C, 0x93C, 7), (0x94D, 0x94D, 9), (0x951, 0x951, 230),
   (0x952, 0x952, 220), (0x953, 0x954, 230), (0x9BC, 0x9BC, 7), (0x9CD, 0x9CD, 9),
   (0x9FE, 0x9FE, 230), (0xA3C, 0xA3C, 7), (0xA4D, 0xA4D, 9), (0xABC, 0xABC, 7),
   (0xACD, 0xACD, 9), (0xB3C, 0xB3C, 7), (0xB4D, 0xB4D, 9), (0xBCD, 0xBCD, 9),
   (0xC3C, 0xC3C, 7), (0xC4D, 0xC4D, 9), (0xC55, 0xC55, 84), (0xC56, 0xC56, 91)]"

definition ccc_05 :: "class_table" where
  "ccc_05 = [
   (0xCBC, 0xCBC, 7), (0xCCD, 0xCCD, 9), (0xD3B, 0xD3C, 9), (0xD4D, 0xD4D, 9),
   (0xDCA, 0xDCA, 9), (0xE38, 0xE39, 103), (0xE3A, 0xE3A, 9), (0xE48, 0xE4B, 107),
   (0xEB8, 0xEB9, 118), (0xEBA, 0xEBA, 9), (0xEC8, 0xECB, 122), (0xF18, 0xF19, 220),
   (0xF35, 0xF35, 220), (0xF37, 0xF37, 220), (0xF39, 0xF39, 216), (0xF71, 0xF71, 129),
   (0xF72, 0xF72, 130), (0xF74, 0xF74, 132), (0xF7A, 0xF7D, 130), (0xF80, 0xF80, 130),
   (0xF82, 0xF83, 230), (0xF84, 0xF84, 9), (0xF86, 0xF87, 230), (0xFC6, 0xFC6, 220),
   (0x1037, 0x1037, 7), (0x1039, 0x103A, 9), (0x108D, 0x108D, 220), (0x135D, 0x135F, 230),
   (0x1714, 0x1715, 9), (0x1734, 0x1734, 9), (0x17D2, 0x17D2, 9), (0x17DD, 0x17DD, 230)]"

definition ccc_06 :: "class_table" where
  "ccc_06 = [
   (0x18A9, 0x18A9, 228), (0x1939, 0x1939, 222), (0x193A, 0x193A, 230),
   (0x193B, 0x193B, 220), (0x1A17, 0x1A17, 230), (0x1A18, 0x1A18, 220),
   (0x1A60, 0x1A60, 9), (0x1A75, 0x1A7C, 230), (0x1A7F, 0x1A7F, 220),
   (0x1AB0, 0x1AB4, 230), (0x1AB5, 0x1ABA, 220), (0x1ABB, 0x1ABC, 230),
   (0x1ABD, 0x1ABD, 220), (0x1ABF, 0x1AC0, 220), (0x1AC1, 0x1AC2, 230),
   (0x1AC3, 0x1AC4, 220), (0x1AC5, 0x1AC9, 230), (0x1ACA, 0x1ACA, 220),
   (0x1ACB, 0x1ACE, 230), (0x1B34, 0x1B34, 7), (0x1B44, 0x1B44, 9), (0x1B6B, 0x1B6B, 230),
   (0x1B6C, 0x1B6C, 220), (0x1B6D, 0x1B73, 230), (0x1BAA, 0x1BAB, 9), (0x1BE6, 0x1BE6, 7),
   (0x1BF2, 0x1BF3, 9), (0x1C37, 0x1C37, 7), (0x1CD0, 0x1CD2, 230), (0x1CD4, 0x1CD4, 1),
   (0x1CD5, 0x1CD9, 220), (0x1CDA, 0x1CDB, 230)]"

definition ccc_07 :: "class_table" where
  "ccc_07 = [
   (0x1CDC, 0x1CDF, 220), (0x1CE0, 0x1CE0, 230), (0x1CE2, 0x1CE8, 1),
   (0x1CED, 0x1CED, 220), (0x1CF4, 0x1CF4, 230), (0x1CF8, 0x1CF9, 230),
   (0x1DC0, 0x1DC1, 230), (0x1DC2, 0x1DC2, 220), (0x1DC3, 0x1DC9, 230),
   (0x1DCA, 0x1DCA, 220), (0x1DCB, 0x1DCC, 230), (0x1DCD, 0x1DCD, 234),
   (0x1DCE, 0x1DCE, 214), (0x1DCF, 0x1DCF, 220), (0x1DD0, 0x1DD0, 202),
   (0x1DD1, 0x1DF5, 230), (0x1DF6, 0x1DF6, 232), (0x1DF7, 0x1DF8, 228),
   (0x1DF9, 0x1DF9, 220), (0x1DFA, 0x1DFA, 218), (0x1DFB, 0x1DFB, 230),
   (0x1DFC, 0x1DFC, 233), (0x1DFD, 0x1DFD, 220), (0x1DFE, 0x1DFE, 230),
   (0x1DFF, 0x1DFF, 220), (0x20D0, 0x20D1, 230), (0x20D2, 0x20D3, 1),
   (0x20D4, 0x20D7, 230), (0x20D8, 0x20DA, 1), (0x20DB, 0x20DC, 230),
   (0x20E1, 0x20E1, 230), (0x20E5, 0x20E6, 1)]"

definition ccc_08 :: "class_table" where
  "ccc_08 = [
   (0x20E7, 0x20E7, 230), (0x20E8, 0x20E8, 220), (0x20E9, 0x20E9, 230),
   (0x20EA, 0x20EB, 1), (0x20EC, 0x20EF, 220), (0x20F0, 0x20F0, 230),
   (0x2CEF, 0x2CF1, 230), (0x2D7F, 0x2D7F, 9), (0x2DE0, 0x2DFF, 230),
   (0x302A, 0x302A, 218), (0x302B, 0x302B, 228), (0x302C, 0x302C, 232),
   (0x302D, 0x302D, 222), (0x302E, 0x302F, 224), (0x3099, 0x309A, 8),
   (0xA66F, 0xA66F, 230), (0xA674, 0xA67D, 230), (0xA69E, 0xA69F, 230),
   (0xA6F0, 0xA6F1, 230), (0xA806, 0xA806, 9), (0xA82C, 0xA82C, 9), (0xA8C4, 0xA8C4, 9),
   (0xA8E0, 0xA8F1, 230), (0xA92B, 0xA92D, 220), (0xA953, 0xA953, 9), (0xA9B3, 0xA9B3, 7),
   (0xA9C0, 0xA9C0, 9), (0xAAB0, 0xAAB0, 230), (0xAAB2, 0xAAB3, 230),
   (0xAAB4, 0xAAB4, 220), (0xAAB7, 0xAAB8, 230), (0xAABE, 0xAABF, 230)]"

definition ccc_09 :: "class_table" where
  "ccc_09 = [
   (0xAAC1, 0xAAC1, 230), (0xAAF6, 0xAAF6, 9), (0xABED, 0xABED, 9), (0xFB1E, 0xFB1E, 26),
   (0xFE20, 0xFE26, 230), (0xFE27, 0xFE2D, 220), (0xFE2E, 0xFE2F, 230),
   (0x101FD, 0x101FD, 220), (0x102E0, 0x102E0, 220), (0x10376, 0x1037A, 230),
   (0x10A0D, 0x10A0D, 220), (0x10A0F, 0x10A0F, 230), (0x10A38, 0x10A38, 230),
   (0x10A39, 0x10A39, 1), (0x10A3A, 0x10A3A, 220), (0x10A3F, 0x10A3F, 9),
   (0x10AE5, 0x10AE5, 230), (0x10AE6, 0x10AE6, 220), (0x10D24, 0x10D27, 230),
   (0x10EAB, 0x10EAC, 230), (0x10F46, 0x10F47, 220), (0x10F48, 0x10F4A, 230),
   (0x10F4B, 0x10F4B, 220), (0x10F4C, 0x10F4C, 230), (0x10F4D, 0x10F50, 220),
   (0x10F82, 0x10F82, 230), (0x10F83, 0x10F83, 220), (0x10F84, 0x10F84, 230),
   (0x10F85, 0x10F85, 220), (0x11046, 0x11046, 9), (0x11070, 0x11070, 9),
   (0x1107F, 0x1107F, 9)]"

definition ccc_10 :: "class_table" where
  "ccc_10 = [
   (0x110B9, 0x110B9, 9), (0x110BA, 0x110BA, 7), (0x11100, 0x11102, 230),
   (0x11133, 0x11134, 9), (0x11173, 0x11173, 7), (0x111C0, 0x111C0, 9),
   (0x111CA, 0x111CA, 7), (0x11235, 0x11235, 9), (0x11236, 0x11236, 7),
   (0x112E9, 0x112E9, 7), (0x112EA, 0x112EA, 9), (0x1133B, 0x1133C, 7),
   (0x1134D, 0x1134D, 9), (0x11366, 0x1136C, 230), (0x11370, 0x11374, 230),
   (0x11442, 0x11442, 9), (0x11446, 0x11446, 7), (0x1145E, 0x1145E, 230),
   (0x114C2, 0x114C2, 9), (0x114C3, 0x114C3, 7), (0x115BF, 0x115BF, 9),
   (0x115C0, 0x115C0, 7), (0x1163F, 0x1163F, 9), (0x116B6, 0x116B6, 9),
   (0x116B7, 0x116B7, 7), (0x1172B, 0x1172B, 9), (0x11839, 0x11839, 9),
   (0x1183A, 0x1183A, 7), (0x1193D, 0x1193E, 9), (0x11943, 0x11943, 7),
   (0x119E0, 0x119E0, 9), (0x11A34, 0x11A34, 9)]"

definition ccc_11 :: "class_table" where
  "ccc_11 = [
   (0x11A47, 0x11A47, 9), (0x11A99, 0x11A99, 9), (0x11C3F, 0x11C3F, 9),
   (0x11D42, 0x11D42, 7), (0x11D44, 0x11D45, 9), (0x11D97, 0x11D97, 9),
   (0x16AF0, 0x16AF4, 1), (0x16B30, 0x16B36, 230), (0x16FF0, 0x16FF1, 6),
   (0x1BC9E, 0x1BC9E, 1), (0x1D165, 0x1D166, 216), (0x1D167, 0x1D169, 1),
   (0x1D16D, 0x1D16D, 226), (0x1D16E, 0x1D172, 216), (0x1D17B, 0x1D182, 220),
   (0x1D185, 0x1D189, 230), (0x1D18A, 0x1D18B, 220), (0x1D1AA, 0x1D1AD, 230),
   (0x1D242, 0x1D244, 230), (0x1E000, 0x1E006, 230), (0x1E008, 0x1E018, 230),
   (0x1E01B, 0x1E021, 230), (0x1E023, 0x1E024, 230), (0x1E026, 0x1E02A, 230),
   (0x1E130, 0x1E136, 230), (0x1E2AE, 0x1E2AE, 230), (0x1E2EC, 0x1E2EF, 230),
   (0x1E8D0, 0x1E8D6, 220), (0x1E944, 0x1E949, 230), (0x1E94A, 0x1E94A, 7)]"

definition ccc_blocks :: "(nat \<times> class_table) list" where
  "ccc_blocks = [
   (0x591, ccc_00), (0x5C7, ccc_01), (0x734, ccc_02), (0x8E5, ccc_03), (0xC56, ccc_04),
   (0x17DD, ccc_05), (0x1CDB, ccc_06), (0x20E6, ccc_07), (0xAABF, ccc_08),
   (0x1107F, ccc_09), (0x11A34, ccc_10), (0x1E94A, ccc_11)]"

text \<open>
  \<open>find_block blocks c\<close> is the first block whose greatest code point is not below \<open>c\<close>: the
  only block that can hold an entry for \<open>c\<close>. A code point without an entry is its own
  upper case and its own decomposition, and has combining class 0.
\<close>

definition find_block :: "(nat \<times> 'a) list \<Rightarrow> nat \<Rightarrow> 'a option" where
  "find_block blocks c = map_option snd (find (\<lambda>(hi, t). c \<le> hi) blocks)"

definition toUpper_cp :: "nat \<Rightarrow> nat list" where
  "toUpper_cp c =
     (case find_block upper_blocks c of
        None \<Rightarrow> [c]
      | Some t \<Rightarrow> (case map_of t c of None \<Rightarrow> [c] | Some v \<Rightarrow> v))"

definition hangul_decomposition :: "nat \<Rightarrow> nat list" where
  "hangul_decomposition c =
     (let s = c - 0xAC00;
          l = 0x1100 + s div 588;
          v = 0x1161 + (s mod 588) div 28;
          t = 0x11A7 + s mod 28
      in if s mod 28 = 0 then [l, v] else [l, v, t])"

definition decompose_cp :: "nat \<Rightarrow> nat list" where
  "decompose_cp c =
     (if 0xAC00 \<le> c \<and> c \<le> 0xD7A3 then hangul_decomposition c
      else case find_block decomposition_blocks c of
             None \<Rightarrow> [c]
           | Some t \<Rightarrow> (case map_of t c of None \<Rightarrow> [c] | Some v \<Rightarrow> v))"

definition ccc :: "nat \<Rightarrow> nat" where
  "ccc c =
     (case find_block ccc_blocks c of
        None \<Rightarrow> 0
      | Some t \<Rightarrow> (case find (\<lambda>(lo, hi, k). lo \<le> c \<and> c \<le> hi) t of
                    None \<Rightarrow> 0
                  | Some (lo, hi, k) \<Rightarrow> k))"

text \<open>
  Canonical ordering: adjacent code points \<open>a\<close>, \<open>b\<close> with \<open>ccc a > ccc b > 0\<close> are
  exchanged until no such pair is left. \<open>reorder_insert c ds\<close> puts \<open>c\<close> in front of the
  ordered \<open>ds\<close> and moves it behind the marks of smaller class.
\<close>

fun reorder_insert :: "nat \<Rightarrow> nat list \<Rightarrow> nat list" where
  "reorder_insert c [] = [c]"
| "reorder_insert c (d # ds) =
     (if ccc d < ccc c \<and> 0 < ccc d then d # reorder_insert c ds else c # d # ds)"

fun canonical_order :: "nat list \<Rightarrow> nat list" where
  "canonical_order [] = []"
| "canonical_order (c # cs) = reorder_insert c (canonical_order cs)"

definition toUpperCase :: "js_string \<Rightarrow> js_string" where
  "toUpperCase s = from_code_points (concat (map toUpper_cp (code_points s)))"

definition nfd :: "js_string \<Rightarrow> js_string" where
  "nfd s = from_code_points (canonical_order (concat (map decompose_cp (code_points s))))"

section \<open>Alphabet, normalizer and index codec\<close>

text \<open>
  The constant \<^verbatim>\<open>UNIFIED_ALPHABET\<close>: the letters \<open>A\<close> to \<open>N\<close>, the letter U+00D1 (N with
  tilde), the letters \<open>O\<close> to \<open>Z\<close>, the digits, the space and the signs
  \<^verbatim>\<open>!?,.:;-_()@#$/+*=<>\<close>, then the three escapes of the literal, a backslash (\<open>0x5C\<close>), a
  double quote (\<open>0x22\<close>) and an apostrophe (\<open>0x27\<close>), and the brackets \<^verbatim>\<open>[]{}\<close>.
\<close>

definition UNIFIED_ALPHABET :: js_string where
  "UNIFIED_ALPHABET =
     ascii ''ABCDEFGHIJKLMN'' @ [0xD1] @ ascii ''OPQRSTUVWXYZ0123456789 !?,.:;-_()@#$/+*=<>''
     @ [0x5C, 0x22, 0x27] @ ascii ''[]{}''"

text \<open>
  \<^verbatim>\<open>s.replace(/[\u0300-\u036f]/g, "")\<close> deletes the code units \<open>0x300\<close> to \<open>0x36F\<close>, the
  block of combining diacritical marks.
\<close>

definition strip_marks :: "js_string \<Rightarrow> js_string" where
  "strip_marks s = filter (\<lambda>u. \<not> (0x300 \<le> u \<and> u \<le> 0x36F)) s"

text \<open>
  \<^verbatim>\<open>function normalizeInput(input, alphabet)\<close>: upper case, decompose, delete the combining
  marks, then append to \<open>out\<close> every character of the result that the alphabet includes.
\<close>

definition normalizeInput :: "js_string \<Rightarrow> js_string \<Rightarrow> js_string" where
  "normalizeInput input alphabet =
     (let s = toUpperCase input;
          s = strip_marks (nfd s)
      in foldl (\<lambda>out ch. if includes_str alphabet ch then out @ ch else out) [] (chars s))"

definition toIndices :: "js_string \<Rightarrow> js_string \<Rightarrow> num list" where
  "toIndices text alphabet = map (\<lambda>ch. Num (indexOf alphabet ch)) (chars text)"

definition fromIndices :: "num list \<Rightarrow> js_string \<Rightarrow> js_string" where
  "fromIndices arr alphabet = concat (map (\<lambda>i. char_at alphabet i) arr)"

section \<open>The cipher engine\<close>

text \<open>
  \<^verbatim>\<open>const otpAdd = (m, p, mod) => m.map((v, i) => (v + p[i]) % mod);\<close>
  \<^verbatim>\<open>const otpSub = (c, p, mod) => c.map((v, i) => ((v - p[i]) % mod + mod) % mod);\<close>
  Neither function compares the lengths of its operands: \<^verbatim>\<open>map\<close> runs over the first
  array and reads the second by position.
\<close>

definition otpAdd :: "num list \<Rightarrow> num list \<Rightarrow> num \<Rightarrow> num list" where
  "otpAdd m p md = map (\<lambda>(i, v). js_rem (js_add v (num_at p i)) md) (enumerate 0 m)"

definition otpSub :: "num list \<Rightarrow> num list \<Rightarrow> num \<Rightarrow> num list" where
  "otpSub c p md =
     map (\<lambda>(i, v). js_rem (js_add (js_rem (js_sub v (num_at p i)) md) md) md) (enumerate 0 c)"

section \<open>The pad generator\<close>

text \<open>
  \<^verbatim>\<open>crypto.getRandomValues(buf)\<close> fills the \<^verbatim>\<open>Uint32Array\<close> with random values, which the
  model takes from \<open>rnd\<close>, position by position. The Web Cryptography API refuses a
  request for more than 65536 bytes with a \<^verbatim>\<open>QuotaExceededError\<close>, and an element of a
  \<^verbatim>\<open>Uint32Array\<close> takes four bytes. (The allocation of the array is taken to succeed.)
\<close>

datatype exn = QuotaExceededError

definition getRandomValues :: "(nat \<Rightarrow> 32 word) \<Rightarrow> nat \<Rightarrow> exn + 32 word list" where
  "getRandomValues rnd len =
     (if 65536 < 4 * len then Inl QuotaExceededError else Inr (map rnd [0..<len]))"

text \<open>
  \<^verbatim>\<open>function randomPad(len, alphabet)\<close>: each random value is reduced by \<^verbatim>\<open>n % mod\<close>, with
  \<^verbatim>\<open>mod = alphabet.length\<close>, and rendered through the alphabet.
\<close>

definition randomPad :: "(nat \<Rightarrow> 32 word) \<Rightarrow> nat \<Rightarrow> js_string \<Rightarrow> exn + js_string" where
  "randomPad rnd len alphabet =
     (let md = Num (int (length alphabet)) in
      case getRandomValues rnd len of
        Inl e \<Rightarrow> Inl e
      | Inr buf \<Rightarrow>
          (let idx = map (\<lambda>n. js_rem (Num (uint n)) md) buf
           in Inr (fromIndices idx alphabet)))"

text \<open>A random source for examples: every value is \<open>0\<close>.\<close>

definition zeros :: "nat \<Rightarrow> 32 word" where
  "zeros i = 0"

section \<open>The component state and its handlers\<close>

datatype mode = Encrypt | Decrypt
datatype step = AskPad | Ready
datatype tone = Ok | Warn | Err

record status =
  status_text :: js_string
  tone :: "tone option"

text \<open>
  The state variables of \<^verbatim>\<open>OTPApp\<close>, and \<open>timer\<close>: whether the interval that the countdown
  effect installs is running. \<^verbatim>\<open>null\<close> is \<open>None\<close>.
\<close>

record session =
  modeScreen :: "mode option"
  decryptStep :: step
  padInput :: js_string
  message :: js_string
  cipher :: js_string
  pad :: js_string
  status :: status
  showEncryptResults :: bool
  countdown :: "int option"
  timer :: bool

definition modulus :: num where
  "modulus = Num (int (length UNIFIED_ALPHABET))"

definition setOK :: "js_string \<Rightarrow> session \<Rightarrow> session" where
  "setOK t s = s\<lparr>status := \<lparr>status_text = t, tone = Some Ok\<rparr>\<rparr>"

definition setErr :: "js_string \<Rightarrow> session \<Rightarrow> session" where
  "setErr t s = s\<lparr>status := \<lparr>status_text = t, tone = Some Err\<rparr>\<rparr>"

definition resetAll :: "session \<Rightarrow> session" where
  "resetAll s =
     s\<lparr>message := [], cipher := [], pad := [], padInput := [], decryptStep := AskPad,
       showEncryptResults := False, countdown := None,
       status := \<lparr>status_text = ascii ''Listo.'', tone = None\<rparr>\<rparr>"

text \<open>
  The countdown effect, \<^verbatim>\<open>useEffect(..., [countdown])\<close>, after a render that follows the
  state \<open>prev\<close>: it runs only when \<open>countdown\<close> has changed. Its cleanup clears the interval
  of the previous run; then \<^verbatim>\<open>null\<close> returns at once, a value \<open>\<le> 0\<close> calls \<open>resetAll\<close>
  (whose render changes \<open>countdown\<close> to \<^verbatim>\<open>null\<close>, so the effect runs once more and
  returns), and a positive value installs a new interval.
\<close>

definition effects :: "session \<Rightarrow> session \<Rightarrow> session" where
  "effects prev s =
     (if countdown s = countdown prev then s
      else case countdown s of
             None \<Rightarrow> s\<lparr>timer := False\<rparr>
           | Some n \<Rightarrow> if n \<le> 0 then (resetAll s)\<lparr>timer := False\<rparr> else s\<lparr>timer := True\<rparr>)"

text \<open>
  The callback of the interval, \<^verbatim>\<open>setCountdown((s) => (s ?? 1) - 1)\<close>, with the effects of
  the render it causes.
\<close>

definition interval_callback :: "session \<Rightarrow> session" where
  "interval_callback s =
     effects s (s\<lparr>countdown := Some ((case countdown s of None \<Rightarrow> 1 | Some n \<Rightarrow> n) - 1)\<rparr>)"

text \<open>A tick: the callback fires if the interval is installed. Without one there is no event.\<close>

definition tick :: "session \<Rightarrow> session" where
  "tick s = (if timer s then interval_callback s else s)"

text \<open>
  \<^verbatim>\<open>setModeScreen(m)\<close>, from the buttons of the screens: a change of \<open>modeScreen\<close> runs
  \<^verbatim>\<open>useEffect(() => { resetAll(); }, [modeScreen])\<close>.
\<close>

definition setModeScreen :: "mode option \<Rightarrow> session \<Rightarrow> session" where
  "setModeScreen m s =
     (if m = modeScreen s then s else effects s (resetAll (s\<lparr>modeScreen := m\<rparr>)))"

definition onClearAll :: "session \<Rightarrow> session" where
  "onClearAll s = effects s (resetAll s)"

text \<open>
  \<^verbatim>\<open>onAcceptPadForDecrypt\<close> and \<^verbatim>\<open>onDecrypt\<close> run their body in \<^verbatim>\<open>try\<close>; every \<^verbatim>\<open>throw\<close> comes
  before the first state update, and the \<^verbatim>\<open>catch\<close> passes the message to \<open>setErr\<close>. The
  bodies return the message of the error (\<open>Inl\<close>) or the updated state.
\<close>

definition acceptPad_body :: "session \<Rightarrow> js_string + session" where
  "acceptPad_body s =
     (let pNorm = normalizeInput (padInput s) UNIFIED_ALPHABET in
      if length pNorm = 0 then Inl (ascii ''Pega primero el PAD / Clave.'')
      else Inr (setOK (ascii ''PAD listo. Ahora pega el texto cifrado y presiona Descifrar.'')
                  (s\<lparr>pad := pNorm, decryptStep := Ready\<rparr>)))"

definition onAcceptPadForDecrypt :: "session \<Rightarrow> session" where
  "onAcceptPadForDecrypt s =
     (case acceptPad_body s of Inl msg \<Rightarrow> setErr msg s | Inr s' \<Rightarrow> effects s s')"

definition mismatch_message :: "nat \<Rightarrow> nat \<Rightarrow> js_string" where
  "mismatch_message c p =
     ascii ''El pad debe tener la MISMA longitud. (cifrado='' @ decimal c
     @ ascii '', pad='' @ decimal p @ ascii '')''"

definition decrypt_body :: "session \<Rightarrow> js_string + session" where
  "decrypt_body s =
     (if decryptStep s \<noteq> Ready then Inl (ascii ''Primero proporciona el PAD / Clave.'')
      else
        let c = normalizeInput (cipher s) UNIFIED_ALPHABET;
            p = pad s
        in if length c = 0 then Inl (ascii ''Pega el texto cifrado.'')
           else if length c \<noteq> length p then Inl (mismatch_message (length c) (length p))
           else
             let ci = toIndices c UNIFIED_ALPHABET;
                 pi = toIndices p UNIFIED_ALPHABET;
                 mi = otpSub ci pi modulus;
                 plain = fromIndices mi UNIFIED_ALPHABET
             in Inr (setOK (ascii ''Descifrado recuperado. El mensaje se limpiar'' @ [0xE1]
                            @ ascii '' autom'' @ [0xE1] @ ascii ''ticamente en 5 minutos.'')
                       (s\<lparr>message := plain, countdown := Some (5 * 60)\<rparr>)))"

definition onDecrypt :: "session \<Rightarrow> session" where
  "onDecrypt s = (case decrypt_body s of Inl msg \<Rightarrow> setErr msg s | Inr s' \<Rightarrow> effects s s')"

text \<open>The state after mounting: the initial values of \<^verbatim>\<open>useState\<close>, no interval.\<close>

definition initial :: session where
  "initial =
     \<lparr>modeScreen = None, decryptStep = AskPad, padInput = [], message = [], cipher = [],
      pad = [], status = \<lparr>status_text = ascii ''Listo.'', tone = None\<rparr>,
      showEncryptResults = False, countdown = None, timer = False\<rparr>"

text \<open>
  The screen that \<^verbatim>\<open>OTPApp\<close> renders, in the order of its \<^verbatim>\<open>return\<close> statements, named as the
  states of the session: without a mode the choice of mode (\<open>Idle\<close>); in decrypt mode
  with \<^verbatim>\<open>decryptStep === "askPad"\<close> the request for the pad (\<open>AwaitingPad\<close>); in decrypt mode
  at step \<^verbatim>\<open>"ready"\<close> the ciphertext form, with the countdown once one is running; in
  encrypt mode the message form, with or without results.
\<close>

datatype phase =
  Idle | AwaitingPad | PadAccepted | DecryptedActive int | MessageEntry | Encrypted

definition phase_of :: "session \<Rightarrow> phase" where
  "phase_of s =
     (case modeScreen s of
        None \<Rightarrow> Idle
      | Some Decrypt \<Rightarrow>
          (if decryptStep s = AskPad then AwaitingPad
           else case countdown s of None \<Rightarrow> PadAccepted | Some n \<Rightarrow> DecryptedActive n)
      | Some Encrypt \<Rightarrow> (if showEncryptResults s then Encrypted else MessageEntry))"

text \<open>
  \<^verbatim>\<open>onEncrypt\<close>: besides its own \<^verbatim>\<open>Error\<close>, the body can throw what \<open>randomPad\<close> throws; the
  \<^verbatim>\<open>catch\<close> shows \<^verbatim>\<open>e.message || String(e)\<close>, a text of the platform given by \<open>platform_text\<close>.
\<close>

datatype thrown = Error js_string | Platform exn

definition encrypt_body :: "(nat \<Rightarrow> 32 word) \<Rightarrow> session \<Rightarrow> thrown + session" where
  "encrypt_body rnd s =
     (let norm = normalizeInput (message s) UNIFIED_ALPHABET in
      if length norm = 0 then Inl (Error (ascii ''Escribe el mensaje que quieres cifrar.''))
      else case randomPad rnd (length norm) UNIFIED_ALPHABET of
             Inl e \<Rightarrow> Inl (Platform e)
           | Inr newPad \<Rightarrow>
               (let mi = toIndices norm UNIFIED_ALPHABET;
                    pi = toIndices newPad UNIFIED_ALPHABET;
                    ci = otpAdd mi pi modulus;
                    ct = fromIndices ci UNIFIED_ALPHABET
                in Inr (setOK (ascii ''Cifrado listo. Copia el pad y el texto cifrado.'')
                          (s\<lparr>pad := newPad, cipher := ct, showEncryptResults := True\<rparr>))))"

definition onEncrypt :: "(exn \<Rightarrow> js_string) \<Rightarrow> (nat \<Rightarrow> 32 word) \<Rightarrow> session \<Rightarrow> session" where
  "onEncrypt platform_text rnd s =
     (case encrypt_body rnd s of
        Inl (Error msg) \<Rightarrow> setErr msg s
      | Inl (Platform e) \<Rightarrow> setErr (platform_text e) s
      | Inr s' \<Rightarrow> effects s s')"

text \<open>
  The states that the component can reach from its mount: by the mode buttons, by typing
  into the three text areas, by the four handlers and by the interval.
\<close>

inductive reachable :: "session \<Rightarrow> bool" where
  mount: "reachable initial"
| chooseMode: "reachable s \<Longrightarrow> reachable (setModeScreen m s)"
| typePad: "reachable s \<Longrightarrow> reachable (s\<lparr>padInput := x\<rparr>)"
| typeMessage: "reachable s \<Longrightarrow> reachable (s\<lparr>message := x\<rparr>)"
| typeCipher: "reachable s \<Longrightarrow> reachable (s\<lparr>cipher := x\<rparr>)"
| encrypt: "reachable s \<Longrightarrow> reachable (onEncrypt platform_text rnd s)"
| acceptPad: "reachable s \<Longrightarrow> reachable (onAcceptPadForDecrypt s)"
| decrypt: "reachable s \<Longrightarrow> reachable (onDecrypt s)"
| clear: "reachable s \<Longrightarrow> reachable (onClearAll s)"
| interval: "reachable s \<Longrightarrow> reachable (tick s)"

text \<open>The interval runs exactly while \<open>countdown\<close> holds a positive number.\<close>

definition consistent :: "session \<Rightarrow> bool" where
  "consistent s \<longleftrightarrow> timer s = (case countdown s of None \<Rightarrow> False | Some n \<Rightarrow> 0 < n)"

text \<open>
  Sessions for the scenarios: decrypt mode chosen and the pad \<open>ABCDEFGHIJ\<close> accepted
  (\<open>pad_accepted\<close>), then the ciphertext \<open>ABCDE\<close> typed (\<open>scenario_C\<close>); the pad \<open>AB\<close> accepted
  and the ciphertext \<open>CD\<close> typed (\<open>scenario_D\<close>); the latter decrypted and 150 ticks later
  (\<open>scenario_E\<close>).
\<close>

definition accept :: "js_string \<Rightarrow> session" where
  "accept p = onAcceptPadForDecrypt ((setModeScreen (Some Decrypt) initial)\<lparr>padInput := p\<rparr>)"

definition pad_accepted :: session where
  "pad_accepted = accept (ascii ''ABCDEFGHIJ'')"


definition scenario_D :: session where
  "scenario_D = (accept (ascii ''AB''))\<lparr>cipher := ascii ''CD''\<rparr>"

definition scenario_E :: session where
  "scenario_E = (tick ^^ 150) (onDecrypt scenario_D)"

text \<open>A session with a long message: encrypt mode chosen and 16385 letters \<open>A\<close> typed.\<close>

definition long_text :: js_string where
  "long_text = replicate 16385 0x41"

definition long_message :: session where
  "long_message = (setModeScreen (Some Encrypt) initial)\<lparr>message := long_text\<rparr>"

section \<open>Properties of the cipher engine\<close>

lemma trunc_rem_nonneg: "0 \<le> a \<Longrightarrow> 0 < b \<Longrightarrow> trunc_rem a b = a mod b"
  by (cases "a = 0") (simp_all add: trunc_rem_def)

lemma trunc_rem_small: "\<bar>a\<bar> < b \<Longrightarrow> trunc_rem a b = a"
  by (cases a "0::int" rule: linorder_cases) (simp_all add: trunc_rem_def)

text \<open>
  One position of the round trip. The inner remainder of \<open>otpSub\<close> may be negative (the
  truncating \<^verbatim>\<open>%\<close> keeps the sign of \<open>(a + b) mod M - b\<close>); adding \<open>M\<close> before the outer
  remainder brings it back into \<open>[0, M)\<close>.
\<close>

lemma roundtrip_element:
  assumes "0 \<le> a" "a < M" "0 \<le> b" "b < M"
  shows "trunc_rem (trunc_rem (trunc_rem (a + b) M - b) M + M) M = a"
proof -
  let ?s = "(a + b) mod M"
  have M: "0 < M" using assms by simp
  have s: "trunc_rem (a + b) M = ?s" using assms M by (simp add: trunc_rem_nonneg)
  have bounds: "0 \<le> ?s" "?s < M" using M by simp_all
  have "\<bar>?s - b\<bar> < M" using bounds assms by linarith
  then have d: "trunc_rem (?s - b) M = ?s - b" by (rule trunc_rem_small)
  have "0 \<le> ?s - b + M" using bounds assms by linarith
  then have "trunc_rem (?s - b + M) M = (?s - b + M) mod M" using M by (simp add: trunc_rem_nonneg)
  also have "\<dots> = (?s - b) mod M" by simp
  also have "\<dots> = (a + b - b) mod M" by (simp add: mod_diff_left_eq)
  also have "\<dots> = a" using assms by simp
  finally show ?thesis by (simp add: s d)
qed

text \<open>
  For integer operands of equal length and a positive modulus, every element of the
  result of \<open>otpSub\<close> is an integer of \<open>[0, M)\<close>, whatever the signs of the operands.
\<close>

lemma otpSub_element_range:
  assumes "0 < M"
  shows "0 \<le> trunc_rem (trunc_rem (c - p) M + M) M \<and> trunc_rem (trunc_rem (c - p) M + M) M < M"
proof -
  have "\<bar>trunc_rem (c - p) M\<bar> < M"
    using assms by (simp add: trunc_rem_def abs_mult)
  then have "0 \<le> trunc_rem (c - p) M + M" by linarith
  then have "trunc_rem (trunc_rem (c - p) M + M) M = (trunc_rem (c - p) M + M) mod M"
    using assms by (simp add: trunc_rem_nonneg)
  then show ?thesis using assms by simp
qed

lemma otpSub_range:
  assumes "length c = length p" "0 < M" "r \<in> set (otpSub (map Num c) (map Num p) (Num M))"
  shows "\<exists>k. r = Num k \<and> 0 \<le> k \<and> k < M"
proof -
  from assms(3) obtain i where i: "i < length c"
    and r: "r = otpSub (map Num c) (map Num p) (Num M) ! i"
    by (auto simp: in_set_conv_nth otpSub_def)
  have "r = Num (trunc_rem (trunc_rem (c ! i - p ! i) M + M) M)"
    using i assms(1,2) unfolding r by (simp add: otpSub_def nth_enumerate_eq num_at_def)
  then show ?thesis using otpSub_element_range [OF assms(2)] by blast
qed

lemma length_otpAdd: "length (otpAdd m p md) = length m"
  by (simp add: otpAdd_def)

lemma length_otpSub: "length (otpSub c p md) = length c"
  by (simp add: otpSub_def)

lemma otp_past_pad:
  assumes "length p \<le> i" "i < length m"
  shows "otpAdd m p md ! i = NaN" "otpSub m p md ! i = NaN"
  using assms by (simp_all add: otpAdd_def otpSub_def nth_enumerate_eq num_at_def)

section \<open>Properties of strings\<close>

lemma foldl_append_if:
  "foldl (\<lambda>out ch. if P ch then out @ ch else out) acc xs = acc @ concat (filter P xs)"
  by (induction xs arbitrary: acc) simp_all

lemma includes_str_single: "includes_str s [u] \<longleftrightarrow> u \<in> set s"
  by (induction s) (auto simp: take_Suc_conv_app_nth)

lemma includes_str_hd: "includes_str s (a # t) \<Longrightarrow> a \<in> set s"
  by (induction s) (auto simp: take_Cons' split: if_splits)

lemma utf16_cases:
  "utf16 c = [c] \<and> c < 0x10000 \<or> (\<exists>h l. utf16 c = [h, l] \<and> 0xD800 \<le> h \<and> 0xDC00 \<le> l)"
  by (simp add: utf16_def)

lemma code_points_mem: "c \<in> set (code_points us) \<Longrightarrow> c \<in> set us \<or> 0x10000 \<le> c"
  by (induction us rule: code_points.induct) (auto split: if_splits)

lemma code_points_plain: "\<forall>u \<in> set us. \<not> is_high u \<Longrightarrow> code_points us = us"
  by (induction us rule: code_points.induct) auto

lemma from_code_points_mem:
  "u \<in> set (from_code_points cs) \<Longrightarrow> u < 0xD800 \<Longrightarrow> u \<in> set cs"
  by (induction cs) (auto simp: from_code_points_def utf16_def split: if_splits)

lemma from_code_points_plain: "\<forall>c \<in> set cs. c < 0x10000 \<Longrightarrow> from_code_points cs = cs"
  by (induction cs) (simp_all add: from_code_points_def utf16_def)

lemma chars_mem: "ch \<in> set (chars s) \<Longrightarrow> u \<in> set ch \<Longrightarrow> u < 0xD800 \<Longrightarrow> u \<in> set s"
proof -
  assume "ch \<in> set (chars s)" "u \<in> set ch" "u < 0xD800"
  then obtain c where c: "c \<in> set (code_points s)" "u \<in> set (utf16 c)"
    by (auto simp: chars_def)
  then have "u = c" using utf16_cases [of c] \<open>u < 0xD800\<close> by auto
  then show ?thesis using c code_points_mem [of c s] \<open>u < 0xD800\<close> by auto
qed

lemma concat_map_fixed: "(\<And>u. u \<in> set xs \<Longrightarrow> f u = [u]) \<Longrightarrow> concat (map f xs) = xs"
  by (induction xs) simp_all

lemma plain_text:
  assumes "\<forall>u \<in> set y. u < 0xD800"
  shows "code_points y = y" "from_code_points y = y" "chars y = map (\<lambda>u. [u]) y"
proof -
  have small: "u < 0x10000" if "u \<in> set y" for u
  proof -
    have "u < 0xD800" using assms that by blast
    then show ?thesis by simp
  qed
  show cp: "code_points y = y"
    using assms by (intro code_points_plain) (auto simp: is_high_def)
  show "from_code_points y = y"
    using small by (intro from_code_points_plain) blast
  have "utf16 u = [u]" if "u \<in> set y" for u
    using small [OF that] by (simp add: utf16_def)
  then show "chars y = map (\<lambda>u. [u]) y"
    unfolding chars_def cp by (intro map_cong) simp_all
qed

lemma ascii_text:
  fixes y :: js_string
  shows "\<forall>u \<in> set y. u < 0x7E \<Longrightarrow> \<forall>u \<in> set y. u < 0xD800"
  by fastforce

lemma index_from_nth:
  "distinct s \<Longrightarrow> i < length s \<Longrightarrow> index_from s [s ! i] k = k + int i"
proof (induction s arbitrary: i k)
  case Nil
  then show ?case by simp
next
  case (Cons x xs)
  show ?case
  proof (cases i)
    case 0
    then show ?thesis by simp
  next
    case (Suc j)
    then have "xs ! j \<in> set xs" using Cons.prems by simp
    then have "x \<noteq> xs ! j" using Cons.prems by auto
    then show ?thesis using Cons Suc by simp
  qed
qed

lemma concat_map_single:
  "(\<And>k. k \<in> set ks \<Longrightarrow> f k = [g k]) \<Longrightarrow> concat (map f ks) = map g ks"
  by (induction ks) simp_all

lemma decimal_value: "foldl (\<lambda>a d. 10 * a + (d - 0x30)) 0 (decimal n) = n"
proof (induction n rule: decimal.induct)
  case (1 n)
  show ?case
  proof (cases "n < 10")
    case True
    then show ?thesis by (subst decimal.simps) simp
  next
    case False
    then have "foldl (\<lambda>a d. 10 * a + (d - 0x30)) 0 (decimal (n div 10)) = n div 10"
      using 1 by simp
    then show ?thesis using False by (subst decimal.simps) simp
  qed
qed

section \<open>Properties of the character data\<close>

lemmas upper_tables =
  upper_00_def upper_01_def upper_02_def upper_03_def upper_04_def upper_05_def
  upper_06_def upper_07_def upper_08_def upper_09_def upper_10_def upper_11_def
  upper_12_def upper_13_def upper_14_def upper_15_def upper_16_def upper_17_def
  upper_18_def upper_19_def upper_20_def upper_21_def upper_22_def upper_23_def
  upper_24_def upper_25_def upper_26_def upper_27_def upper_28_def upper_29_def
  upper_30_def upper_31_def upper_32_def upper_33_def upper_34_def upper_35_def
  upper_36_def upper_37_def upper_38_def upper_39_def upper_40_def upper_41_def
  upper_42_def upper_43_def upper_44_def upper_45_def upper_46_def upper_47_def

lemmas decomposition_tables =
  decomposition_00_def decomposition_01_def decomposition_02_def decomposition_03_def
  decomposition_04_def decomposition_05_def decomposition_06_def decomposition_07_def
  decomposition_08_def decomposition_09_def decomposition_10_def decomposition_11_def
  decomposition_12_def decomposition_13_def decomposition_14_def decomposition_15_def
  decomposition_16_def decomposition_17_def decomposition_18_def decomposition_19_def
  decomposition_20_def decomposition_21_def decomposition_22_def decomposition_23_def
  decomposition_24_def decomposition_25_def decomposition_26_def decomposition_27_def
  decomposition_28_def decomposition_29_def decomposition_30_def decomposition_31_def
  decomposition_32_def decomposition_33_def decomposition_34_def decomposition_35_def
  decomposition_36_def decomposition_37_def decomposition_38_def decomposition_39_def
  decomposition_40_def decomposition_41_def decomposition_42_def decomposition_43_def
  decomposition_44_def decomposition_45_def decomposition_46_def decomposition_47_def
  decomposition_48_def decomposition_49_def decomposition_50_def decomposition_51_def
  decomposition_52_def decomposition_53_def decomposition_54_def decomposition_55_def
  decomposition_56_def decomposition_57_def decomposition_58_def decomposition_59_def
  decomposition_60_def decomposition_61_def decomposition_62_def decomposition_63_def
  decomposition_64_def

lemmas ccc_tables =
  ccc_00_def ccc_01_def ccc_02_def ccc_03_def ccc_04_def ccc_05_def ccc_06_def ccc_07_def
  ccc_08_def ccc_09_def ccc_10_def ccc_11_def

lemma find_block_first: "c \<le> hi \<Longrightarrow> find_block ((hi, t) # bs) c = Some t"
  by (simp add: find_block_def)

lemma toUpper_cp_fixed:
  assumes "u < 0xB5" "\<not> (0x61 \<le> u \<and> u \<le> 0x7A)"
  shows "toUpper_cp u = [u]"
proof -
  have "find_block upper_blocks u = Some upper_00"
    using assms by (simp add: upper_blocks_def find_block_first)
  moreover have "map_of upper_00 u = None"
    using assms by (auto simp: map_of_eq_None_iff upper_00_def)
  ultimately show ?thesis by (simp add: toUpper_cp_def)
qed

lemma decompose_cp_fixed:
  assumes "u < 0xC0"
  shows "decompose_cp u = [u]"
proof -
  have "find_block decomposition_blocks u = Some decomposition_00"
    using assms by (simp add: decomposition_blocks_def find_block_first)
  moreover have "map_of decomposition_00 u = None"
    using assms by (auto simp: map_of_eq_None_iff decomposition_00_def)
  ultimately show ?thesis using assms by (simp add: decompose_cp_def)
qed

lemma ccc_zero:
  assumes "u < 0x300"
  shows "ccc u = 0"
proof -
  have "find_block ccc_blocks u = Some ccc_00"
    using assms by (simp add: ccc_blocks_def find_block_first)
  moreover have "find (\<lambda>(lo, hi, k). lo \<le> u \<and> u \<le> hi) ccc_00 = None"
    using assms by (auto simp: find_None_iff ccc_00_def)
  ultimately show ?thesis by (simp add: ccc_def)
qed

lemma decomposition_entries:
  "list_all (\<lambda>(hi, t). list_all (\<lambda>(k, v). 0xD1 \<notin> set v) t) decomposition_blocks"
  unfolding decomposition_blocks_def list.pred_inject prod.case
  by (simp add: decomposition_tables)

lemma find_block_mem: "find_block blocks c = Some t \<Longrightarrow> \<exists>hi. (hi, t) \<in> set blocks"
  by (induction blocks) (auto simp: find_block_def split: if_splits)

lemma decompose_cp_N_tilde: "decompose_cp 0xD1 = [0x4E, 0x303]"
  by (simp add: decompose_cp_def decomposition_blocks_def find_block_first decomposition_00_def)

lemma decompose_cp_free: "0xD1 \<notin> set (decompose_cp c)"
proof (cases "0xAC00 \<le> c \<and> c \<le> 0xD7A3")
  case True
  then show ?thesis by (simp add: decompose_cp_def hangul_decomposition_def Let_def)
next
  case False
  show ?thesis
  proof (cases "find_block decomposition_blocks c")
    case None
    then have "decompose_cp c = [c]" using False by (auto simp: decompose_cp_def)
    then show ?thesis using decompose_cp_N_tilde by auto
  next
    case (Some t)
    note blk = this
    from find_block_mem [OF blk] obtain hi where hi: "(hi, t) \<in> set decomposition_blocks" ..
    show ?thesis
    proof (cases "map_of t c")
      case None
      then have "decompose_cp c = [c]" using False blk by (auto simp: decompose_cp_def)
      then show ?thesis using decompose_cp_N_tilde by auto
    next
      case (Some v)
      then have cv: "(c, v) \<in> set t" by (rule map_of_SomeD)
      from hi have "list_all (\<lambda>(k, v). 0xD1 \<notin> set v) t"
        using decomposition_entries by (auto simp: list_all_iff)
      then have "0xD1 \<notin> set v" using cv by (auto simp: list_all_iff)
      moreover have "decompose_cp c = v"
        using False Some blk by (auto simp: decompose_cp_def)
      ultimately show ?thesis by simp
    qed
  qed
qed

lemma set_reorder_insert: "set (reorder_insert c ds) = insert c (set ds)"
  by (induction ds) auto

lemma set_canonical_order: "set (canonical_order cs) = set cs"
  by (induction cs) (simp_all add: set_reorder_insert)

lemma reorder_insert_starter: "ccc c = 0 \<Longrightarrow> reorder_insert c ds = c # ds"
  by (cases ds) simp_all

lemma canonical_order_starters: "\<forall>c \<in> set cs. ccc c = 0 \<Longrightarrow> canonical_order cs = cs"
  by (induction cs) (simp_all add: reorder_insert_starter)

lemma nfd_free: "0xD1 \<notin> set (nfd s)"
proof
  assume "0xD1 \<in> set (nfd s)"
  then have "0xD1 \<in> set (canonical_order (concat (map decompose_cp (code_points s))))"
    by (simp add: nfd_def from_code_points_mem)
  then show False by (auto simp: set_canonical_order decompose_cp_free)
qed

lemma toUpperCase_fixed:
  assumes "\<forall>u \<in> set y. u < 0x7E \<and> \<not> (0x61 \<le> u \<and> u \<le> 0x7A)"
  shows "toUpperCase y = y"
proof -
  have low: "\<forall>u \<in> set y. u < 0x7E" using assms by blast
  have "toUpper_cp u = [u]" if "u \<in> set y" for u
    using assms that by (intro toUpper_cp_fixed) force+
  then have "concat (map toUpper_cp y) = y"
    by (rule concat_map_fixed)
  then show ?thesis
    by (simp add: toUpperCase_def plain_text [OF ascii_text [OF low]])
qed

lemma nfd_fixed:
  assumes "\<forall>u \<in> set y. u < 0x7E"
  shows "nfd y = y"
proof -
  have "decompose_cp u = [u]" if "u \<in> set y" for u
    using assms that by (intro decompose_cp_fixed) force
  then have "concat (map decompose_cp y) = y"
    by (rule concat_map_fixed)
  moreover have "canonical_order y = y"
  proof (rule canonical_order_starters, rule ballI)
    fix c assume "c \<in> set y"
    then have "c < 0x7E" using assms by blast
    then show "ccc c = 0" by (intro ccc_zero) simp
  qed
  ultimately show ?thesis
    by (simp add: nfd_def plain_text [OF ascii_text [OF assms]])
qed

section \<open>Properties of the alphabet and the normalizer\<close>

lemma normalizeInput_eq:
  "normalizeInput x A = concat (filter (includes_str A) (chars (strip_marks (nfd (toUpperCase x)))))"
  by (simp add: normalizeInput_def foldl_append_if)

lemma alphabet_cases:
  "u \<in> set UNIFIED_ALPHABET \<Longrightarrow> u = 0xD1 \<or> (u < 0x7E \<and> \<not> (0x61 \<le> u \<and> u \<le> 0x7A))"
  by (auto simp: UNIFIED_ALPHABET_def ascii_def)

lemma normalizeInput_mem:
  assumes "u \<in> set (normalizeInput x UNIFIED_ALPHABET)"
  shows "u \<in> set UNIFIED_ALPHABET \<and> u \<in> set (strip_marks (nfd (toUpperCase x)))"
proof -
  let ?s = "strip_marks (nfd (toUpperCase x))"
  from assms obtain ch where ch: "ch \<in> set (chars ?s)" "includes_str UNIFIED_ALPHABET ch" "u \<in> set ch"
    by (auto simp: normalizeInput_eq)
  then obtain c where c: "ch = utf16 c" by (auto simp: chars_def)
  have hd: "hd ch \<in> set UNIFIED_ALPHABET"
    using ch(2,3) by (cases ch) (auto dest: includes_str_hd)
  then have "hd ch < 0xD800" using alphabet_cases by fastforce
  then have single: "ch = [u]" using utf16_cases [of c] c ch(3) by auto
  then have "u \<in> set UNIFIED_ALPHABET" using hd by simp
  moreover have "u \<in> set ?s"
    using chars_mem [OF ch(1) ch(3)] \<open>hd ch < 0xD800\<close> single by simp
  ultimately show ?thesis by simp
qed

lemma normalizeInput_free: "0xD1 \<notin> set (normalizeInput x UNIFIED_ALPHABET)"
  using normalizeInput_mem [of "0xD1" x] nfd_free by (auto simp: strip_marks_def)

lemma strip_marks_fixed: "\<forall>u \<in> set y. u < 0x7E \<Longrightarrow> strip_marks y = y"
  by (auto simp: strip_marks_def filter_id_conv)

lemma normalizeInput_fixed:
  assumes "\<forall>u \<in> set y. u \<in> set UNIFIED_ALPHABET \<and> u \<noteq> 0xD1"
  shows "normalizeInput y UNIFIED_ALPHABET = y"
proof -
  have plain: "\<forall>u \<in> set y. u < 0x7E \<and> \<not> (0x61 \<le> u \<and> u \<le> 0x7A)"
    using assms alphabet_cases by blast
  then have low: "\<forall>u \<in> set y. u < 0x7E" by blast
  have "filter (includes_str UNIFIED_ALPHABET) (map (\<lambda>u. [u]) y) = map (\<lambda>u. [u]) y"
    using assms by (simp add: filter_id_conv includes_str_single)
  then show ?thesis
    by (simp add: normalizeInput_eq toUpperCase_fixed [OF plain] nfd_fixed [OF low]
        strip_marks_fixed [OF low] plain_text [OF ascii_text [OF low]] concat_map_fixed)
qed

text \<open>
  The second self-test of the component normalizes a string of 18 code units: \<open>canci\<close>, U+00F3
  (o with acute), \<open>n NI\<close>, U+00D1 (N with tilde), \<open>O 123 !\<close>. The three steps of
  \<open>normalizeInput\<close> on it: the upper case keeps U+00D1 and turns U+00F3 into U+00D3; the
  decomposition splits both letters into the base letter and a combining mark (U+0301,
  U+0303); the marks are deleted and every remaining character is in the alphabet.
\<close>

lemma selftest_toUpperCase:
  "toUpperCase (ascii ''canci'' @ [0xF3] @ ascii ''n NI'' @ [0xD1] @ ascii ''O 123 !'')
   = ascii ''CANCI'' @ [0xD3] @ ascii ''N NI'' @ [0xD1] @ ascii ''O 123 !''"
  by (simp add: toUpperCase_def ascii_def is_high_def is_low_def toUpper_cp_def find_block_def
      upper_blocks_def upper_00_def upper_01_def from_code_points_def utf16_def)

lemma selftest_nfd:
  "nfd (ascii ''CANCI'' @ [0xD3] @ ascii ''N NI'' @ [0xD1] @ ascii ''O 123 !'')
   = ascii ''CANCIO'' @ [0x301] @ ascii ''N NIN'' @ [0x303] @ ascii ''O 123 !''"
  by (simp add: nfd_def ascii_def is_high_def is_low_def decompose_cp_def find_block_def
      decomposition_blocks_def decomposition_00_def ccc_def ccc_blocks_def ccc_00_def
      from_code_points_def utf16_def)

lemma selftest_filter:
  "foldl (\<lambda>out ch. if includes_str UNIFIED_ALPHABET ch then out @ ch else out) []
     (chars (strip_marks (ascii ''CANCIO'' @ [0x301] @ ascii ''N NIN'' @ [0x303] @ ascii ''O 123 !'')))
   = ascii ''CANCION NINO 123 !''"
  by (simp add: strip_marks_def chars_def ascii_def is_high_def is_low_def utf16_def
      UNIFIED_ALPHABET_def)

lemma length_alphabet: "length UNIFIED_ALPHABET = 64"
  by (simp add: UNIFIED_ALPHABET_def ascii_def)

lemma distinct_alphabet: "distinct UNIFIED_ALPHABET"
  by (simp add: UNIFIED_ALPHABET_def ascii_def)

lemma alphabet_bmp: "u \<in> set UNIFIED_ALPHABET \<Longrightarrow> u < 0xD800"
  using alphabet_cases [of u] by auto

lemma modulus_eq: "modulus = Num 64"
  by (simp add: modulus_def length_alphabet)

section \<open>Properties of the index codec and the pad generator\<close>

lemma toIndices_fromIndices:
  assumes "\<forall>k \<in> set ks. k < 64"
  shows "fromIndices (map (\<lambda>k. Num (int k)) ks) UNIFIED_ALPHABET = map (\<lambda>k. UNIFIED_ALPHABET ! k) ks"
    and "toIndices (map (\<lambda>k. UNIFIED_ALPHABET ! k) ks) UNIFIED_ALPHABET = map (\<lambda>k. Num (int k)) ks"
proof -
  let ?A = UNIFIED_ALPHABET
  have bound: "k < length ?A" if "k \<in> set ks" for k
    using assms that by (simp add: length_alphabet)
  have at: "char_at ?A (Num (int k)) = [?A ! k]" if "k \<in> set ks" for k
    using bound [OF that] by simp
  show "fromIndices (map (\<lambda>k. Num (int k)) ks) ?A = map (\<lambda>k. ?A ! k) ks"
    unfolding fromIndices_def map_map comp_def by (rule concat_map_single) (rule at)
  have "\<forall>u \<in> set (map (\<lambda>k. ?A ! k) ks). u < 0xD800"
    using bound by (auto intro: alphabet_bmp)
  then have ch: "chars (map (\<lambda>k. ?A ! k) ks) = map (\<lambda>u. [u]) (map (\<lambda>k. ?A ! k) ks)"
    by (rule plain_text)
  have "indexOf ?A [?A ! k] = int k" if "k \<in> set ks" for k
    using index_from_nth [OF distinct_alphabet bound [OF that], of 0]
    by (simp add: indexOf_def)
  then show "toIndices (map (\<lambda>k. ?A ! k) ks) ?A = map (\<lambda>k. Num (int k)) ks"
    unfolding toIndices_def ch map_map comp_def by (intro map_cong) simp_all
qed

lemma reduce_word: "trunc_rem (uint (w :: 32 word)) 64 = int (unat w mod 64)"
proof -
  have "trunc_rem (uint w) 64 = uint w mod 64"
    by (rule trunc_rem_nonneg) simp_all
  also have "\<dots> = int (unat w) mod 64" by (simp only: uint_nat)
  also have "\<dots> = int (unat w mod 64)" by (simp only: zmod_int of_nat_numeral)
  finally show ?thesis .
qed

lemma randomPad_Inr:
  assumes "len \<le> 16384"
  shows "randomPad rnd len UNIFIED_ALPHABET
         = Inr (map (\<lambda>k. UNIFIED_ALPHABET ! k) (map (\<lambda>i. unat (rnd i) mod 64) [0..<len]))"
proof -
  let ?ks = "map (\<lambda>i. unat (rnd i) mod 64) [0..<len]"
  have buf: "getRandomValues rnd len = Inr (map rnd [0..<len])"
    using assms by (simp add: getRandomValues_def)
  have "js_rem (Num (uint n)) (Num 64) = Num (int (unat n mod 64))" for n :: "32 word"
    by (simp only: js_rem.simps reduce_word) simp
  then have idx: "map (\<lambda>n. js_rem (Num (uint n)) (Num 64)) (map rnd [0..<len]) = map (\<lambda>k. Num (int k)) ?ks"
    by (simp only: map_map comp_def)
  have "\<forall>k \<in> set ?ks. k < 64" by simp
  then have "fromIndices (map (\<lambda>k. Num (int k)) ?ks) UNIFIED_ALPHABET = map (\<lambda>k. UNIFIED_ALPHABET ! k) ?ks"
    by (rule toIndices_fromIndices)
  then show ?thesis
    unfolding randomPad_def Let_def buf length_alphabet by (simp only: idx sum.case of_nat_numeral)
qed

lemma randomPad_Inl: "16384 < len \<Longrightarrow> randomPad rnd len alphabet = Inl QuotaExceededError"
  by (simp add: randomPad_def getRandomValues_def)

lemma residue_class:
  assumes "r < 64"
  shows "{w :: 32 word. unat w mod 64 = r} = (\<lambda>k. of_nat (64 * k + r)) ` {k. k < 2 ^ 26}"
proof (intro set_eqI iffI)
  fix w :: "32 word"
  assume "w \<in> {w. unat w mod 64 = r}"
  then have r: "unat w mod 64 = r" by simp
  have "unat w < 2 ^ 32" using unsigned_less [of w, where 'a = nat] by simp
  then have "unat w div 64 < 2 ^ 26" by simp
  moreover have "64 * (unat w div 64) + r = unat w"
    using r mult_div_mod_eq [of 64 "unat w"] by simp
  then have "w = of_nat (64 * (unat w div 64) + r)"
    by (simp only: of_nat_unat ucast_id)
  ultimately show "w \<in> (\<lambda>k. of_nat (64 * k + r)) ` {k. k < 2 ^ 26}" by blast
next
  fix w :: "32 word"
  assume "w \<in> (\<lambda>k. of_nat (64 * k + r)) ` {k. k < 2 ^ 26}"
  then obtain k :: nat where k: "k < 2 ^ 26" "w = of_nat (64 * k + r)" by blast
  have "64 * k + r < 2 ^ 32" using k(1) assms by simp
  then have "unat w = 64 * k + r" using k(2) by (intro of_nat_inverse) simp_all
  then show "w \<in> {w. unat w mod 64 = r}" using assms by simp
qed

lemma card_residue_class:
  assumes "r < 64"
  shows "card {w :: 32 word. unat w mod 64 = r} = 2 ^ 26"
proof -
  have "inj_on (\<lambda>k. of_nat (64 * k + r) :: 32 word) {k. k < 2 ^ 26}"
  proof (rule inj_onI)
    fix k k' :: nat
    assume k: "k \<in> {k. k < 2 ^ 26}" "k' \<in> {k. k < 2 ^ 26}"
      and eq: "(of_nat (64 * k + r) :: 32 word) = of_nat (64 * k' + r)"
    have "64 * k + r < 2 ^ 32" "64 * k' + r < 2 ^ 32" using k assms by simp_all
    then have u: "unat (of_nat (64 * k + r) :: 32 word) = 64 * k + r"
      "unat (of_nat (64 * k' + r) :: 32 word) = 64 * k' + r"
      by (intro of_nat_inverse [OF refl]; simp)+
    from eq have "unat (of_nat (64 * k + r) :: 32 word) = unat (of_nat (64 * k' + r) :: 32 word)"
      by (rule arg_cong)
    then have "64 * k + r = 64 * k' + r" by (simp only: u)
    then show "k = k'" by simp
  qed
  then have "card ((\<lambda>k. of_nat (64 * k + r) :: 32 word) ` {k. k < 2 ^ 26}) = card {k :: nat. k < 2 ^ 26}"
    by (rule card_image)
  then show ?thesis by (simp only: residue_class [OF assms] card_Collect_less_nat)
qed

text \<open>
  Up to 16384 symbols the generator returns a pad of the requested length over the
  alphabet, for every outcome of the random source; beyond, it raises.
\<close>

lemma randomPad_within_quota:
  "(len \<le> 16384 \<longrightarrow>
      (\<exists>pad. randomPad rnd len UNIFIED_ALPHABET = Inr pad \<and> length pad = len
         \<and> set pad \<subseteq> set UNIFIED_ALPHABET
         \<and> list_all (\<lambda>i. \<exists>k. i = Num k \<and> 0 \<le> k \<and> k < int (length UNIFIED_ALPHABET))
              (toIndices pad UNIFIED_ALPHABET)))
   \<and> (16384 < len \<longrightarrow> randomPad rnd len UNIFIED_ALPHABET = Inl QuotaExceededError)"
proof (intro conjI impI)
  assume len: "len \<le> 16384"
  let ?ks = "map (\<lambda>i. unat (rnd i) mod 64) [0..<len]"
  let ?pad = "map (\<lambda>k. UNIFIED_ALPHABET ! k) ?ks"
  have ks: "\<forall>k \<in> set ?ks. k < 64" by simp
  have "randomPad rnd len UNIFIED_ALPHABET = Inr ?pad"
    using len by (rule randomPad_Inr)
  moreover have "length ?pad = len" by simp
  moreover have "set ?pad \<subseteq> set UNIFIED_ALPHABET"
    by (auto simp: length_alphabet)
  moreover have "list_all (\<lambda>i. \<exists>k. i = Num k \<and> 0 \<le> k \<and> k < int (length UNIFIED_ALPHABET))
      (toIndices ?pad UNIFIED_ALPHABET)"
    unfolding toIndices_fromIndices(2) [OF ks] by (simp add: list_all_iff length_alphabet)
  ultimately show "\<exists>pad. randomPad rnd len UNIFIED_ALPHABET = Inr pad \<and> length pad = len
         \<and> set pad \<subseteq> set UNIFIED_ALPHABET
         \<and> list_all (\<lambda>i. \<exists>k. i = Num k \<and> 0 \<le> k \<and> k < int (length UNIFIED_ALPHABET))
              (toIndices pad UNIFIED_ALPHABET)"
    by blast
next
  assume "16384 < len"
  then show "randomPad rnd len UNIFIED_ALPHABET = Inl QuotaExceededError"
    by (rule randomPad_Inl)
qed

text \<open>
  The symbol at a position of the pad is the reduction of the random element at that
  position, and the elements that give a fixed index there form a residue class.
\<close>

lemma randomPad_position:
  assumes "i < len" "len \<le> 16384"
  shows "\<exists>pad. randomPad rnd len UNIFIED_ALPHABET = Inr pad \<and> length pad = len
           \<and> pad ! i = UNIFIED_ALPHABET ! (unat (rnd i) mod 64)
           \<and> toIndices pad UNIFIED_ALPHABET ! i = js_rem (Num (uint (rnd i))) modulus"
proof -
  let ?ks = "map (\<lambda>i. unat (rnd i) mod 64) [0..<len]"
  let ?pad = "map (\<lambda>k. UNIFIED_ALPHABET ! k) ?ks"
  have ks: "\<forall>k \<in> set ?ks. k < 64" by simp
  have red: "js_rem (Num (uint (rnd i))) modulus = Num (int (unat (rnd i) mod 64))"
    unfolding modulus_eq by (simp only: js_rem.simps reduce_word) simp
  have "randomPad rnd len UNIFIED_ALPHABET = Inr ?pad"
    using assms(2) by (rule randomPad_Inr)
  moreover have "length ?pad = len" by simp
  moreover have "?pad ! i = UNIFIED_ALPHABET ! (unat (rnd i) mod 64)"
    using assms(1) by simp
  moreover have "toIndices ?pad UNIFIED_ALPHABET ! i = js_rem (Num (uint (rnd i))) modulus"
    unfolding toIndices_fromIndices(2) [OF ks] red using assms(1) by simp
  ultimately show ?thesis by blast
qed

lemma pad_index_class:
  assumes "i < len" "len \<le> 16384" "0 \<le> r" "r < 64"
  shows "{w :: 32 word. \<exists>pad. randomPad (rnd(i := w)) len UNIFIED_ALPHABET = Inr pad
            \<and> toIndices pad UNIFIED_ALPHABET ! i = Num r}
         = {w. unat w mod 64 = nat r}"
proof -
  have "(\<exists>pad. randomPad (rnd(i := w)) len UNIFIED_ALPHABET = Inr pad
            \<and> toIndices pad UNIFIED_ALPHABET ! i = Num r) \<longleftrightarrow> unat w mod 64 = nat r"
    for w :: "32 word"
  proof -
    obtain pad where pad: "randomPad (rnd(i := w)) len UNIFIED_ALPHABET = Inr pad"
      "toIndices pad UNIFIED_ALPHABET ! i = js_rem (Num (uint ((rnd(i := w)) i))) modulus"
      using randomPad_position [OF assms(1,2), of "rnd(i := w)"] by blast
    have "js_rem (Num (uint w)) modulus = Num (int (unat w mod 64))"
      unfolding modulus_eq by (simp only: js_rem.simps reduce_word) simp
    then have "toIndices pad UNIFIED_ALPHABET ! i = Num (int (unat w mod 64))"
      using pad(2) by simp
    then show ?thesis using pad(1) assms(3) by auto
  qed
  then show ?thesis by simp
qed

section \<open>Properties of the session\<close>

text \<open>Every handler keeps the interval in step with the countdown.\<close>

lemma consistent_effects:
  assumes "consistent prev" "timer s = timer prev"
  shows "consistent (effects prev s)"
  using assms by (auto simp: consistent_def effects_def resetAll_def split: option.splits)

lemma consistent_setErr: "consistent (setErr t s) = consistent s"
  by (simp add: consistent_def setErr_def)

lemma consistent_initial: "consistent initial"
  by (simp add: consistent_def initial_def)

lemma consistent_setModeScreen: "consistent s \<Longrightarrow> consistent (setModeScreen m s)"
  by (auto simp: setModeScreen_def resetAll_def intro!: consistent_effects)

lemma consistent_onClearAll: "consistent s \<Longrightarrow> consistent (onClearAll s)"
  by (auto simp: onClearAll_def resetAll_def intro!: consistent_effects)

lemma consistent_tick: "consistent s \<Longrightarrow> consistent (tick s)"
  by (auto simp: tick_def interval_callback_def intro!: consistent_effects)

lemma consistent_onAcceptPadForDecrypt: "consistent s \<Longrightarrow> consistent (onAcceptPadForDecrypt s)"
  by (auto simp: onAcceptPadForDecrypt_def acceptPad_body_def setErr_def setOK_def Let_def
      consistent_def effects_def split: sum.splits if_splits)

lemma decrypt_body_timer: "decrypt_body s = Inr s' \<Longrightarrow> timer s' = timer s"
  by (auto simp: decrypt_body_def setOK_def Let_def split: if_splits)

lemma consistent_onDecrypt: "consistent s \<Longrightarrow> consistent (onDecrypt s)"
  by (auto simp: onDecrypt_def consistent_setErr
      dest: decrypt_body_timer intro!: consistent_effects split: sum.splits)

lemma encrypt_body_timer:
  "encrypt_body rnd s = Inr s' \<Longrightarrow> timer s' = timer s \<and> countdown s' = countdown s"
  by (auto simp: encrypt_body_def setOK_def Let_def split: if_splits sum.splits)

lemma consistent_onEncrypt: "consistent s \<Longrightarrow> consistent (onEncrypt platform_text rnd s)"
  by (auto simp: onEncrypt_def consistent_setErr
      dest: encrypt_body_timer intro!: consistent_effects split: sum.splits thrown.splits)

lemma reachable_consistent: "reachable s \<Longrightarrow> consistent s"
proof (induction rule: reachable.induct)
  case mount
  show ?case by (rule consistent_initial)
next
  case (chooseMode s m)
  then show ?case by (simp add: consistent_setModeScreen)
next
  case (typePad s x)
  then show ?case by (simp add: consistent_def)
next
  case (typeMessage s x)
  then show ?case by (simp add: consistent_def)
next
  case (typeCipher s x)
  then show ?case by (simp add: consistent_def)
next
  case (encrypt s platform_text rnd)
  then show ?case by (simp add: consistent_onEncrypt)
next
  case (acceptPad s)
  then show ?case by (simp add: consistent_onAcceptPadForDecrypt)
next
  case (decrypt s)
  then show ?case by (simp add: consistent_onDecrypt)
next
  case (clear s)
  then show ?case by (simp add: consistent_onClearAll)
next
  case (interval s)
  then show ?case by (simp add: consistent_tick)
qed

text \<open>The outcomes of \<open>onDecrypt\<close>, the interval and \<open>onClearAll\<close>.\<close>

lemma decrypt_body_empty:
  assumes "decryptStep s = Ready" "normalizeInput (cipher s) UNIFIED_ALPHABET = []"
  shows "decrypt_body s = Inl (ascii ''Pega el texto cifrado.'')"
  using assms by (simp add: decrypt_body_def)


lemma decrypt_body_success:
  assumes "decrypt_body s = Inr s'"
  shows "s' = s\<lparr>message := message s', countdown := Some 300, status := status s'\<rparr>"
  using assms by (auto simp: decrypt_body_def Let_def setOK_def split: if_splits)

lemma phase_PadAccepted:
  "phase_of s = PadAccepted
   \<longleftrightarrow> modeScreen s = Some Decrypt \<and> decryptStep s = Ready \<and> countdown s = None"
  by (cases "decryptStep s") (auto simp: phase_of_def split: option.splits mode.splits)

lemma phase_DecryptedActive:
  "phase_of s = DecryptedActive n
   \<longleftrightarrow> modeScreen s = Some Decrypt \<and> decryptStep s = Ready \<and> countdown s = Some n"
  by (cases "decryptStep s") (auto simp: phase_of_def split: option.splits mode.splits)

lemma onDecrypt_success:
  assumes "countdown s = None" "decrypt_body s = Inr s'"
  shows "onDecrypt s = s\<lparr>message := message s', countdown := Some 300, status := status s',
                           timer := True\<rparr>"
proof -
  have s': "s' = s\<lparr>message := message s', countdown := Some 300, status := status s'\<rparr>"
    by (rule decrypt_body_success [OF assms(2)])
  have "countdown s' = Some 300" by (subst s') simp
  then have "effects s s' = s'\<lparr>timer := True\<rparr>"
    using assms(1) by (simp add: effects_def)
  then show ?thesis
    using assms(2) by (simp add: onDecrypt_def) (subst s', simp)
qed

lemma tick_decrement:
  assumes "timer s" "countdown s = Some n" "1 < n"
  shows "tick s = s\<lparr>countdown := Some (n - 1)\<rparr>"
  using assms by (simp add: tick_def interval_callback_def effects_def)

lemma tick_expire:
  assumes "timer s" "countdown s = Some 1"
  shows "tick s = (resetAll s)\<lparr>timer := False\<rparr>"
  using assms by (simp add: tick_def interval_callback_def effects_def resetAll_def)

lemma tick_idle: "\<not> timer s \<Longrightarrow> (tick ^^ k) s = s"
  by (induction k) (simp_all add: tick_def)

lemma ticks_before_expiry:
  assumes "timer s" "countdown s = Some n" "int k < n"
  shows "(tick ^^ k) s = s\<lparr>countdown := Some (n - int k)\<rparr>"
  using assms
proof (induction k)
  case 0
  then show ?case by simp
next
  case (Suc k)
  then have "(tick ^^ k) s = s\<lparr>countdown := Some (n - int k)\<rparr>" by simp
  moreover have "tick (s\<lparr>countdown := Some (n - int k)\<rparr>) = s\<lparr>countdown := Some (n - int k - 1)\<rparr>"
    using Suc.prems by (simp add: tick_decrement)
  ultimately show ?case by (simp add: algebra_simps)
qed

lemma ticks_expire:
  assumes "timer s" "countdown s = Some (int k)" "0 < k"
  shows "(tick ^^ k) s = (resetAll s)\<lparr>timer := False\<rparr>"
proof -
  obtain j where k: "k = Suc j" using assms(3) by (cases k) auto
  have "(tick ^^ j) s = s\<lparr>countdown := Some (int k - int j)\<rparr>"
    using assms k by (intro ticks_before_expiry) simp_all
  then have "(tick ^^ j) s = s\<lparr>countdown := Some 1\<rparr>" using k by simp
  moreover have "tick (s\<lparr>countdown := Some 1\<rparr>) = (resetAll s)\<lparr>timer := False\<rparr>"
    using assms(1) by (simp add: tick_expire) (simp add: resetAll_def)
  ultimately show ?thesis using k by simp
qed

lemma stale_callback:
  "interval_callback ((resetAll s)\<lparr>timer := False\<rparr>) = (resetAll s)\<lparr>timer := False\<rparr>"
  by (simp add: interval_callback_def effects_def resetAll_def)

lemma onClearAll_eq:
  assumes "consistent s"
  shows "onClearAll s = (resetAll s)\<lparr>timer := False\<rparr>"
  using assms by (auto simp: onClearAll_def effects_def resetAll_def consistent_def split: option.splits)

text \<open>The sessions of the scenarios, evaluated.\<close>

lemma decrypt_body_ok:
  assumes "decryptStep s = Ready" "normalizeInput (cipher s) UNIFIED_ALPHABET \<noteq> []"
    and "length (normalizeInput (cipher s) UNIFIED_ALPHABET) = length (pad s)"
  shows "\<exists>s'. decrypt_body s = Inr s'
           \<and> message s' = fromIndices (otpSub (toIndices (normalizeInput (cipher s) UNIFIED_ALPHABET) UNIFIED_ALPHABET)
                                          (toIndices (pad s) UNIFIED_ALPHABET) modulus) UNIFIED_ALPHABET"
  using assms by (simp add: decrypt_body_def Let_def setOK_def)

lemma accept_eq:
  assumes "p \<noteq> []" "\<forall>u \<in> set p. u \<in> set UNIFIED_ALPHABET \<and> u \<noteq> 0xD1"
  shows "accept p =
     initial\<lparr>modeScreen := Some Decrypt, decryptStep := Ready, padInput := p, pad := p,
       status := \<lparr>status_text = ascii ''PAD listo. Ahora pega el texto cifrado y presiona Descifrar.'',
                  tone = Some Ok\<rparr>\<rparr>"
proof -
  have "setModeScreen (Some Decrypt) initial = initial\<lparr>modeScreen := Some Decrypt\<rparr>"
    by (simp add: setModeScreen_def initial_def effects_def resetAll_def)
  moreover have "normalizeInput p UNIFIED_ALPHABET = p"
    using assms(2) by (rule normalizeInput_fixed)
  ultimately show ?thesis
    using assms(1)
    by (simp add: accept_def onAcceptPadForDecrypt_def acceptPad_body_def setOK_def effects_def
        initial_def)
qed

lemma scenario_texts:
  "\<forall>u \<in> set (ascii ''ABCDEFGHIJ''). u \<in> set UNIFIED_ALPHABET \<and> u \<noteq> 0xD1"
  "\<forall>u \<in> set (ascii ''ABCDE''). u \<in> set UNIFIED_ALPHABET \<and> u \<noteq> 0xD1"
  "\<forall>u \<in> set (ascii ''AB''). u \<in> set UNIFIED_ALPHABET \<and> u \<noteq> 0xD1"
  "\<forall>u \<in> set (ascii ''CD''). u \<in> set UNIFIED_ALPHABET \<and> u \<noteq> 0xD1"
  by (simp_all add: ascii_def UNIFIED_ALPHABET_def)

lemma pad_accepted_eq:
  "pad_accepted =
     initial\<lparr>modeScreen := Some Decrypt, decryptStep := Ready, padInput := ascii ''ABCDEFGHIJ'',
       pad := ascii ''ABCDEFGHIJ'',
       status := \<lparr>status_text = ascii ''PAD listo. Ahora pega el texto cifrado y presiona Descifrar.'',
                  tone = Some Ok\<rparr>\<rparr>"
  unfolding pad_accepted_def by (rule accept_eq [OF _ scenario_texts(1)]) (simp add: ascii_def)

lemma pad_accepted_facts:
  "phase_of pad_accepted = PadAccepted" "cipher pad_accepted = []"
  "pad pad_accepted = ascii ''ABCDEFGHIJ''" "message pad_accepted = []"
  by (simp_all add: pad_accepted_eq phase_PadAccepted initial_def)

lemma normalizeInput_empty: "normalizeInput [] UNIFIED_ALPHABET = []"
  by (rule normalizeInput_fixed) simp



lemma scenario_D_eq:
  "scenario_D =
     initial\<lparr>modeScreen := Some Decrypt, decryptStep := Ready, padInput := ascii ''AB'',
       pad := ascii ''AB'', cipher := ascii ''CD'',
       status := \<lparr>status_text = ascii ''PAD listo. Ahora pega el texto cifrado y presiona Descifrar.'',
                  tone = Some Ok\<rparr>\<rparr>"
  unfolding scenario_D_def by (subst accept_eq [OF _ scenario_texts(3)]) (simp_all add: ascii_def)

lemma scenario_D_facts:
  "phase_of scenario_D = PadAccepted"
  "normalizeInput (cipher scenario_D) UNIFIED_ALPHABET \<noteq> []"
  "length (normalizeInput (cipher scenario_D) UNIFIED_ALPHABET) = length (pad scenario_D)"
  using normalizeInput_fixed [OF scenario_texts(4)]
  by (simp_all add: scenario_D_eq phase_PadAccepted initial_def) (simp_all add: ascii_def)

lemma scenario_D_decrypted:
  "\<exists>st m. onDecrypt scenario_D = scenario_D\<lparr>message := m, countdown := Some 300, status := st, timer := True\<rparr>"
proof -
  have ready: "decryptStep scenario_D = Ready" "countdown scenario_D = None"
    using scenario_D_facts(1) by (simp_all add: phase_PadAccepted)
  obtain s' where "decrypt_body scenario_D = Inr s'"
    using decrypt_body_ok [OF ready(1) scenario_D_facts(2,3)] by blast
  then show ?thesis using onDecrypt_success [OF ready(2)] by blast
qed

lemma scenario_E_eq:
  "\<exists>st m. scenario_E = scenario_D\<lparr>message := m, countdown := Some 150, status := st, timer := True\<rparr>"
proof -
  obtain st m where d: "onDecrypt scenario_D
      = scenario_D\<lparr>message := m, countdown := Some 300, status := st, timer := True\<rparr>"
    using scenario_D_decrypted by blast
  have "(tick ^^ 150) (onDecrypt scenario_D) = (onDecrypt scenario_D)\<lparr>countdown := Some (300 - int 150)\<rparr>"
    by (rule ticks_before_expiry) (simp_all add: d)
  then have "scenario_E = scenario_D\<lparr>message := m, countdown := Some 150, status := st, timer := True\<rparr>"
    unfolding scenario_E_def d by simp
  then show ?thesis by blast
qed

lemma scenario_E_facts:
  "phase_of scenario_E = DecryptedActive 150" "consistent scenario_E"
  "modeScreen scenario_E = Some Decrypt"
proof -
  obtain st m where e: "scenario_E
      = scenario_D\<lparr>message := m, countdown := Some 150, status := st, timer := True\<rparr>"
    using scenario_E_eq by blast
  have d: "modeScreen scenario_D = Some Decrypt" "decryptStep scenario_D = Ready"
    using scenario_D_facts(1) by (simp_all add: phase_PadAccepted)
  show "phase_of scenario_E = DecryptedActive 150"
    by (simp add: e phase_DecryptedActive d)
  show "consistent scenario_E" by (simp add: e consistent_def)
  show "modeScreen scenario_E = Some Decrypt" by (simp add: e d)
qed

text \<open>
  \<open>onDecrypt\<close> tests for an empty normalized ciphertext before it compares the lengths:
  with a pad accepted and nothing typed, the error is the request for a ciphertext.
\<close>

lemma onDecrypt_empty_first:
  "phase_of pad_accepted = PadAccepted
   \<and> length (normalizeInput (cipher pad_accepted) UNIFIED_ALPHABET) \<noteq> length (pad pad_accepted)
   \<and> status (onDecrypt pad_accepted)
       = \<lparr>status_text = ascii ''Pega el texto cifrado.'', tone = Some Err\<rparr>"
proof -
  have "decryptStep pad_accepted = Ready"
    using pad_accepted_facts(1) by (simp add: phase_PadAccepted)
  then have "decrypt_body pad_accepted = Inl (ascii ''Pega el texto cifrado.'')"
    by (rule decrypt_body_empty) (simp add: pad_accepted_facts normalizeInput_empty)
  then show ?thesis
    by (simp add: onDecrypt_def setErr_def pad_accepted_facts normalizeInput_empty) (simp add: ascii_def)
qed

text \<open>
  \<open>onEncrypt\<close> hands the length of the normalized message to \<open>randomPad\<close>: a message of
  more than 16384 symbols ends in the error status.
\<close>

lemma encrypt_body_quota:
  assumes "16384 < length (normalizeInput (message s) UNIFIED_ALPHABET)"
  shows "encrypt_body rnd s = Inl (Platform QuotaExceededError)"
proof -
  have "length (normalizeInput (message s) UNIFIED_ALPHABET) \<noteq> 0"
    using assms by linarith
  then show ?thesis
    using assms by (simp add: encrypt_body_def Let_def randomPad_Inl)
qed

lemma onEncrypt_quota:
  assumes "16384 < length (normalizeInput (message s) UNIFIED_ALPHABET)"
  shows "onEncrypt platform_text rnd s = setErr (platform_text QuotaExceededError) s"
  by (simp add: onEncrypt_def encrypt_body_quota [OF assms])

lemma long_text_normalized:
  "normalizeInput long_text UNIFIED_ALPHABET = long_text" "length long_text = 16385"
proof -
  have "0x41 \<in> set UNIFIED_ALPHABET" by (simp add: UNIFIED_ALPHABET_def ascii_def)
  then have "\<forall>u \<in> set long_text. u \<in> set UNIFIED_ALPHABET \<and> u \<noteq> 0xD1"
    unfolding long_text_def by (simp only: set_replicate_conv_if) simp
  then show "normalizeInput long_text UNIFIED_ALPHABET = long_text"
    by (rule normalizeInput_fixed)
  show "length long_text = 16385"
    unfolding long_text_def by (rule length_replicate)
qed

section \<open>The claims\<close>

text \<open>
  Claim C1. For index sequences \<open>m\<close> and \<open>p\<close> of equal length whose
  values all lie in \<open>[0, M)\<close>, decoding the encoding with the same pad gives
  back \<open>m\<close> exactly: \<open>otpSub (otpAdd m p M) p M = m\<close>. The \<open>+
  M\<close> before the second remainder of \<open>otpSub\<close> removes the negative
  remainders of the truncating \<^verbatim>\<open>%\<close>.
\<close>

theorem otp_roundtrip:
  assumes len: "length m = length p"
    and m: "\<forall>v \<in> set m. 0 \<le> v \<and> v < M"
    and p: "\<forall>v \<in> set p. 0 \<le> v \<and> v < M"
  shows "otpSub (otpAdd (map Num m) (map Num p) (Num M)) (map Num p) (Num M) = map Num m"
proof (rule nth_equalityI)
  show "length (otpSub (otpAdd (map Num m) (map Num p) (Num M)) (map Num p) (Num M))
      = length (map Num m)"
    by (simp add: length_otpSub length_otpAdd)
next
  fix i
  assume "i < length (otpSub (otpAdd (map Num m) (map Num p) (Num M)) (map Num p) (Num M))"
  then have i: "i < length m" by (simp add: length_otpSub length_otpAdd)
  then have ip: "i < length p" using len by simp
  have a: "0 \<le> m ! i" "m ! i < M" using m i by auto
  have b: "0 \<le> p ! i" "p ! i < M" using p ip by auto
  have M: "M \<noteq> 0" using a by auto
  show "otpSub (otpAdd (map Num m) (map Num p) (Num M)) (map Num p) (Num M) ! i = map Num m ! i"
    using i ip M roundtrip_element [OF a b]
    by (simp add: otpSub_def otpAdd_def nth_enumerate_eq num_at_def)
qed

theorem otp_roundtrip_witness:
  "length [7, 63 :: int] = length [60, 63 :: int]
   \<and> otpSub (otpAdd (map Num [7, 63]) (map Num [60, 63]) (Num 64)) (map Num [60, 63]) (Num 64)
       = map Num [7, 63]"
  using otp_roundtrip [of "[7, 63]" "[60, 63]" 64] by simp

text \<open>
  Claim C2. The claim and the component's own self-test
  (\<^verbatim>\<open>console.assert(norm === ..., "Normalization failed (expected diacritics removed, ... preserved)")\<close>)
  expect that normalizing \<open>canci\<close> U+00F3 \<open>n NI\<close> U+00D1 \<open>O
  123 !\<close> keeps the letter U+00D1. The code returns \<open>CANCION NINO 123
  !\<close>: the decomposition turns U+00D1 into \<open>N\<close> and U+0303, and the mark
  is deleted with the accent of the \<open>O\<close>.
\<close>

theorem normalize_selftest:
  "normalizeInput (ascii ''canci'' @ [0xF3] @ ascii ''n NI'' @ [0xD1] @ ascii ''O 123 !'')
     UNIFIED_ALPHABET = ascii ''CANCION NINO 123 !''
   \<and> ascii ''CANCION NINO 123 !'' \<noteq> ascii ''CANCION NI'' @ [0xD1] @ ascii ''O 123 !''"
proof
  show "normalizeInput (ascii ''canci'' @ [0xF3] @ ascii ''n NI'' @ [0xD1] @ ascii ''O 123 !'')
     UNIFIED_ALPHABET = ascii ''CANCION NINO 123 !''"
    unfolding normalizeInput_def Let_def selftest_toUpperCase selftest_nfd selftest_filter ..
  show "ascii ''CANCION NINO 123 !'' \<noteq> ascii ''CANCION NI'' @ [0xD1] @ ascii ''O 123 !''"
    by (simp add: ascii_def)
qed

text \<open>
  Claim C3 as stated, and a counterexample. The claim says that \<open>otpAdd\<close> and
  \<open>otpSub\<close> fail with an error that reports both lengths when their operands
  differ in length. They do not compare the lengths and never fail: with a shorter pad the
  positions past its end are \<^verbatim>\<open>NaN\<close>, and a longer pad is read only
  as far as the first operand goes.
\<close>

theorem otp_unequal_lengths_counterexample:
  "otpAdd [Num 1, Num 2] [Num 3] (Num 64) = [Num 4, NaN]
   \<and> otpSub [Num 1] [Num 3, Num 5] (Num 64) = [Num 62]"
  by (simp add: otpAdd_def otpSub_def enumerate_eq_zip num_at_def trunc_rem_def)

text \<open>
  Claim C3, amended: for all operands, \<open>otpAdd\<close> and \<open>otpSub\<close>
  return a sequence as long as their first operand, and every position at or past the end
  of the second operand holds \<^verbatim>\<open>NaN\<close>. (The comparison of the
  lengths is made by the caller \<open>onDecrypt\<close>, see C6.)
\<close>

theorem otp_no_length_check:
  "length (otpAdd m p md) = length m
   \<and> length (otpSub m p md) = length m
   \<and> (length p \<le> i \<and> i < length m \<longrightarrow> otpAdd m p md ! i = NaN \<and> otpSub m p md ! i = NaN)"
  by (simp add: length_otpAdd length_otpSub otp_past_pad)

theorem otp_no_length_check_witness:
  "length (otpAdd [Num 1, Num 2] [Num 3] (Num 64)) = 2
   \<and> length (otpSub [Num 1, Num 2] [Num 3] (Num 64)) = 2
   \<and> otpAdd [Num 1, Num 2] [Num 3] (Num 64) ! 1 = NaN
   \<and> otpSub [Num 1, Num 2] [Num 3] (Num 64) ! 1 = NaN"
  using otp_no_length_check [of "[Num 1, Num 2]" "[Num 3]" "Num 64" 1] by simp

text \<open>
  Claim C4. The normalizer is idempotent: for every string \<open>x\<close>, normalizing
  the normalized \<open>x\<close> gives the normalized \<open>x\<close>. (A normalized
  string consists of upper-case letters, digits and signs of the ASCII part of the
  alphabet, which every step leaves alone.)
\<close>

theorem normalizeInput_idempotent:
  "normalizeInput (normalizeInput x UNIFIED_ALPHABET) UNIFIED_ALPHABET
   = normalizeInput x UNIFIED_ALPHABET"
proof (rule normalizeInput_fixed, rule ballI)
  fix u
  assume u: "u \<in> set (normalizeInput x UNIFIED_ALPHABET)"
  then have "u \<in> set UNIFIED_ALPHABET" by (simp add: normalizeInput_mem)
  moreover have "u \<noteq> 0xD1" using u normalizeInput_free by metis
  ultimately show "u \<in> set UNIFIED_ALPHABET \<and> u \<noteq> 0xD1" by simp
qed

text \<open>
  Claim C5. The claim, and the third self-test of the component
  (\<^verbatim>\<open>console.assert(rnd.length === 10, "Random pad length mismatch")\<close>), say that the
  generator returns a pad of exactly the requested length, for every length. The code
  asks \<^verbatim>\<open>crypto.getRandomValues\<close> for all \<open>4 * len\<close> bytes in one call and has no
  provision for the 65536 bytes that one call may ask for: at the requested length 16385
  it returns no pad but raises \<^verbatim>\<open>QuotaExceededError\<close>, and \<open>onEncrypt\<close>, which passes the
  length of any normalized message, ends in the error status for a message of 16385
  letters.
\<close>

theorem randomPad_quota_failure:
  "randomPad zeros 16385 UNIFIED_ALPHABET = Inl QuotaExceededError
   \<and> length (normalizeInput (message long_message) UNIFIED_ALPHABET) = 16385
   \<and> onEncrypt platform_text zeros long_message
       = setErr (platform_text QuotaExceededError) long_message"
proof (intro conjI)
  show "randomPad zeros 16385 UNIFIED_ALPHABET = Inl QuotaExceededError"
    by (rule randomPad_Inl) simp
  show len: "length (normalizeInput (message long_message) UNIFIED_ALPHABET) = 16385"
    by (simp add: long_message_def long_text_normalized)
  have "16384 < length (normalizeInput (message long_message) UNIFIED_ALPHABET)"
    unfolding len by simp
  then show "onEncrypt platform_text zeros long_message
       = setErr (platform_text QuotaExceededError) long_message"
    by (rule onEncrypt_quota)
qed



text \<open>
  Claim C7 as stated, and a counterexample. The claim ends the countdown in
  \<open>Idle\<close>. \<open>resetAll\<close> leaves \<open>modeScreen\<close> as it is,
  so the 300th tick after a decryption leads to the first screen of the decrypt mode,
  \<open>AwaitingPad\<close>, not to the choice of mode.
\<close>

theorem countdown_expiry_counterexample:
  "phase_of (onDecrypt scenario_D) = DecryptedActive 300
   \<and> phase_of ((tick ^^ 300) (onDecrypt scenario_D)) = AwaitingPad
   \<and> phase_of ((tick ^^ 300) (onDecrypt scenario_D)) \<noteq> Idle"
proof -
  obtain st m where d: "onDecrypt scenario_D
      = scenario_D\<lparr>message := m, countdown := Some 300, status := st, timer := True\<rparr>"
    using scenario_D_decrypted by blast
  have mode: "modeScreen scenario_D = Some Decrypt" "decryptStep scenario_D = Ready"
    using scenario_D_facts(1) by (simp_all add: phase_PadAccepted)
  have "(tick ^^ 300) (onDecrypt scenario_D) = (resetAll (onDecrypt scenario_D))\<lparr>timer := False\<rparr>"
    by (rule ticks_expire) (simp_all add: d)
  then show ?thesis
    by (simp add: d phase_DecryptedActive mode) (simp add: phase_of_def resetAll_def mode)
qed

text \<open>
  Claim C7, amended: a tick takes \<open>DecryptedActive n\<close> to
  \<open>DecryptedActive (n - 1)\<close> for \<open>n > 1\<close>, changing nothing but the
  countdown, and takes \<open>DecryptedActive 1\<close> to \<open>AwaitingPad\<close> with
  plaintext, pad and ciphertext empty, the countdown removed and the interval cleared. A
  decryption in \<open>PadAccepted\<close> of a non-empty normalized ciphertext as long as
  the pad succeeds, installs the plaintext and enters \<open>DecryptedActive 300\<close>;
  after \<open>k < 300\<close> ticks the session is in \<open>DecryptedActive (300 -
  k)\<close>, and after 300 ticks in \<open>AwaitingPad\<close> with everything erased.
\<close>

theorem countdown_expiry:
  "(consistent t \<and> phase_of t = DecryptedActive n \<and> 1 < n \<longrightarrow>
      tick t = t\<lparr>countdown := Some (n - 1)\<rparr> \<and> phase_of (tick t) = DecryptedActive (n - 1))
   \<and> (consistent t \<and> phase_of t = DecryptedActive 1 \<longrightarrow>
      phase_of (tick t) = AwaitingPad \<and> message (tick t) = [] \<and> pad (tick t) = []
      \<and> cipher (tick t) = [] \<and> countdown (tick t) = None \<and> \<not> timer (tick t))
   \<and> (phase_of s = PadAccepted \<and> normalizeInput (cipher s) UNIFIED_ALPHABET \<noteq> []
       \<and> length (normalizeInput (cipher s) UNIFIED_ALPHABET) = length (pad s) \<longrightarrow>
      phase_of (onDecrypt s) = DecryptedActive 300
      \<and> message (onDecrypt s)
          = fromIndices (otpSub (toIndices (normalizeInput (cipher s) UNIFIED_ALPHABET) UNIFIED_ALPHABET)
                                (toIndices (pad s) UNIFIED_ALPHABET) modulus) UNIFIED_ALPHABET
      \<and> (\<forall>k<300. phase_of ((tick ^^ k) (onDecrypt s)) = DecryptedActive (300 - int k))
      \<and> phase_of ((tick ^^ 300) (onDecrypt s)) = AwaitingPad
      \<and> message ((tick ^^ 300) (onDecrypt s)) = []
      \<and> pad ((tick ^^ 300) (onDecrypt s)) = []
      \<and> cipher ((tick ^^ 300) (onDecrypt s)) = []
      \<and> countdown ((tick ^^ 300) (onDecrypt s)) = None
      \<and> \<not> timer ((tick ^^ 300) (onDecrypt s)))"
proof (intro conjI impI)
  assume t: "consistent t \<and> phase_of t = DecryptedActive n \<and> 1 < n"
  then have c: "countdown t = Some n" "modeScreen t = Some Decrypt" "decryptStep t = Ready"
    by (simp_all add: phase_DecryptedActive)
  then have "timer t" using t by (simp add: consistent_def)
  then show step: "tick t = t\<lparr>countdown := Some (n - 1)\<rparr>"
    using c t by (simp add: tick_decrement)
  show "phase_of (tick t) = DecryptedActive (n - 1)"
    unfolding step by (simp add: phase_DecryptedActive c)
next
  assume t: "consistent t \<and> phase_of t = DecryptedActive 1"
  then have c: "countdown t = Some 1" "modeScreen t = Some Decrypt" "decryptStep t = Ready"
    by (simp_all add: phase_DecryptedActive)
  then have "timer t" using t by (simp add: consistent_def)
  then have last: "tick t = (resetAll t)\<lparr>timer := False\<rparr>"
    using c by (simp add: tick_expire)
  show "phase_of (tick t) = AwaitingPad" "message (tick t) = []" "pad (tick t) = []"
    "cipher (tick t) = []" "countdown (tick t) = None" "\<not> timer (tick t)"
    unfolding last by (simp_all add: resetAll_def phase_of_def c)
next
  assume s: "phase_of s = PadAccepted \<and> normalizeInput (cipher s) UNIFIED_ALPHABET \<noteq> []
       \<and> length (normalizeInput (cipher s) UNIFIED_ALPHABET) = length (pad s)"
  then have c: "countdown s = None" "modeScreen s = Some Decrypt" "decryptStep s = Ready"
    by (simp_all add: phase_PadAccepted)
  obtain s' where s': "decrypt_body s = Inr s'"
    and plain: "message s' = fromIndices (otpSub
        (toIndices (normalizeInput (cipher s) UNIFIED_ALPHABET) UNIFIED_ALPHABET)
        (toIndices (pad s) UNIFIED_ALPHABET) modulus) UNIFIED_ALPHABET"
    using decrypt_body_ok [OF c(3)] s by blast
  have d: "onDecrypt s = s\<lparr>message := message s', countdown := Some 300, status := status s',
                           timer := True\<rparr>"
    using c(1) s' by (rule onDecrypt_success)
  show "phase_of (onDecrypt s) = DecryptedActive 300"
    by (simp add: d phase_DecryptedActive c)
  show "message (onDecrypt s) = fromIndices (otpSub
        (toIndices (normalizeInput (cipher s) UNIFIED_ALPHABET) UNIFIED_ALPHABET)
        (toIndices (pad s) UNIFIED_ALPHABET) modulus) UNIFIED_ALPHABET"
    by (simp add: d plain)
  show "\<forall>k<300. phase_of ((tick ^^ k) (onDecrypt s)) = DecryptedActive (300 - int k)"
  proof (intro allI impI)
    fix k :: nat
    assume "k < 300"
    then have "(tick ^^ k) (onDecrypt s) = (onDecrypt s)\<lparr>countdown := Some (300 - int k)\<rparr>"
      by (intro ticks_before_expiry) (simp_all add: d)
    then show "phase_of ((tick ^^ k) (onDecrypt s)) = DecryptedActive (300 - int k)"
      by (simp add: d phase_DecryptedActive c)
  qed
  have last: "(tick ^^ 300) (onDecrypt s) = (resetAll (onDecrypt s))\<lparr>timer := False\<rparr>"
    by (rule ticks_expire) (simp_all add: d)
  show "phase_of ((tick ^^ 300) (onDecrypt s)) = AwaitingPad"
    "message ((tick ^^ 300) (onDecrypt s)) = []" "pad ((tick ^^ 300) (onDecrypt s)) = []"
    "cipher ((tick ^^ 300) (onDecrypt s)) = []" "countdown ((tick ^^ 300) (onDecrypt s)) = None"
    "\<not> timer ((tick ^^ 300) (onDecrypt s))"
    unfolding last by (simp_all add: resetAll_def phase_of_def d c)
qed

theorem countdown_expiry_witness:
  "phase_of (tick scenario_E) = DecryptedActive 149
   \<and> phase_of (onDecrypt scenario_D) = DecryptedActive 300
   \<and> phase_of ((tick ^^ 299) (onDecrypt scenario_D)) = DecryptedActive 1
   \<and> phase_of (tick ((tick ^^ 299) (onDecrypt scenario_D))) = AwaitingPad
   \<and> phase_of ((tick ^^ 300) (onDecrypt scenario_D)) = AwaitingPad
   \<and> message ((tick ^^ 300) (onDecrypt scenario_D)) = []
   \<and> pad ((tick ^^ 300) (onDecrypt scenario_D)) = []
   \<and> cipher ((tick ^^ 300) (onDecrypt scenario_D)) = []"
proof -
  let ?t = "(tick ^^ 299) (onDecrypt scenario_D)"
  have pre1: "consistent scenario_E \<and> phase_of scenario_E = DecryptedActive 150 \<and> (1 :: int) < 150"
    using scenario_E_facts by simp
  have pre3: "phase_of scenario_D = PadAccepted
      \<and> normalizeInput (cipher scenario_D) UNIFIED_ALPHABET \<noteq> []
      \<and> length (normalizeInput (cipher scenario_D) UNIFIED_ALPHABET) = length (pad scenario_D)"
    using scenario_D_facts by blast
  note all = countdown_expiry [of scenario_E 150 scenario_D]
  note first = all [THEN conjunct1, THEN mp, OF pre1]
  note third = all [THEN conjunct2, THEN conjunct2, THEN mp, OF pre3]
  have "phase_of (tick scenario_E) = DecryptedActive (150 - 1)"
    using first by blast
  then have one: "phase_of (tick scenario_E) = DecryptedActive 149"
    by simp
  have three: "phase_of (onDecrypt scenario_D) = DecryptedActive 300"
    "\<forall>k<300. phase_of ((tick ^^ k) (onDecrypt scenario_D)) = DecryptedActive (300 - int k)"
    "phase_of ((tick ^^ 300) (onDecrypt scenario_D)) = AwaitingPad"
    "message ((tick ^^ 300) (onDecrypt scenario_D)) = []"
    "pad ((tick ^^ 300) (onDecrypt scenario_D)) = []"
    "cipher ((tick ^^ 300) (onDecrypt scenario_D)) = []"
    using third by blast+
  have "(299 :: nat) < 300" by simp
  with three(2) have "phase_of ?t = DecryptedActive (300 - int 299)" by blast
  then have t1: "phase_of ?t = DecryptedActive 1" by simp
  obtain st m where d: "onDecrypt scenario_D
      = scenario_D\<lparr>message := m, countdown := Some 300, status := st, timer := True\<rparr>"
    using scenario_D_decrypted by blast
  have "?t = (onDecrypt scenario_D)\<lparr>countdown := Some (300 - int 299)\<rparr>"
    by (rule ticks_before_expiry) (simp_all add: d)
  then have "consistent ?t" by (simp add: d consistent_def)
  then have pre2: "consistent ?t \<and> phase_of ?t = DecryptedActive 1" using t1 by simp
  have two: "phase_of (tick ?t) = AwaitingPad"
    using countdown_expiry [of ?t 1 scenario_D, THEN conjunct2, THEN conjunct1, THEN mp, OF pre2]
    by blast
  show ?thesis using one two three(1,3-6) t1 by blast
qed

text \<open>
  Claim C8 as stated, and a counterexample. The claim sends every state to
  \<open>Idle\<close> on clear. \<open>onClearAll\<close> is \<open>resetAll\<close>, which
  keeps the chosen mode: from \<open>DecryptedActive 150\<close> the session goes to
  \<open>AwaitingPad\<close>.
\<close>

theorem clear_counterexample:
  "phase_of scenario_E = DecryptedActive 150
   \<and> phase_of (onClearAll scenario_E) = AwaitingPad
   \<and> phase_of (onClearAll scenario_E) \<noteq> Idle"
proof -
  have "onClearAll scenario_E = (resetAll scenario_E)\<lparr>timer := False\<rparr>"
    using scenario_E_facts(2) by (rule onClearAll_eq)
  then have "phase_of (onClearAll scenario_E) = AwaitingPad"
    by (simp add: phase_of_def resetAll_def scenario_E_facts(3))
  then show ?thesis
    using scenario_E_facts(1) by simp
qed

text \<open>
  Claim C8, amended: from every state in which the interval is in step with the countdown
  (all reachable states are), \<open>onClearAll\<close> keeps \<open>modeScreen\<close> and
  returns to the first screen of the current mode (\<open>AwaitingPad\<close> in decrypt
  mode, \<open>MessageEntry\<close> in encrypt mode, \<open>Idle\<close> without a mode);
  message, ciphertext, pad and pad input are empty, the countdown is removed and its
  interval cleared, so that no number of later ticks changes the state. (Even the callback
  of the cleared interval, were it to run, would end in the same state.)
\<close>

theorem clear_resets:
  assumes "consistent s"
  shows "phase_of (onClearAll s)
         = (case modeScreen s of None \<Rightarrow> Idle | Some Decrypt \<Rightarrow> AwaitingPad
            | Some Encrypt \<Rightarrow> MessageEntry)
     \<and> modeScreen (onClearAll s) = modeScreen s
     \<and> message (onClearAll s) = [] \<and> cipher (onClearAll s) = []
     \<and> pad (onClearAll s) = [] \<and> padInput (onClearAll s) = []
     \<and> countdown (onClearAll s) = None \<and> \<not> timer (onClearAll s)
     \<and> (\<forall>k. (tick ^^ k) (onClearAll s) = onClearAll s)
     \<and> interval_callback (onClearAll s) = onClearAll s"
proof -
  have eq: "onClearAll s = (resetAll s)\<lparr>timer := False\<rparr>"
    using assms by (rule onClearAll_eq)
  have "\<not> timer (onClearAll s)" by (simp add: eq)
  then have "\<forall>k. (tick ^^ k) (onClearAll s) = onClearAll s"
    by (simp add: tick_idle)
  moreover have "interval_callback (onClearAll s) = onClearAll s"
    unfolding eq by (rule stale_callback)
  ultimately show ?thesis
    by (simp add: eq resetAll_def phase_of_def split: option.splits mode.splits)
qed

theorem clear_resets_witness:
  "phase_of (onClearAll scenario_E) = AwaitingPad
   \<and> message (onClearAll scenario_E) = [] \<and> cipher (onClearAll scenario_E) = []
   \<and> pad (onClearAll scenario_E) = [] \<and> padInput (onClearAll scenario_E) = []
   \<and> countdown (onClearAll scenario_E) = None \<and> \<not> timer (onClearAll scenario_E)
   \<and> tick (onClearAll scenario_E) = onClearAll scenario_E"
proof -
  note r = clear_resets [OF scenario_E_facts(2)]
  from r have "(tick ^^ 1) (onClearAll scenario_E) = onClearAll scenario_E" by blast
  then have "tick (onClearAll scenario_E) = onClearAll scenario_E" by simp
  then show ?thesis using r by (simp add: scenario_E_facts(3))
qed

text \<open>
  Claim C9. The letter U+00D1 (N with tilde) is a member of the alphabet, but for every
  input \<open>x\<close> the output of \<open>normalizeInput x UNIFIED_ALPHABET\<close> is
  free of it: the decomposition rewrites it, and its lower case U+00F1, to \<open>N\<close>
  followed by the combining tilde U+0303, which \<open>strip_marks\<close> deletes. So no
  normalized message, pad or ciphertext contains it.
\<close>

theorem normalized_never_N_tilde:
  "0xD1 \<in> set UNIFIED_ALPHABET
   \<and> 0xD1 \<notin> set (normalizeInput x UNIFIED_ALPHABET)
   \<and> normalizeInput [0xD1] UNIFIED_ALPHABET = ascii ''N''
   \<and> normalizeInput [0xF1] UNIFIED_ALPHABET = ascii ''N''"
proof (intro conjI)
  show "0xD1 \<in> set UNIFIED_ALPHABET"
    by (simp add: UNIFIED_ALPHABET_def)
  show "0xD1 \<notin> set (normalizeInput x UNIFIED_ALPHABET)"
    by (rule normalizeInput_free)
  have upper: "toUpperCase [0xD1] = [0xD1]" "toUpperCase [0xF1] = [0xD1]"
    by (simp_all add: toUpperCase_def toUpper_cp_def find_block_def upper_blocks_def
        upper_00_def upper_01_def from_code_points_def utf16_def)
  have nfd: "nfd [0xD1] = [0x4E, 0x303]"
    by (simp add: nfd_def decompose_cp_N_tilde ccc_zero ccc_def find_block_def ccc_blocks_def
        ccc_00_def from_code_points_def utf16_def)
  have keep: "foldl (\<lambda>out ch. if includes_str UNIFIED_ALPHABET ch then out @ ch else out) []
      (chars (strip_marks [0x4E, 0x303])) = ascii ''N''"
    by (simp add: strip_marks_def chars_def utf16_def UNIFIED_ALPHABET_def ascii_def)
  show "normalizeInput [0xD1] UNIFIED_ALPHABET = ascii ''N''"
    unfolding normalizeInput_def Let_def upper nfd keep ..
  show "normalizeInput [0xF1] UNIFIED_ALPHABET = ascii ''N''"
    unfolding normalizeInput_def Let_def upper nfd keep ..
qed

text \<open>
  Claim C10. The alphabet has exactly 64 distinct symbols and 64 divides \<open>2 ^ 32\<close>. In a
  pad that \<open>randomPad\<close> returns, the symbol at position \<open>i\<close> is the alphabet's symbol at
  the reduction \<^verbatim>\<open>n % mod\<close> of the random element \<open>i\<close>, and whatever the other elements
  are, exactly \<open>2 ^ 26\<close> of the \<open>2 ^ 32\<close> values of element \<open>i\<close> give the symbol of index
  \<open>r\<close> there, for each \<open>r\<close> of \<open>[0, 64)\<close>: a uniform element gives a uniform symbol.
\<close>

theorem uniform_reduction:
  "length UNIFIED_ALPHABET = 64
   \<and> distinct UNIFIED_ALPHABET
   \<and> (2 :: nat) ^ 32 = 64 * 2 ^ 26
   \<and> (i < len \<and> len \<le> 16384 \<longrightarrow>
        (\<exists>pad. randomPad rnd len UNIFIED_ALPHABET = Inr pad \<and> length pad = len
           \<and> pad ! i = UNIFIED_ALPHABET ! (unat (rnd i) mod 64)
           \<and> toIndices pad UNIFIED_ALPHABET ! i = js_rem (Num (uint (rnd i))) modulus))
   \<and> (i < len \<and> len \<le> 16384 \<and> 0 \<le> r \<and> r < 64 \<longrightarrow>
        card {w :: 32 word. \<exists>pad. randomPad (rnd(i := w)) len UNIFIED_ALPHABET = Inr pad
                \<and> toIndices pad UNIFIED_ALPHABET ! i = Num r} = 2 ^ 26)
   \<and> (\<forall>r. 0 \<le> r \<and> r < 64 \<longrightarrow>
         card {w :: 32 word. js_rem (Num (uint w)) modulus = Num r} = 2 ^ 26)"
proof (intro conjI allI impI)
  show "length UNIFIED_ALPHABET = 64" by (rule length_alphabet)
  show "distinct UNIFIED_ALPHABET" by (rule distinct_alphabet)
  show "(2 :: nat) ^ 32 = 64 * 2 ^ 26" by simp
next
  assume "i < len \<and> len \<le> 16384"
  then show "\<exists>pad. randomPad rnd len UNIFIED_ALPHABET = Inr pad \<and> length pad = len
           \<and> pad ! i = UNIFIED_ALPHABET ! (unat (rnd i) mod 64)
           \<and> toIndices pad UNIFIED_ALPHABET ! i = js_rem (Num (uint (rnd i))) modulus"
    by (intro randomPad_position) simp_all
next
  assume a: "i < len \<and> len \<le> 16384 \<and> 0 \<le> r \<and> r < 64"
  then have "nat r < 64" by linarith
  then have "card {w :: 32 word. unat w mod 64 = nat r} = 2 ^ 26"
    by (rule card_residue_class)
  moreover have "{w :: 32 word. \<exists>pad. randomPad (rnd(i := w)) len UNIFIED_ALPHABET = Inr pad
            \<and> toIndices pad UNIFIED_ALPHABET ! i = Num r} = {w. unat w mod 64 = nat r}"
    using a by (intro pad_index_class) simp_all
  ultimately show "card {w :: 32 word. \<exists>pad. randomPad (rnd(i := w)) len UNIFIED_ALPHABET = Inr pad
                \<and> toIndices pad UNIFIED_ALPHABET ! i = Num r} = 2 ^ 26"
    by (simp only:)
next
  fix r :: int
  assume r: "0 \<le> r \<and> r < 64"
  have "js_rem (Num (uint w)) modulus = Num r \<longleftrightarrow> unat w mod 64 = nat r" for w :: "32 word"
  proof -
    have "js_rem (Num (uint w)) modulus = Num (int (unat w mod 64))"
      unfolding modulus_eq by (simp only: js_rem.simps reduce_word) simp
    then show ?thesis using r by auto
  qed
  then have "{w :: 32 word. js_rem (Num (uint w)) modulus = Num r} = {w. unat w mod 64 = nat r}"
    by simp
  moreover have "nat r < 64" using r by linarith
  ultimately show "card {w :: 32 word. js_rem (Num (uint w)) modulus = Num r} = 2 ^ 26"
    by (simp only: card_residue_class)
qed

theorem uniform_reduction_witness:
  "(\<exists>pad. randomPad zeros 3 UNIFIED_ALPHABET = Inr pad \<and> length pad = 3
      \<and> pad ! 1 = UNIFIED_ALPHABET ! (unat (zeros 1) mod 64)
      \<and> toIndices pad UNIFIED_ALPHABET ! 1 = js_rem (Num (uint (zeros 1))) modulus)
   \<and> card {w :: 32 word. \<exists>pad. randomPad (zeros(1 := w)) 3 UNIFIED_ALPHABET = Inr pad
              \<and> toIndices pad UNIFIED_ALPHABET ! 1 = Num 5} = 2 ^ 26
   \<and> card {w :: 32 word. js_rem (Num (uint w)) modulus = Num 5} = 2 ^ 26"
proof -
  note u = uniform_reduction [of 1 3 zeros 5]
  have p1: "(1 :: nat) < 3 \<and> (3 :: nat) \<le> 16384" by simp
  have p2: "(1 :: nat) < 3 \<and> (3 :: nat) \<le> 16384 \<and> 0 \<le> (5 :: int) \<and> (5 :: int) < 64" by simp
  have p3: "0 \<le> (5 :: int) \<and> (5 :: int) < 64" by simp
  note a = u [THEN conjunct2, THEN conjunct2, THEN conjunct2, THEN conjunct1, THEN mp, OF p1]
  note b = u [THEN conjunct2, THEN conjunct2, THEN conjunct2, THEN conjunct2, THEN conjunct1, THEN mp, OF p2]
  note c = u [THEN conjunct2, THEN conjunct2, THEN conjunct2, THEN conjunct2, THEN conjunct2,
      THEN spec, THEN mp, OF p3]
  show ?thesis using a b c by (intro conjI)
qed

end
